theory Spec2Isabelle
  imports Complex_Main
begin

section \<open>Numeric values\<close>

text \<open>
  The program computes with numpy float64 and complex128 values.  A value is modelled
  as either a finite number, taken as an exact real or complex number (rounding and
  overflow are not modelled), or \<open>NonFinite\<close>, which stands for an infinity or a NaN
  (in either part, for a complex value).  numpy does not raise on a division by zero
  or on the root of a negative number: it returns such a value, and every arithmetic
  operation on it returns one again.
\<close>

datatype 'a np = Fin 'a | NonFinite

fun is_fin :: "'a np \<Rightarrow> bool" where
  "is_fin (Fin a) = True"
| "is_fin NonFinite = False"

fun fin_val :: "'a::zero np \<Rightarrow> 'a" where
  "fin_val (Fin a) = a"
| "fin_val NonFinite = 0"

fun np_map :: "('a \<Rightarrow> 'b) \<Rightarrow> 'a np \<Rightarrow> 'b np" where
  "np_map f (Fin a) = Fin (f a)"
| "np_map f NonFinite = NonFinite"

instantiation np :: (one) one
begin
definition one_np :: "'a np" where "one_np = Fin 1"
instance ..
end

instantiation np :: (zero) zero
begin
definition zero_np :: "'a np" where "zero_np = Fin 0"
instance ..
end

instantiation np :: (plus) plus
begin
fun plus_np :: "'a np \<Rightarrow> 'a np \<Rightarrow> 'a np" where
  "plus_np (Fin a) (Fin b) = Fin (a + b)"
| "plus_np _ _ = NonFinite"
instance ..
end

instantiation np :: (minus) minus
begin
fun minus_np :: "'a np \<Rightarrow> 'a np \<Rightarrow> 'a np" where
  "minus_np (Fin a) (Fin b) = Fin (a - b)"
| "minus_np _ _ = NonFinite"
instance ..
end

instantiation np :: (uminus) uminus
begin
fun uminus_np :: "'a np \<Rightarrow> 'a np" where
  "uminus_np (Fin a) = Fin (- a)"
| "uminus_np NonFinite = NonFinite"
instance ..
end

instantiation np :: (times) times
begin
fun times_np :: "'a np \<Rightarrow> 'a np \<Rightarrow> 'a np" where
  "times_np (Fin a) (Fin b) = Fin (a * b)"
| "times_np _ _ = NonFinite"
instance ..
end

text \<open>
  The lifted operations keep the laws of a commutative semiring with a unit (but
  \<open>0 * NonFinite\<close> is \<open>NonFinite\<close>, as \<open>0 * inf\<close> is NaN), which is what lets sums of
  products be rearranged.
\<close>

instance np :: (comm_monoid_add) comm_monoid_add
proof
  fix a b c :: "'a np"
  show "a + b + c = a + (b + c)"
    by (cases a; cases b; cases c) (simp_all add: add.assoc)
  show "a + b = b + a"
    by (cases a; cases b) (simp_all add: add.commute)
  show "0 + a = a"
    by (cases a) (simp_all add: zero_np_def)
qed

instance np :: (comm_monoid_mult) comm_monoid_mult
proof
  fix a b c :: "'a np"
  show "a * b * c = a * (b * c)"
    by (cases a; cases b; cases c) (simp_all add: mult.assoc)
  show "a * b = b * a"
    by (cases a; cases b) (simp_all add: mult.commute)
  show "1 * a = a"
    by (cases a) (simp_all add: one_np_def)
qed

instance np :: (comm_semiring_1) comm_semiring
proof
  fix a b c :: "'a np"
  show "(a + b) * c = a * c + b * c"
    by (cases a; cases b; cases c) (simp_all add: distrib_right)
qed

instance np :: (comm_semiring_1) semiring_numeral ..

text \<open>numpy's \<open>a / b\<close>: a zero divisor gives an infinity or a NaN, never an exception.\<close>

instantiation np :: (field) inverse
begin
fun divide_np :: "'a np \<Rightarrow> 'a np \<Rightarrow> 'a np" where
  "divide_np (Fin a) (Fin b) = (if b = 0 then NonFinite else Fin (a / b))"
| "divide_np _ _ = NonFinite"
fun inverse_np :: "'a np \<Rightarrow> 'a np" where
  "inverse_np (Fin a) = (if a = 0 then NonFinite else Fin (inverse a))"
| "inverse_np NonFinite = NonFinite"
instance ..
end

text \<open>\<open>x ** 0.5\<close> on a numpy float: NaN for a negative argument.\<close>

fun np_sqrt :: "real np \<Rightarrow> real np" where
  "np_sqrt (Fin x) = (if x < 0 then NonFinite else Fin (sqrt x))"
| "np_sqrt NonFinite = NonFinite"

text \<open>A finite value other than zero: what a divisor must be for the quotient to be finite.\<close>

fun np_nonzero :: "'a::zero np \<Rightarrow> bool" where
  "np_nonzero (Fin a) = (a \<noteq> 0)"
| "np_nonzero NonFinite = False"

text \<open>A real value used where a complex one is expected (\<open>1j * kr\<close>, \<open>phase / r\<close>).\<close>

definition np_complex :: "real np \<Rightarrow> complex np" where
  "np_complex = np_map complex_of_real"

definition np_exp :: "complex np \<Rightarrow> complex np" where
  "np_exp = np_map exp"

text \<open>\<open>x == 0\<close> on a numpy value: false for a NaN and for an infinity.\<close>

fun np_is_zero :: "'a::zero np \<Rightarrow> bool" where
  "np_is_zero (Fin a) = (a = 0)"
| "np_is_zero NonFinite = False"


section \<open>Python exceptions\<close>

text \<open>
  A Python expression either returns a value or raises.  Arithmetic on such results
  evaluates the left operand first, so the first exception wins.
\<close>

datatype py_error = KeyError | ZeroDivisionError | ValueError | IndexError | AttributeError
  | UnboundLocalError

datatype 'a py = Ret 'a | Raise py_error

fun py_bind :: "'a py \<Rightarrow> ('a \<Rightarrow> 'b py) \<Rightarrow> 'b py" where
  "py_bind (Ret a) f = f a"
| "py_bind (Raise e) f = Raise e"

fun py_map :: "('a \<Rightarrow> 'b) \<Rightarrow> 'a py \<Rightarrow> 'b py" where
  "py_map f (Ret a) = Ret (f a)"
| "py_map f (Raise e) = Raise e"

instantiation py :: (one) one
begin
definition one_py :: "'a py" where "one_py = Ret 1"
instance ..
end

instantiation py :: (zero) zero
begin
definition zero_py :: "'a py" where "zero_py = Ret 0"
instance ..
end

instantiation py :: (plus) plus
begin
fun plus_py :: "'a py \<Rightarrow> 'a py \<Rightarrow> 'a py" where
  "plus_py (Ret a) (Ret b) = Ret (a + b)"
| "plus_py (Raise e) _ = Raise e"
| "plus_py (Ret a) (Raise e) = Raise e"
instance ..
end

instantiation py :: (times) times
begin
fun times_py :: "'a py \<Rightarrow> 'a py \<Rightarrow> 'a py" where
  "times_py (Ret a) (Ret b) = Ret (a * b)"
| "times_py (Raise e) _ = Raise e"
| "times_py (Ret a) (Raise e) = Raise e"
instance ..
end

instance py :: (semigroup_add) semigroup_add
proof
  fix a b c :: "'a py"
  show "a + b + c = a + (b + c)"
    by (cases a; cases b; cases c) (simp_all add: add.assoc)
qed

instance py :: (monoid_add) monoid_add
proof
  fix a :: "'a py"
  show "0 + a = a"
    by (cases a) (simp_all add: zero_py_def)
  show "a + 0 = a"
    by (cases a) (simp_all add: zero_py_def)
qed

instance py :: (numeral) numeral ..

subsection \<open>Dictionaries\<close>

text \<open>
  A dictionary with string keys is the list of its items in insertion order.
  \<open>d[key]\<close> raises KeyError for a missing key.  \<open>py_items\<close> runs the assignments
  \<open>d[key] = expression\<close> in order and stops at the first expression that raises.
\<close>

type_synonym 'a dict = "(string \<times> 'a) list"

definition getitem :: "'a dict \<Rightarrow> string \<Rightarrow> 'a py" where
  "getitem d key = (case map_of d key of None \<Rightarrow> Raise KeyError | Some v \<Rightarrow> Ret v)"

fun py_items :: "(string \<times> 'a py) list \<Rightarrow> 'a dict py" where
  "py_items [] = Ret []"
| "py_items ((key, Raise e) # rest) = Raise e"
| "py_items ((key, Ret v) # rest) = py_bind (py_items rest) (\<lambda>d. Ret ((key, v) # d))"

section \<open>Vectors\<close>

text \<open>A position or a normal is a numpy array of three floats.\<close>

type_synonym vec3 = "real np \<times> real np \<times> real np"

definition vfin :: "real \<times> real \<times> real \<Rightarrow> vec3" where
  "vfin v = (case v of (a, b, c) \<Rightarrow> (Fin a, Fin b, Fin c))"

fun vsub :: "vec3 \<Rightarrow> vec3 \<Rightarrow> vec3" where
  "vsub (a1, a2, a3) (b1, b2, b3) = (a1 - b1, a2 - b2, a3 - b3)"

fun vadd :: "vec3 \<Rightarrow> vec3 \<Rightarrow> vec3" where
  "vadd (a1, a2, a3) (b1, b2, b3) = (a1 + b1, a2 + b2, a3 + b3)"

fun vmul :: "vec3 \<Rightarrow> vec3 \<Rightarrow> vec3" where
  "vmul (a1, a2, a3) (b1, b2, b3) = (a1 * b1, a2 * b2, a3 * b3)"

fun vscale :: "real np \<Rightarrow> vec3 \<Rightarrow> vec3" where
  "vscale c (a1, a2, a3) = (c * a1, c * a2, c * a3)"

fun vsum :: "vec3 \<Rightarrow> real np" where
  "vsum (a1, a2, a3) = a1 + a2 + a3"

text \<open>\<open>a.dot(b)\<close> and \<open>np.einsum('...i,...i', a, b)\<close>.\<close>

definition vdot :: "vec3 \<Rightarrow> vec3 \<Rightarrow> real np" where
  "vdot a b = vsum (vmul a b)"

text \<open>\<open>np.sum(a**2, axis=-1)\<close>.\<close>

fun vsumsq :: "vec3 \<Rightarrow> real np" where
  "vsumsq (a1, a2, a3) = a1 ^ 2 + a2 ^ 2 + a3 ^ 2"


section \<open>TransducerModel\<close>

text \<open>
  The attributes of a \<open>TransducerModel\<close> object: \<open>_k\<close> and \<open>_omega\<close> (the stored
  wavenumber and angular frequency), \<open>effective_radius\<close> and \<open>p0\<close>.  They are Python
  floats, taken as finite numbers; a division by zero on Python floats raises
  ZeroDivisionError.  The module global \<open>c_air\<close> is a parameter of the setters that
  read it.
\<close>

record transducer_model =
  priv_k :: real
  priv_omega :: real
  effective_radius :: real
  p0 :: real

definition get_k :: "transducer_model \<Rightarrow> real" where
  "get_k self = priv_k self"

definition set_k :: "real \<Rightarrow> real \<Rightarrow> transducer_model \<Rightarrow> transducer_model" where
  "set_k c_air v self = self\<lparr>priv_k := v, priv_omega := v * c_air\<rparr>"

definition get_omega :: "transducer_model \<Rightarrow> real" where
  "get_omega self = priv_omega self"

definition set_omega :: "real \<Rightarrow> real \<Rightarrow> transducer_model \<Rightarrow> transducer_model py" where
  "set_omega c_air v self =
     (if c_air = 0 then Raise ZeroDivisionError
      else Ret (self\<lparr>priv_omega := v, priv_k := v / c_air\<rparr>))"

definition get_freq :: "transducer_model \<Rightarrow> real" where
  "get_freq self = get_omega self / 2 / pi"

definition set_freq :: "real \<Rightarrow> real \<Rightarrow> transducer_model \<Rightarrow> transducer_model py" where
  "set_freq c_air v self = set_omega c_air (v * 2 * pi) self"

definition get_wavelength :: "transducer_model \<Rightarrow> real py" where
  "get_wavelength self =
     (if get_k self = 0 then Raise ZeroDivisionError else Ret (2 * pi / get_k self))"

definition set_wavelength :: "real \<Rightarrow> real \<Rightarrow> transducer_model \<Rightarrow> transducer_model py" where
  "set_wavelength c_air v self =
     (if v = 0 then Raise ZeroDivisionError else Ret (set_k c_air (2 * pi / v) self))"

text \<open>\<open>np.exp(1j * self.k * distance) / distance\<close>, on numpy values.\<close>

definition spherical_spreading :: "transducer_model \<Rightarrow> vec3 \<Rightarrow> vec3 \<Rightarrow> complex np" where
  "spherical_spreading self source_position receiver_position =
     (let diff = vsub receiver_position source_position;
          distance = np_sqrt (vdot diff diff)
      in np_exp (Fin \<i> * Fin (complex_of_real (get_k self)) * np_complex distance)
           / np_complex distance)"

text \<open>
  The directivity of the base class, at one receiver position (\<open>ndim == 1\<close>) and at
  a batch of them (an array of ones, one for each position).
\<close>

definition directivity :: "transducer_model \<Rightarrow> vec3 \<Rightarrow> vec3 \<Rightarrow> vec3 \<Rightarrow> real np" where
  "directivity self source_position source_normal receiver_position = 1"

text \<open>
  \<open>greens_function\<close> calls \<open>self.directivity\<close>, which a subclass overrides: the
  method is a parameter.
\<close>

definition greens_function ::
  "(transducer_model \<Rightarrow> vec3 \<Rightarrow> vec3 \<Rightarrow> vec3 \<Rightarrow> real np) \<Rightarrow>
     transducer_model \<Rightarrow> vec3 \<Rightarrow> vec3 \<Rightarrow> vec3 \<Rightarrow> complex np" where
  "greens_function directivity_method self source_position source_normal receiver_position =
     Fin (complex_of_real (p0 self))
       * spherical_spreading self source_position receiver_position
       * np_complex (directivity_method self source_position source_normal receiver_position)"


text \<open>
  \<open>spherical_derivatives\<close>: the dictionary of the partial derivatives of
  \<open>exp (i k r) / r\<close>, with the entries of each order added when \<open>orders\<close> exceeds the
  order below.  A real numpy value that meets a complex one is cast (\<open>np_complex\<close>).
\<close>

definition spherical_derivatives ::
  "transducer_model \<Rightarrow> vec3 \<Rightarrow> vec3 \<Rightarrow> int \<Rightarrow> complex np dict" where
  "spherical_derivatives self source_position receiver_position orders =
     (case vsub receiver_position source_position of (d0, d1, d2) \<Rightarrow>
      let r = np_sqrt (vsumsq (d0, d1, d2));
          kr = Fin (get_k self) * r;
          jkr = Fin \<i> * np_complex kr;
          phase = np_exp jkr;
          derivatives = [('''', phase / np_complex r)];
          derivatives = (if orders > 0 then
            let coeff = (jkr - 1) * phase / np_complex (r ^ 3)
            in derivatives @
               [(''x'', np_complex d0 * coeff),
                (''y'', np_complex d1 * coeff),
                (''z'', np_complex d2 * coeff)]
            else derivatives);
          derivatives = (if orders > 1 then
            let coeff = (np_complex (3 - kr ^ 2) - 3 * jkr) * phase / np_complex (r ^ 5);
                const = (jkr - 1) * phase / np_complex (r ^ 3)
            in derivatives @
               [(''xx'', np_complex (d0 ^ 2) * coeff + const),
                (''yy'', np_complex (d1 ^ 2) * coeff + const),
                (''zz'', np_complex (d2 ^ 2) * coeff + const),
                (''xy'', np_complex (d0 * d1) * coeff),
                (''xz'', np_complex (d0 * d2) * coeff),
                (''yz'', np_complex (d1 * d2) * coeff)]
            else derivatives);
          derivatives = (if orders > 2 then
            let const = (3 - 3 * jkr - np_complex (kr ^ 2)) * phase / np_complex (r ^ 5);
                coeff = ((jkr - 1) * np_complex (15 - kr ^ 2) + np_complex (5 * kr ^ 2)) * phase
                          / np_complex (r ^ 7)
            in derivatives @
               [(''xxx'', np_complex d0 * (3 * const + np_complex (d0 ^ 2) * coeff)),
                (''yyy'', np_complex d1 * (3 * const + np_complex (d1 ^ 2) * coeff)),
                (''zzz'', np_complex d2 * (3 * const + np_complex (d2 ^ 2) * coeff)),
                (''xxy'', np_complex d1 * (const + np_complex (d0 ^ 2) * coeff)),
                (''xxz'', np_complex d2 * (const + np_complex (d0 ^ 2) * coeff)),
                (''yyx'', np_complex d0 * (const + np_complex (d1 ^ 2) * coeff)),
                (''yyz'', np_complex d2 * (const + np_complex (d1 ^ 2) * coeff)),
                (''zzx'', np_complex d0 * (const + np_complex (d2 ^ 2) * coeff)),
                (''zzy'', np_complex d1 * (const + np_complex (d2 ^ 2) * coeff))]
            else derivatives)
      in derivatives)"

text \<open>
  The stencils of \<open>directivity_derivatives\<close>: for each key the shifts (in units of
  the step) and the weights.  The entry for the empty key has the single shift
  \<open>[0, 0, 0]\<close> and the scalar weight 1.
\<close>

definition finite_difference_coefficients ::
  "int \<Rightarrow> ((int \<times> int \<times> int) list \<times> real list) dict" where
  "finite_difference_coefficients orders =
     [('''', [(0, 0, 0)], [1])]
     @ (if orders > 0 then
          [(''x'', [(1, 0, 0), (-1, 0, 0)], [0.5, -0.5]),
           (''y'', [(0, 1, 0), (0, -1, 0)], [0.5, -0.5]),
           (''z'', [(0, 0, 1), (0, 0, -1)], [0.5, -0.5])]
        else [])
     @ (if orders > 1 then
          [(''xx'', [(1, 0, 0), (0, 0, 0), (-1, 0, 0)], [1, -2, 1]),
           (''yy'', [(0, 1, 0), (0, 0, 0), (0, -1, 0)], [1, -2, 1]),
           (''zz'', [(0, 0, 1), (0, 0, 0), (0, 0, -1)], [1, -2, 1]),
           (''xy'', [(1, 1, 0), (-1, -1, 0), (1, -1, 0), (-1, 1, 0)], [0.25, 0.25, -0.25, -0.25]),
           (''xz'', [(1, 0, 1), (-1, 0, -1), (1, 0, -1), (-1, 0, 1)], [0.25, 0.25, -0.25, -0.25]),
           (''yz'', [(0, 1, 1), (0, -1, -1), (0, -1, 1), (0, 1, -1)], [0.25, 0.25, -0.25, -0.25])]
        else [])
     @ (if orders > 2 then
          [(''xxx'', [(2, 0, 0), (-2, 0, 0), (1, 0, 0), (-1, 0, 0)], [0.5, -0.5, -1, 1]),
           (''yyy'', [(0, 2, 0), (0, -2, 0), (0, 1, 0), (0, -1, 0)], [0.5, -0.5, -1, 1]),
           (''zzz'', [(0, 0, 2), (0, 0, -2), (0, 0, 1), (0, 0, -1)], [0.5, -0.5, -1, 1]),
           (''xxy'', [(1, 1, 0), (-1, -1, 0), (1, -1, 0), (-1, 1, 0), (0, 1, 0), (0, -1, 0)],
              [0.5, -0.5, -0.5, 0.5, -1, 1]),
           (''xxz'', [(1, 0, 1), (-1, 0, -1), (1, 0, -1), (-1, 0, 1), (0, 0, 1), (0, 0, -1)],
              [0.5, -0.5, -0.5, 0.5, -1, 1]),
           (''yyx'', [(1, 1, 0), (-1, -1, 0), (-1, 1, 0), (1, -1, 0), (1, 0, 0), (-1, 0, 0)],
              [0.5, -0.5, -0.5, 0.5, -1, 1]),
           (''yyz'', [(0, 1, 1), (0, -1, -1), (0, 1, -1), (0, -1, 1), (0, 0, 1), (0, 0, -1)],
              [0.5, -0.5, -0.5, 0.5, -1, 1]),
           (''zzx'', [(1, 0, 1), (-1, 0, -1), (-1, 0, 1), (1, 0, -1), (1, 0, 0), (-1, 0, 0)],
              [0.5, -0.5, -0.5, 0.5, -1, 1]),
           (''zzy'', [(0, 1, 1), (0, -1, -1), (0, -1, 1), (0, 1, -1), (0, 1, 0), (0, -1, 0)],
              [0.5, -0.5, -0.5, 0.5, -1, 1])]
        else [])"

text \<open>\<open>shifts * h + receiver_position\<close>, for one row of \<open>shifts\<close>.\<close>

definition shifted_position :: "real \<Rightarrow> int \<times> int \<times> int \<Rightarrow> vec3 \<Rightarrow> vec3" where
  "shifted_position h shift receiver_position =
     (case shift of (a, b, c) \<Rightarrow>
        vadd (Fin (of_int a * h), Fin (of_int b * h), Fin (of_int c * h)) receiver_position)"

text \<open>
  \<open>directivity_derivatives\<close> of the base class: the weighted sum of \<open>self.directivity\<close>
  over the shifted positions, divided by \<open>h ** len(derivative)\<close>, where \<open>h = 1 / self.k\<close>
  is a division of Python floats.  It evaluates \<open>self.directivity\<close> on the whole
  array of shifted positions, which is the list of its values at each of them.
\<close>

definition directivity_derivatives ::
  "(transducer_model \<Rightarrow> vec3 \<Rightarrow> vec3 \<Rightarrow> vec3 \<Rightarrow> real np) \<Rightarrow>
     transducer_model \<Rightarrow> vec3 \<Rightarrow> vec3 \<Rightarrow> vec3 \<Rightarrow> int \<Rightarrow> real np dict py" where
  "directivity_derivatives directivity_method self source_position source_normal
       receiver_position orders =
     (if get_k self = 0 then Raise ZeroDivisionError
      else
        let h = 1 / get_k self
        in Ret (map (\<lambda>(derivative, shifts, weights).
                  (derivative,
                   sum_list (map2 (\<lambda>shift weight.
                       directivity_method self source_position source_normal
                         (shifted_position h shift receiver_position) * Fin weight)
                     shifts weights)
                   / Fin (h ^ length derivative)))
                (finite_difference_coefficients orders)))"

text \<open>
  \<open>spatial_derivatives\<close> of the base class.  \<open>self.directivity_derivatives\<close> is a
  method that a subclass overrides, hence a parameter.  \<open>S\<close> and \<open>D\<close> read
  \<open>spherical_derivatives[key]\<close> and \<open>directivity_derivatives[key]\<close>; every entry is
  multiplied by \<open>p0\<close> at the end.
\<close>

definition spatial_derivatives ::
  "(transducer_model \<Rightarrow> vec3 \<Rightarrow> vec3 \<Rightarrow> vec3 \<Rightarrow> int \<Rightarrow> real np dict py) \<Rightarrow>
     transducer_model \<Rightarrow> vec3 \<Rightarrow> vec3 \<Rightarrow> vec3 \<Rightarrow> int \<Rightarrow> complex np dict py" where
  "spatial_derivatives directivity_derivatives_method self source_position source_normal
       receiver_position orders =
     (let spherical = spherical_derivatives self source_position receiver_position orders
      in py_bind (directivity_derivatives_method self source_position source_normal
                    receiver_position orders) (\<lambda>direct.
      let S = getitem spherical;
          D = (\<lambda>key. py_map np_complex (getitem direct key));
          derivatives = [('''', S '''' * D '''')]
            @ (if orders > 0 then
                 [(''x'', S '''' * D ''x'' + D '''' * S ''x''),
                  (''y'', S '''' * D ''y'' + D '''' * S ''y''),
                  (''z'', S '''' * D ''z'' + D '''' * S ''z'')]
               else [])
            @ (if orders > 1 then
                 [(''xx'', S '''' * D ''xx'' + D '''' * S ''xx'' + 2 * D ''x'' * S ''x''),
                  (''yy'', S '''' * D ''yy'' + D '''' * S ''yy'' + 2 * D ''y'' * S ''y''),
                  (''zz'', S '''' * D ''zz'' + D '''' * S ''zz'' + 2 * D ''z'' * S ''z''),
                  (''xy'', S '''' * D ''xy'' + D '''' * S ''xy''
                     + S ''x'' * D ''y'' + D ''x'' * S ''y''),
                  (''xz'', S '''' * D ''xz'' + D '''' * S ''xz''
                     + S ''x'' * D ''z'' + D ''x'' * S ''z''),
                  (''yz'', S '''' * D ''yz'' + D '''' * S ''yz''
                     + S ''y'' * D ''z'' + D ''y'' * S ''z'')]
               else [])
            @ (if orders > 2 then
                 [(''xxx'', S '''' * D ''xxx'' + D '''' * S ''xxx''
                     + 3 * (D ''xx'' * S ''x'' + S ''xx'' * D ''x'')),
                  (''yyy'', S '''' * D ''yyy'' + D '''' * S ''yyy''
                     + 3 * (D ''yy'' * S ''y'' + S ''yy'' * D ''y'')),
                  (''zzz'', S '''' * D ''zzz'' + D '''' * S ''zzz''
                     + 3 * (D ''zz'' * S ''z'' + S ''zz'' * D ''z'')),
                  (''xxy'', S '''' * D ''xxy'' + D '''' * S ''xxy''
                     + S ''y'' * D ''xx'' + D ''y'' * S ''xx''
                     + 2 * (S ''x'' * D ''xy'' + D ''x'' * S ''xy'')),
                  (''xxz'', S '''' * D ''xxz'' + D '''' * S ''xxz''
                     + S ''z'' * D ''xx'' + D ''z'' * S ''xx''
                     + 2 * (S ''x'' * D ''xz'' + D ''x'' * S ''xz'')),
                  (''yyx'', S '''' * D ''yyx'' + D '''' * S ''yyx''
                     + S ''x'' * D ''yy'' + D ''x'' * S ''yy''
                     + 2 * (S ''y'' * D ''xy'' + D ''y'' * S ''xy'')),
                  (''yyz'', S '''' * D ''yyz'' + D '''' * S ''yyz''
                     + S ''z'' * D ''yy'' + D ''z'' * S ''yy''
                     + 2 * (S ''y'' * D ''yz'' + D ''y'' * S ''yz'')),
                  (''zzx'', S '''' * D ''zzx'' + D '''' * S ''zzx''
                     + S ''x'' * D ''zz'' + D ''x'' * S ''zz''
                     + 2 * (S ''z'' * D ''xz'' + D ''z'' * S ''xz'')),
                  (''zzy'', S '''' * D ''zzy'' + D '''' * S ''zzy''
                     + S ''y'' * D ''zz'' + D ''y'' * S ''zz''
                     + 2 * (S ''z'' * D ''yz'' + D ''z'' * S ''yz''))]
               else [])
      in py_bind (py_items derivatives) (\<lambda>derivatives.
           Ret (map (\<lambda>(key, v). (key, v * Fin (complex_of_real (p0 self)))) derivatives))))"

section \<open>Reference: the spherical wave and its partial derivatives\<close>

text \<open>
  The mathematical objects that the theorems about \<open>spherical_derivatives\<close> compare the
  code with.  A point is a triple of reals; \<open>shift ch t p\<close> moves \<open>p\<close> by \<open>t\<close> along
  the axis named by the character \<open>ch\<close>.
\<close>

type_synonym point = "real \<times> real \<times> real"

definition axis :: "char \<Rightarrow> bool" where
  "axis ch = (ch = CHR ''x'' \<or> ch = CHR ''y'' \<or> ch = CHR ''z'')"

fun coord :: "point \<Rightarrow> char \<Rightarrow> real" where
  "coord (a, b, c) ch =
     (if ch = CHR ''x'' then a else if ch = CHR ''y'' then b else if ch = CHR ''z'' then c else 0)"

fun shift :: "char \<Rightarrow> real \<Rightarrow> point \<Rightarrow> point" where
  "shift ch t (a, b, c) =
     (if ch = CHR ''x'' then (a + t, b, c) else if ch = CHR ''y'' then (a, b + t, c)
      else if ch = CHR ''z'' then (a, b, c + t) else (a, b, c))"

fun pdiff :: "point \<Rightarrow> point \<Rightarrow> point" where
  "pdiff (a1, a2, a3) (b1, b2, b3) = (a1 - b1, a2 - b2, a3 - b3)"

fun pnorm :: "point \<Rightarrow> real" where
  "pnorm (a, b, c) = sqrt (a ^ 2 + b ^ 2 + c ^ 2)"

text \<open>The spherical wave \<open>exp (i k r) / r\<close> around the source \<open>s\<close>.\<close>

definition spherical_wave :: "real \<Rightarrow> point \<Rightarrow> point \<Rightarrow> complex" where
  "spherical_wave k s p =
     exp (\<i> * of_real (k * pnorm (pdiff p s))) / of_real (pnorm (pdiff p s))"

text \<open>
  \<open>is_partial U F key G\<close>: on the open set \<open>U\<close> the function \<open>G\<close> is the iterated
  partial derivative of \<open>F\<close> along the axes that the characters of \<open>key\<close> name, taken
  from left to right.
\<close>

definition partial_along :: "char \<Rightarrow> (point \<Rightarrow> complex) \<Rightarrow> point \<Rightarrow> complex \<Rightarrow> bool" where
  "partial_along ch G p D = ((\<lambda>t. G (shift ch t p)) has_vector_derivative D) (at 0)"

inductive is_partial ::
  "(point \<Rightarrow> bool) \<Rightarrow> (point \<Rightarrow> complex) \<Rightarrow> string \<Rightarrow> (point \<Rightarrow> complex) \<Rightarrow> bool"
  for U :: "point \<Rightarrow> bool" and F :: "point \<Rightarrow> complex" where
  is_partial_Nil: "(\<And>p. U p \<Longrightarrow> G p = F p) \<Longrightarrow> is_partial U F [] G"
| is_partial_snoc:
    "is_partial U F key G \<Longrightarrow> axis ch \<Longrightarrow> (\<And>p. U p \<Longrightarrow> partial_along ch G p (H p)) \<Longrightarrow>
       is_partial U F (key @ [ch]) H"

text \<open>
  The closed forms of the derivatives of a radial function: the radial coefficients of
  orders 0 to 3 of \<open>exp (i k r) / r\<close>, and the derivative for a key of up to three axes.
\<close>

definition radial0 :: "real \<Rightarrow> real \<Rightarrow> complex" where
  "radial0 k r = exp (\<i> * of_real (k * r)) / of_real r"

definition radial1 :: "real \<Rightarrow> real \<Rightarrow> complex" where
  "radial1 k r = (\<i> * of_real (k * r) - 1) * exp (\<i> * of_real (k * r)) / of_real (r ^ 3)"

definition radial2 :: "real \<Rightarrow> real \<Rightarrow> complex" where
  "radial2 k r =
     (of_real (3 - (k * r) ^ 2) - 3 * (\<i> * of_real (k * r))) * exp (\<i> * of_real (k * r))
       / of_real (r ^ 5)"

definition radial3 :: "real \<Rightarrow> real \<Rightarrow> complex" where
  "radial3 k r =
     ((\<i> * of_real (k * r) - 1) * of_real (15 - (k * r) ^ 2) + of_real (5 * (k * r) ^ 2))
       * exp (\<i> * of_real (k * r)) / of_real (r ^ 7)"

fun sph_closed :: "real \<Rightarrow> point \<Rightarrow> string \<Rightarrow> complex" where
  "sph_closed k d [] = radial0 k (pnorm d)"
| "sph_closed k d [a] = of_real (coord d a) * radial1 k (pnorm d)"
| "sph_closed k d [a, b] =
     of_real (coord d a * coord d b) * radial2 k (pnorm d)
     + (if a = b then radial1 k (pnorm d) else 0)"
| "sph_closed k d [a, b, c] =
     of_real (coord d a * coord d b * coord d c) * radial3 k (pnorm d)
     + of_real ((if a = b then coord d c else 0) + (if a = c then coord d b else 0)
                + (if b = c then coord d a else 0)) * radial2 k (pnorm d)"
| "sph_closed k d (a # b # c # e # rest) = 0"

text \<open>
  The keys of the derivative dictionaries for a given \<open>orders\<close>, in the order of
  insertion, and the number stored under a key (0 when the key is missing or the
  value is not finite).
\<close>

definition derivative_keys :: "int \<Rightarrow> string list" where
  "derivative_keys orders = map fst (finite_difference_coefficients orders)"

definition entry_value :: "complex np dict \<Rightarrow> string \<Rightarrow> complex" where
  "entry_value d key = (case map_of d key of Some (Fin v) \<Rightarrow> v | _ \<Rightarrow> 0)"

section \<open>Reference: the product rule for partial derivatives\<close>

text \<open>
  The Leibniz rule, as the specification words it.  The partial derivative of a
  product \<open>S * D\<close> along the axes of a key is the sum, over all ways of dealing the
  axes of the key to the two factors, of the product of the two partial derivatives.
  \<open>splits\<close> lists these ways; \<open>canonical_key\<close> names the dictionary key that has given
  axes (\<open>yx\<close> is stored under \<open>xy\<close>).
\<close>

fun splits :: "'a list \<Rightarrow> ('a list \<times> 'a list) list" where
  "splits [] = [([], [])]"
| "splits (a # as) = concat (map (\<lambda>(l, r). [(a # l, r), (l, a # r)]) (splits as))"

definition same_axes :: "string \<Rightarrow> string \<Rightarrow> bool" where
  "same_axes a b =
     (length a = length b \<and> list_all (\<lambda>c. count_list a c = count_list b c) ''xyz'')"

definition canonical_key :: "string \<Rightarrow> string" where
  "canonical_key key =
     (case find (same_axes key) (derivative_keys 3) of Some k \<Rightarrow> k | None \<Rightarrow> key)"

definition leibniz ::
  "(string \<Rightarrow> 'a) \<Rightarrow> (string \<Rightarrow> 'a) \<Rightarrow> string \<Rightarrow> 'a::{times,monoid_add}" where
  "leibniz S D key =
     sum_list (map (\<lambda>(a, b). S (canonical_key a) * D (canonical_key b)) (splits key))"

section \<open>CircularPiston and CircularRing\<close>

text \<open>
  \<open>np.where(condition, a, b)\<close> on one element: both \<open>a\<close> and \<open>b\<close> have been computed,
  the condition selects.
\<close>

definition np_where :: "bool \<Rightarrow> 'a np \<Rightarrow> 'a np \<Rightarrow> 'a np" where
  "np_where condition a b = (if condition then a else b)"

text \<open>
  The Bessel functions \<open>j0\<close> and \<open>j1\<close> come from scipy and are parameters.  The models
  with a radius have \<open>effective_radius\<close> set to a number.  \<open>directivity_sin_angle\<close> is
  the sine of the angle between the normal and the direction to the receiver, which
  \<open>CircularPiston.directivity\<close> and \<open>CircularRing.directivity\<close> compute by the same lines.
  It is computed here with exact numbers, as everything in these sections; the
  rounding of these lines, which decides what the program returns on the axis, is
  the subject of the section on double precision below.
\<close>

definition directivity_sin_angle :: "vec3 \<Rightarrow> vec3 \<Rightarrow> vec3 \<Rightarrow> real np" where
  "directivity_sin_angle source_position source_normal receiver_position =
     (let diff = vsub receiver_position source_position;
          dots = vdot diff source_normal;
          norm1 = np_sqrt (vsumsq source_normal);
          norm2 = np_sqrt (vdot diff diff);
          cos_angle = dots / norm2 / norm1
      in np_sqrt (1 - cos_angle ^ 2))"

definition circular_piston_directivity ::
  "(real \<Rightarrow> real) \<Rightarrow> transducer_model \<Rightarrow> vec3 \<Rightarrow> vec3 \<Rightarrow> vec3 \<Rightarrow> real np" where
  "circular_piston_directivity j1 self source_position source_normal receiver_position =
     (let sin_angle = directivity_sin_angle source_position source_normal receiver_position;
          ka = get_k self * effective_radius self;
          denom = Fin ka * sin_angle;
          numer = np_map j1 denom
      in np_where (np_is_zero denom) 1 (2 * numer / denom))"

definition circular_ring_directivity ::
  "(real \<Rightarrow> real) \<Rightarrow> transducer_model \<Rightarrow> vec3 \<Rightarrow> vec3 \<Rightarrow> vec3 \<Rightarrow> real np" where
  "circular_ring_directivity j0 self source_position source_normal receiver_position =
     (let sin_angle = directivity_sin_angle source_position source_normal receiver_position;
          ka = get_k self * effective_radius self
      in np_map j0 (Fin ka * sin_angle))"

text \<open>
  The quantities that \<open>CircularRing.directivity_derivatives\<close> computes before it fills
  the dictionary: the sine of the angle and the three Bessel ratios with their
  values at \<open>sin == 0\<close>.  The source's \<open>sin\<close>, \<open>cos\<close> and \<open>norm\<close> are written
  with a prime, since these names are taken in HOL.  The sine is again computed
  with exact numbers; \<open>float_circular_ring_sin\<close> below is the same line with its
  rounding.
\<close>

definition circular_ring_sin :: "vec3 \<Rightarrow> vec3 \<Rightarrow> vec3 \<Rightarrow> real np" where
  "circular_ring_sin source_position source_normal receiver_position =
     (let diff = vsub receiver_position source_position;
          dot = vdot diff source_normal;
          r = np_sqrt (vsumsq diff);
          norm' = np_sqrt (vsumsq source_normal);
          cos' = dot / r / norm'
      in np_sqrt (1 - cos' ^ 2))"

definition circular_ring_J1_xi :: "(real \<Rightarrow> real) \<Rightarrow> real np \<Rightarrow> real np \<Rightarrow> real np" where
  "circular_ring_J1_xi j1 sin' ka_sin = np_where (np_is_zero sin') (Fin 0.5) (np_map j1 ka_sin / ka_sin)"

definition circular_ring_J2_xi2 ::
  "(real \<Rightarrow> real) \<Rightarrow> (real \<Rightarrow> real) \<Rightarrow> real np \<Rightarrow> real np \<Rightarrow> real np" where
  "circular_ring_J2_xi2 j0 j1 sin' ka_sin =
     np_where (np_is_zero sin') (Fin 0.125)
       ((2 * circular_ring_J1_xi j1 sin' ka_sin - np_map j0 ka_sin) / ka_sin ^ 2)"

definition circular_ring_J3_xi3 ::
  "(real \<Rightarrow> real) \<Rightarrow> (real \<Rightarrow> real) \<Rightarrow> real np \<Rightarrow> real np \<Rightarrow> real np" where
  "circular_ring_J3_xi3 j0 j1 sin' ka_sin =
     np_where (np_is_zero sin') (Fin (1 / 48))
       ((4 * circular_ring_J2_xi2 j0 j1 sin' ka_sin - circular_ring_J1_xi j1 sin' ka_sin)
          / ka_sin ^ 2)"

text \<open>
  \<open>CircularRing.directivity_derivatives\<close>.  The values of the three \<open>if orders > ...\<close>
  blocks are numpy expressions, which never raise, so the model binds all of them
  first and lets \<open>orders\<close> decide which entries the dictionary gets.
\<close>

definition circular_ring_directivity_derivatives ::
  "(real \<Rightarrow> real) \<Rightarrow> (real \<Rightarrow> real) \<Rightarrow>
     transducer_model \<Rightarrow> vec3 \<Rightarrow> vec3 \<Rightarrow> vec3 \<Rightarrow> int \<Rightarrow> real np dict py" where
  "circular_ring_directivity_derivatives j0 j1 self source_position source_normal
       receiver_position orders =
     (case vsub receiver_position source_position of (d0, d1, d2) \<Rightarrow>
      case source_normal of (n0, n1, n2) \<Rightarrow>
      let dot = vdot (d0, d1, d2) (n0, n1, n2);
          r = np_sqrt (vsumsq (d0, d1, d2));
          norm' = np_sqrt (vsumsq (n0, n1, n2));
          cos' = dot / r / norm';
          sin' = np_sqrt (1 - cos' ^ 2);
          ka = get_k self * effective_radius self;
          ka_sin = Fin ka * sin';
          J0 = np_map j0 ka_sin;
          r2 = r ^ 2;
          r3 = r ^ 3;
          cos_dx = (r2 * n0 - d0 * dot) / r3 / norm';
          cos_dy = (r2 * n1 - d1 * dot) / r3 / norm';
          cos_dz = (r2 * n2 - d2 * dot) / r3 / norm';
          J1_xi = circular_ring_J1_xi j1 sin' ka_sin;
          first_order_const = J1_xi * Fin (ka ^ 2) * cos';
          r5 = r2 * r3;
          cos_dx2 = (3 * d0 ^ 2 * dot - 2 * d0 * n0 * r2 - dot * r2) / r5 / norm';
          cos_dy2 = (3 * d1 ^ 2 * dot - 2 * d1 * n1 * r2 - dot * r2) / r5 / norm';
          cos_dz2 = (3 * d2 ^ 2 * dot - 2 * d2 * n2 * r2 - dot * r2) / r5 / norm';
          cos_dxdy = (3 * d0 * d1 * dot - r2 * (n0 * d1 + n1 * d0)) / r5 / norm';
          cos_dxdz = (3 * d0 * d2 * dot - r2 * (n0 * d2 + n2 * d0)) / r5 / norm';
          cos_dydz = (3 * d1 * d2 * dot - r2 * (n1 * d2 + n2 * d1)) / r5 / norm';
          J2_xi2 = circular_ring_J2_xi2 j0 j1 sin' ka_sin;
          second_order_const = J2_xi2 * Fin (ka ^ 4) * cos' ^ 2 + J1_xi * Fin (ka ^ 2);
          r4 = r2 ^ 2;
          r7 = r5 * r2;
          cos_dx3 = (Fin (- 15) * d0 ^ 3 * dot + 9 * r2 * (d0 ^ 2 * n0 + d0 * dot) - 3 * r4 * n0)
                      / r7 / norm';
          cos_dy3 = (Fin (- 15) * d1 ^ 3 * dot + 9 * r2 * (d1 ^ 2 * n1 + d1 * dot) - 3 * r4 * n1)
                      / r7 / norm';
          cos_dz3 = (Fin (- 15) * d2 ^ 3 * dot + 9 * r2 * (d2 ^ 2 * n2 + d2 * dot) - 3 * r4 * n2)
                      / r7 / norm';
          cos_dx2dy = (Fin (- 15) * d0 ^ 2 * d1 * dot
                        + 3 * r2 * (d0 ^ 2 * n1 + 2 * d0 * d1 * n0 + d1 * dot) - r4 * n1) / r7 / norm';
          cos_dx2dz = (Fin (- 15) * d0 ^ 2 * d2 * dot
                        + 3 * r2 * (d0 ^ 2 * n2 + 2 * d0 * d2 * n0 + d2 * dot) - r4 * n2) / r7 / norm';
          cos_dy2dx = (Fin (- 15) * d1 ^ 2 * d0 * dot
                        + 3 * r2 * (d1 ^ 2 * n0 + 2 * d1 * d0 * n1 + d0 * dot) - r4 * n0) / r7 / norm';
          cos_dy2dz = (Fin (- 15) * d1 ^ 2 * d2 * dot
                        + 3 * r2 * (d1 ^ 2 * n2 + 2 * d1 * d2 * n1 + d2 * dot) - r4 * n2) / r7 / norm';
          cos_dz2dx = (Fin (- 15) * d2 ^ 2 * d0 * dot
                        + 3 * r2 * (d2 ^ 2 * n0 + 2 * d2 * d0 * n2 + d0 * dot) - r4 * n0) / r7 / norm';
          cos_dz2dy = (Fin (- 15) * d2 ^ 2 * d1 * dot
                        + 3 * r2 * (d2 ^ 2 * n1 + 2 * d2 * d1 * n2 + d1 * dot) - r4 * n1) / r7 / norm';
          J3_xi3 = circular_ring_J3_xi3 j0 j1 sin' ka_sin;
          third_order_const = J3_xi3 * Fin (ka ^ 6) * cos' ^ 3 + 3 * J2_xi2 * Fin (ka ^ 4) * cos'
      in Ret (
        [('''', J0)]
        @ (if orders > 0 then
             [(''x'', first_order_const * cos_dx),
              (''y'', first_order_const * cos_dy),
              (''z'', first_order_const * cos_dz)]
           else [])
        @ (if orders > 1 then
             [(''xx'', second_order_const * cos_dx ^ 2 + first_order_const * cos_dx2),
              (''yy'', second_order_const * cos_dy ^ 2 + first_order_const * cos_dy2),
              (''zz'', second_order_const * cos_dz ^ 2 + first_order_const * cos_dz2),
              (''xy'', second_order_const * cos_dx * cos_dy + first_order_const * cos_dxdy),
              (''xz'', second_order_const * cos_dx * cos_dz + first_order_const * cos_dxdz),
              (''yz'', second_order_const * cos_dy * cos_dz + first_order_const * cos_dydz)]
           else [])
        @ (if orders > 2 then
             [(''xxx'', third_order_const * cos_dx ^ 3
                  + 3 * second_order_const * cos_dx2 * cos_dx + first_order_const * cos_dx3),
              (''yyy'', third_order_const * cos_dy ^ 3
                  + 3 * second_order_const * cos_dy2 * cos_dy + first_order_const * cos_dy3),
              (''zzz'', third_order_const * cos_dz ^ 3
                  + 3 * second_order_const * cos_dz2 * cos_dz + first_order_const * cos_dz3),
              (''xxy'', third_order_const * cos_dx ^ 2 * cos_dy
                  + second_order_const * (cos_dx2 * cos_dy + 2 * cos_dxdy * cos_dx)
                  + first_order_const * cos_dx2dy),
              (''xxz'', third_order_const * cos_dx ^ 2 * cos_dz
                  + second_order_const * (cos_dx2 * cos_dz + 2 * cos_dxdz * cos_dx)
                  + first_order_const * cos_dx2dz),
              (''yyx'', third_order_const * cos_dy ^ 2 * cos_dx
                  + second_order_const * (cos_dy2 * cos_dx + 2 * cos_dxdy * cos_dy)
                  + first_order_const * cos_dy2dx),
              (''yyz'', third_order_const * cos_dy ^ 2 * cos_dz
                  + second_order_const * (cos_dy2 * cos_dz + 2 * cos_dydz * cos_dy)
                  + first_order_const * cos_dy2dz),
              (''zzx'', third_order_const * cos_dz ^ 2 * cos_dx
                  + second_order_const * (cos_dz2 * cos_dx + 2 * cos_dxdz * cos_dz)
                  + first_order_const * cos_dz2dx),
              (''zzy'', third_order_const * cos_dz ^ 2 * cos_dy
                  + second_order_const * (cos_dz2 * cos_dy + 2 * cos_dydz * cos_dz)
                  + first_order_const * cos_dz2dy)]
           else [])))"

section \<open>ReflectingTransducer\<close>

text \<open>
  The attributes that \<open>ReflectingTransducer.__init__\<close> adds to the wrapped model.  The
  plane normal is stored after the numpy division by its length.  \<open>super()\<close> is the
  wrapped class: its \<open>greens_function\<close> and \<open>spatial_derivatives\<close> are parameters.
\<close>

record reflecting_transducer =
  plane_distance :: real
  plane_normal :: vec3
  reflection_coefficient :: complex

fun vdiv_scalar :: "vec3 \<Rightarrow> real np \<Rightarrow> vec3" where
  "vdiv_scalar (a1, a2, a3) c = (a1 / c, a2 / c, a3 / c)"

fun vmul_scalar :: "vec3 \<Rightarrow> real np \<Rightarrow> vec3" where
  "vmul_scalar (a1, a2, a3) c = (a1 * c, a2 * c, a3 * c)"

definition reflecting_transducer_init ::
  "real \<Rightarrow> vec3 \<Rightarrow> complex \<Rightarrow> reflecting_transducer" where
  "reflecting_transducer_init plane_distance' plane_normal' reflection_coefficient' =
     \<lparr>plane_distance = plane_distance',
      plane_normal = vdiv_scalar plane_normal' (np_sqrt (vsum (vmul plane_normal' plane_normal'))),
      reflection_coefficient = reflection_coefficient'\<rparr>"

text \<open>The two lines that both methods start with.\<close>

definition mirror_position :: "reflecting_transducer \<Rightarrow> vec3 \<Rightarrow> vec3" where
  "mirror_position self source_position =
     vsub source_position
       (vmul_scalar (vscale 2 (plane_normal self))
          (vsum (vmul source_position (plane_normal self)) - Fin (plane_distance self)))"

definition mirror_normal :: "reflecting_transducer \<Rightarrow> vec3 \<Rightarrow> vec3" where
  "mirror_normal self source_normal =
     vsub source_normal
       (vmul_scalar (vscale 2 (plane_normal self)) (vsum (vmul source_normal (plane_normal self))))"

definition reflecting_greens_function ::
  "(vec3 \<Rightarrow> vec3 \<Rightarrow> vec3 \<Rightarrow> complex np) \<Rightarrow>
     reflecting_transducer \<Rightarrow> vec3 \<Rightarrow> vec3 \<Rightarrow> vec3 \<Rightarrow> complex np" where
  "reflecting_greens_function super_greens_function self source_position source_normal
       receiver_position =
     (let direct = super_greens_function source_position source_normal receiver_position;
          reflected = super_greens_function (mirror_position self source_position)
                        (mirror_normal self source_normal) receiver_position
      in direct + Fin (reflection_coefficient self) * reflected)"

definition reflecting_spatial_derivatives ::
  "(vec3 \<Rightarrow> vec3 \<Rightarrow> vec3 \<Rightarrow> int \<Rightarrow> complex np dict py) \<Rightarrow>
     reflecting_transducer \<Rightarrow> vec3 \<Rightarrow> vec3 \<Rightarrow> vec3 \<Rightarrow> int \<Rightarrow> complex np dict py" where
  "reflecting_spatial_derivatives super_spatial_derivatives self source_position source_normal
       receiver_position orders =
     py_bind (super_spatial_derivatives source_position source_normal receiver_position orders)
       (\<lambda>direct.
     py_bind (super_spatial_derivatives (mirror_position self source_position)
                (mirror_normal self source_normal) receiver_position orders)
       (\<lambda>reflected.
     py_items (map (\<lambda>(key, v).
                 (key, Ret v + Ret (Fin (reflection_coefficient self)) * getitem reflected key))
               direct)))"

section \<open>TransducerArray\<close>

text \<open>
  The attributes of a \<open>TransducerArray\<close> that the modelled methods read or write.  The
  positions and normals have one row for each transducer; amplitudes and phases are
  one-dimensional arrays.
\<close>

record transducer_array =
  transducer_positions :: "vec3 list"
  transducer_normals :: "vec3 list"
  num_transducers :: nat
  amplitudes :: "real np list"
  phases :: "real np list"

text \<open>\<open>xs[i]\<close> for an index that \<open>range\<close> produced: IndexError past the end.\<close>

definition py_index :: "'a list \<Rightarrow> nat \<Rightarrow> 'a py" where
  "py_index xs i = (if i < length xs then Ret (xs ! i) else Raise IndexError)"

text \<open>Running a list of computations in order, stopping at the first that raises.\<close>

fun py_all :: "'a py list \<Rightarrow> 'a list py" where
  "py_all [] = Ret []"
| "py_all (Raise e # rest) = Raise e"
| "py_all (Ret v # rest) = py_bind (py_all rest) (\<lambda>vs. Ret (v # vs))"

text \<open>
  An elementwise operation on two one-dimensional arrays, with numpy's broadcasting:
  the lengths agree, or one of them is 1.
\<close>

definition np_elementwise :: "('a \<Rightarrow> 'b \<Rightarrow> 'c) \<Rightarrow> 'a list \<Rightarrow> 'b list \<Rightarrow> 'c list py" where
  "np_elementwise f xs ys =
     (if length xs = length ys then Ret (map2 f xs ys)
      else if length xs = 1 then Ret (map (f (hd xs)) ys)
      else if length ys = 1 then Ret (map (\<lambda>x. f x (hd ys)) xs)
      else Raise ValueError)"

text \<open>
  \<open>np.abs\<close> and \<open>np.angle\<close> of a complex value.  \<open>np.angle\<close> is \<open>arctan2 (imag, real)\<close>,
  the argument in \<open>(-pi, pi]\<close>, and 0 at 0.
\<close>

definition np_abs :: "complex np \<Rightarrow> real np" where
  "np_abs = np_map cmod"

definition np_angle :: "complex np \<Rightarrow> real np" where
  "np_angle = np_map Arg"

text \<open>
  The property \<open>complex_amplitudes\<close> (the same in \<open>arrays.py\<close> and in \<open>models.py\<close>): the
  getter is \<open>self.amplitudes * np.exp(1j * self.phases)\<close>, the setter assigns
  \<open>np.abs(value)\<close> to the amplitudes and \<open>np.angle(value)\<close> to the phases.
\<close>

definition complex_amplitudes :: "transducer_array \<Rightarrow> complex np list py" where
  "complex_amplitudes self =
     np_elementwise (\<lambda>amplitude phase. np_complex amplitude * np_exp (Fin \<i> * np_complex phase))
       (amplitudes self) (phases self)"

definition set_complex_amplitudes :: "complex np list \<Rightarrow> transducer_array \<Rightarrow> transducer_array" where
  "set_complex_amplitudes v self =
     self\<lparr>amplitudes := map np_abs v, phases := map np_angle v\<rparr>"

text \<open>
  \<open>TransducerArray.spatial_derivatives\<close> of \<open>arrays.py\<close>.  The transducer model's
  \<open>spatial_derivatives\<close> is the one of the module \<open>transducers\<close>, which returns an
  array whose first axis is the derivative; it is a parameter, as is the table
  \<open>num_spatial_derivatives\<close> of the package.  The result has a row for each
  derivative and in it a cell for each transducer; a cell is what the model returns
  for the receiver positions.  \<open>fit_rows\<close> is the assignment \<open>derivatives[:, idx] = ...\<close>
  of a value with \<open>m\<close> rows, or with one row that is broadcast.
\<close>

definition fit_rows :: "nat \<Rightarrow> 'b list \<Rightarrow> 'b list py" where
  "fit_rows m rows =
     (if length rows = m then Ret rows
      else if length rows = 1 then Ret (replicate m (hd rows))
      else Raise ValueError)"

definition array_spatial_derivatives ::
  "(int \<Rightarrow> nat py) \<Rightarrow> (vec3 \<Rightarrow> vec3 \<Rightarrow> 'r \<Rightarrow> int \<Rightarrow> 'b list py) \<Rightarrow>
     transducer_array \<Rightarrow> 'r \<Rightarrow> int \<Rightarrow> 'b list list py" where
  "array_spatial_derivatives num_spatial_derivatives model_spatial_derivatives self
       receiver_position orders =
     py_bind (num_spatial_derivatives orders) (\<lambda>m.
     py_bind (py_all (map (\<lambda>idx.
         py_bind (py_index (transducer_positions self) idx) (\<lambda>position.
         py_bind (py_index (transducer_normals self) idx) (\<lambda>normal.
         py_bind (model_spatial_derivatives position normal receiver_position orders)
           (fit_rows m))))
       [0..<num_transducers self])) (\<lambda>columns.
     Ret (map (\<lambda>row. map (\<lambda>column. column ! row) columns) [0..<m])))"

text \<open>
  \<open>TransducerArray.spatial_derivatives\<close> of the legacy module \<open>models.py\<close>, which works
  on the dictionaries of \<open>TransducerModel.spatial_derivatives\<close>.  The receiver
  \<open>focus\<close> is one point (\<open>ndim == 1\<close>) or a list of points (\<open>ndim == 2\<close>); with more
  dimensions (or none) \<open>shape\<close> is never bound.  A value of the model's dictionary is a
  number or a one-dimensional array, as \<open>TransducerModel.spatial_derivatives\<close> returns
  for such a focus; a value of more dimensions, which is not described further, is
  taken not to fit (numpy would still assign one whose leading axes all have
  length 1).  The result has, under each key, an array of shape
  \<open>num_transducers\<close>, or \<open>(number of points, num_transducers)\<close>.
\<close>

datatype 'a field = Single 'a | Batch "'a list" | Higher

definition legacy_keys :: "int \<Rightarrow> string list" where
  "legacy_keys orders =
     ['''']
     @ (if orders > 0 then [''x'', ''y'', ''z''] else [])
     @ (if orders > 1 then [''xx'', ''yy'', ''zz'', ''xy'', ''xz'', ''yz''] else [])
     @ (if orders > 2 then
          [''xxx'', ''yyy'', ''zzz'', ''xxy'', ''xxz'', ''yyx'', ''yyz'', ''zzx'', ''zzy'']
        else [])"

text \<open>
  \<open>derivatives[key][..., idx] = value\<close> for one transducer: the value that goes into
  column \<open>idx\<close>, as a number (one point) or as a column of numbers (a list of points;
  a number or an array of length 1 is broadcast).
\<close>

fun fit_column :: "'a field \<Rightarrow> 'b field \<Rightarrow> 'b field py" where
  "fit_column (Single p) (Single v) = Ret (Single v)"
| "fit_column (Single p) (Batch vs) = (if length vs = 1 then Ret (Single (hd vs)) else Raise ValueError)"
| "fit_column (Batch ps) (Single v) = Ret (Batch (replicate (length ps) v))"
| "fit_column (Batch ps) (Batch vs) =
     (if length vs = length ps then Ret (Batch vs)
      else if length vs = 1 then Ret (Batch (replicate (length ps) (hd vs)))
      else Raise ValueError)"
| "fit_column _ _ = Raise ValueError"

text \<open>The array under one key, from the columns of the transducers.\<close>

fun stack_columns :: "'a field \<Rightarrow> 'b field list \<Rightarrow> 'b list field" where
  "stack_columns (Single p) columns = Single (map (\<lambda>c. case c of Single v \<Rightarrow> v) columns)"
| "stack_columns (Batch ps) columns =
     Batch (map (\<lambda>j. map (\<lambda>c. case c of Batch vs \<Rightarrow> vs ! j) columns) [0..<length ps])"
| "stack_columns Higher columns = Higher"

definition legacy_spatial_derivatives ::
  "(vec3 \<Rightarrow> vec3 \<Rightarrow> vec3 field \<Rightarrow> int \<Rightarrow> 'b field dict py) \<Rightarrow>
     transducer_array \<Rightarrow> vec3 field \<Rightarrow> int \<Rightarrow> 'b list field dict py" where
  "legacy_spatial_derivatives model_spatial_derivatives self focus orders =
     (if focus = Higher then Raise UnboundLocalError
      else
        py_bind (py_all (map (\<lambda>idx.
            py_bind (py_index (transducer_positions self) idx) (\<lambda>position.
            py_bind (py_index (transducer_normals self) idx) (\<lambda>normal.
            py_bind (model_spatial_derivatives position normal focus orders)
              (\<lambda>transducer_derivatives.
            py_items (map (\<lambda>key. (key,
                py_bind (getitem transducer_derivatives key) (fit_column focus)))
              (legacy_keys orders))))))
          [0..<num_transducers self])) (\<lambda>per_transducer.
        Ret (map (\<lambda>key. (key,
                stack_columns focus
                  (map (\<lambda>d. case map_of d key of Some c \<Rightarrow> c) per_transducer)))
              (legacy_keys orders))))"

section \<open>PersistentFieldEvaluator\<close>

text \<open>
  An array of positions is its shape and its numbers (finite).  \<open>np.allclose\<close> with the
  default tolerances, on two arrays of the same shape.  The evaluator keeps the
  last positions, the stored tensor and its orders; \<open>self.array.spatial_derivatives\<close>
  is the parameter \<open>array_spatial_derivatives_method\<close>.
\<close>

record ndarray =
  shape :: "nat list"
  entries :: "real list"

definition np_allclose :: "ndarray \<Rightarrow> ndarray \<Rightarrow> bool" where
  "np_allclose a b =
     list_all (\<lambda>(x, y). \<bar>x - y\<bar> \<le> 1 / 10 ^ 8 + 1 / 10 ^ 5 * \<bar>y\<bar>) (zip (entries a) (entries b))"

record 't persistent_field_evaluator =
  last_positions :: "ndarray option"
  stored_spatial_derivatives :: "'t option"
  existing_orders :: int

definition persistent_field_evaluator_init :: "'t persistent_field_evaluator" where
  "persistent_field_evaluator_init =
     \<lparr>last_positions = None, stored_spatial_derivatives = None, existing_orders = - 1\<rparr>"

text \<open>
  The cached wrapper: the returned tensor and the evaluator after the call.  When
  the computation raises, nothing has been assigned.
\<close>

definition persistent_spatial_derivatives ::
  "(ndarray \<Rightarrow> int \<Rightarrow> 't py) \<Rightarrow> 't persistent_field_evaluator \<Rightarrow> ndarray \<Rightarrow> int \<Rightarrow>
     ('t \<times> 't persistent_field_evaluator) py" where
  "persistent_spatial_derivatives array_spatial_derivatives_method self positions orders =
     (case stored_spatial_derivatives self of
        None \<Rightarrow>
          py_bind (array_spatial_derivatives_method positions orders) (\<lambda>t.
            Ret (t, \<lparr>last_positions = Some positions, stored_spatial_derivatives = Some t,
                     existing_orders = orders\<rparr>))
      | Some stored \<Rightarrow>
          if existing_orders self \<ge> orders then
            (case last_positions self of
               None \<Rightarrow> Raise AttributeError
             | Some previous \<Rightarrow>
                 if shape positions = shape previous \<and> np_allclose positions previous then Ret (stored, self)
                 else
                   py_bind (array_spatial_derivatives_method positions orders) (\<lambda>t.
                     Ret (t, \<lparr>last_positions = Some positions, stored_spatial_derivatives = Some t,
                              existing_orders = orders\<rparr>)))
          else
            py_bind (array_spatial_derivatives_method positions orders) (\<lambda>t.
              Ret (t, \<lparr>last_positions = Some positions, stored_spatial_derivatives = Some t,
                       existing_orders = orders\<rparr>)))"

section \<open>Reference notions for the arrays\<close>

text \<open>The complex value \<open>a e^(i phi)\<close> of an amplitude and a phase.\<close>

definition polar :: "real \<Rightarrow> real \<Rightarrow> complex np" where
  "polar a p = Fin (complex_of_real a * exp (\<i> * complex_of_real p))"

text \<open>
  The condition of the cache as the specification words it: a result is stored, its
  orders are at least the requested ones, and the positions have the shape of the
  stored positions and are close to them.  An evaluator is consistent when a stored
  result comes with stored positions, as after the constructor and after every call.
\<close>

definition cache_hit :: "'t persistent_field_evaluator \<Rightarrow> ndarray \<Rightarrow> int \<Rightarrow> bool" where
  "cache_hit self positions orders =
     (stored_spatial_derivatives self \<noteq> None \<and> orders \<le> existing_orders self \<and>
      (case last_positions self of
         None \<Rightarrow> False
       | Some previous \<Rightarrow> shape positions = shape previous \<and> np_allclose positions previous))"

definition consistent_evaluator :: "'t persistent_field_evaluator \<Rightarrow> bool" where
  "consistent_evaluator self =
     (stored_spatial_derivatives self = None \<or> last_positions self \<noteq> None)"

definition cache_slot :: "ndarray \<Rightarrow> int \<Rightarrow> 't \<Rightarrow> 't persistent_field_evaluator" where
  "cache_slot positions orders t =
     \<lparr>last_positions = Some positions, stored_spatial_derivatives = Some t,
      existing_orders = orders\<rparr>"

text \<open>
  The layout that the specification gives for a list of receiver points: under a
  key, the array made of one row for each transducer, the row holding that
  transducer's values for the points.
\<close>

definition transducer_rows :: "'b field list \<Rightarrow> 'b list field" where
  "transducer_rows columns = Batch (map (\<lambda>c. case c of Batch vs \<Rightarrow> vs) columns)"

section \<open>The sine of the angle in double precision\<close>

text \<open>
  The definitions above compute with exact numbers.  On the axis of a transducer
  the cosine is exactly 1 there, but the program computes it in IEEE 754 double
  precision, where every operation returns the representable number nearest to
  the exact result (ties to the even significand).  \<open>float64\<close> is this rounding for a
  number in the normal range of the format (overflow and subnormal numbers are
  not modelled): with \<open>e\<close> the binary exponent of \<open>x\<close>, the number \<open>x\<close> is rounded to a
  multiple of \<open>2^(e - 52)\<close>.
\<close>

definition round_half_even :: "real \<Rightarrow> int" where
  "round_half_even x =
     (let f = \<lfloor>x\<rfloor>; d = x - of_int f
      in if d < 1 / 2 then f else if 1 / 2 < d then f + 1 else if even f then f else f + 1)"

definition float64 :: "real \<Rightarrow> real" where
  "float64 x =
     (if x = 0 then 0
      else let e = 52 - \<lfloor>log 2 \<bar>x\<bar>\<rfloor>
           in of_int (round_half_even (x * 2 powr of_int e)) / 2 powr of_int e)"

text \<open>
  The operations of numpy on doubles: the exact operation, then the rounding.
  \<open>x ** 2\<close> is the rounded product \<open>x * x\<close> and \<open>x ** 0.5\<close> the rounded square root; the
  three products of \<open>a.dot(b)\<close>, \<open>np.einsum('...i,...i', a, b)\<close> and \<open>np.sum(a**2)\<close> are
  added from the left.
\<close>

definition np_float64 :: "real np \<Rightarrow> real np" where
  "np_float64 = np_map float64"

definition float_add :: "real np \<Rightarrow> real np \<Rightarrow> real np" where
  "float_add a b = np_float64 (a + b)"

definition float_sub :: "real np \<Rightarrow> real np \<Rightarrow> real np" where
  "float_sub a b = np_float64 (a - b)"

definition float_mul :: "real np \<Rightarrow> real np \<Rightarrow> real np" where
  "float_mul a b = np_float64 (a * b)"

definition float_div :: "real np \<Rightarrow> real np \<Rightarrow> real np" where
  "float_div a b = np_float64 (a / b)"

definition float_sqrt :: "real np \<Rightarrow> real np" where
  "float_sqrt a = np_float64 (np_sqrt a)"

fun float_vsub :: "vec3 \<Rightarrow> vec3 \<Rightarrow> vec3" where
  "float_vsub (a1, a2, a3) (b1, b2, b3) = (float_sub a1 b1, float_sub a2 b2, float_sub a3 b3)"

fun float_vdot :: "vec3 \<Rightarrow> vec3 \<Rightarrow> real np" where
  "float_vdot (a1, a2, a3) (b1, b2, b3) =
     float_add (float_add (float_mul a1 b1) (float_mul a2 b2)) (float_mul a3 b3)"

fun float_vsumsq :: "vec3 \<Rightarrow> real np" where
  "float_vsumsq (a1, a2, a3) =
     float_add (float_add (float_mul a1 a1) (float_mul a2 a2)) (float_mul a3 a3)"

text \<open>
  The lines of \<open>CircularPiston.directivity\<close> (and of \<open>CircularRing.directivity\<close>, which
  has the same lines before its \<open>return\<close>) in double precision: the cosine and the
  sine of the angle, and the value returned.  \<open>ka\<close> is a product of Python floats.
\<close>

definition float_cos_angle :: "vec3 \<Rightarrow> vec3 \<Rightarrow> vec3 \<Rightarrow> real np" where
  "float_cos_angle source_position source_normal receiver_position =
     (let diff = float_vsub receiver_position source_position;
          dots = float_vdot diff source_normal;
          norm1 = float_sqrt (float_vsumsq source_normal);
          norm2 = float_sqrt (float_vdot diff diff)
      in float_div (float_div dots norm2) norm1)"

definition float_sin_angle :: "vec3 \<Rightarrow> vec3 \<Rightarrow> vec3 \<Rightarrow> real np" where
  "float_sin_angle source_position source_normal receiver_position =
     (let cos_angle = float_cos_angle source_position source_normal receiver_position
      in float_sqrt (float_sub 1 (float_mul cos_angle cos_angle)))"

definition float_circular_piston_directivity ::
  "(real \<Rightarrow> real) \<Rightarrow> transducer_model \<Rightarrow> vec3 \<Rightarrow> vec3 \<Rightarrow> vec3 \<Rightarrow> real np" where
  "float_circular_piston_directivity j1 self source_position source_normal receiver_position =
     (let sin_angle = float_sin_angle source_position source_normal receiver_position;
          ka = float64 (get_k self * effective_radius self);
          denom = float_mul (Fin ka) sin_angle;
          numer = np_map j1 denom
      in np_where (np_is_zero denom) 1 (float_div (float_mul 2 numer) denom))"

definition float_circular_ring_directivity ::
  "(real \<Rightarrow> real) \<Rightarrow> transducer_model \<Rightarrow> vec3 \<Rightarrow> vec3 \<Rightarrow> vec3 \<Rightarrow> real np" where
  "float_circular_ring_directivity j0 self source_position source_normal receiver_position =
     (let sin_angle = float_sin_angle source_position source_normal receiver_position;
          ka = float64 (get_k self * effective_radius self)
      in np_map j0 (float_mul (Fin ka) sin_angle))"

text \<open>
  The first lines of \<open>CircularRing.directivity_derivatives\<close> in double precision, up
  to the entry of order 0 and the first Bessel ratio.
\<close>

definition float_circular_ring_sin :: "vec3 \<Rightarrow> vec3 \<Rightarrow> vec3 \<Rightarrow> real np" where
  "float_circular_ring_sin source_position source_normal receiver_position =
     (let diff = float_vsub receiver_position source_position;
          dot = float_vdot diff source_normal;
          r = float_sqrt (float_vsumsq diff);
          norm' = float_sqrt (float_vsumsq source_normal);
          cos' = float_div (float_div dot r) norm'
      in float_sqrt (float_sub 1 (float_mul cos' cos')))"

definition float_circular_ring_J0 ::
  "(real \<Rightarrow> real) \<Rightarrow> transducer_model \<Rightarrow> vec3 \<Rightarrow> vec3 \<Rightarrow> vec3 \<Rightarrow> real np" where
  "float_circular_ring_J0 j0 self source_position source_normal receiver_position =
     (let sin' = float_circular_ring_sin source_position source_normal receiver_position;
          ka = float64 (get_k self * effective_radius self);
          ka_sin = float_mul (Fin ka) sin'
      in np_map j0 ka_sin)"

definition float_circular_ring_J1_xi ::
  "(real \<Rightarrow> real) \<Rightarrow> transducer_model \<Rightarrow> vec3 \<Rightarrow> vec3 \<Rightarrow> vec3 \<Rightarrow> real np" where
  "float_circular_ring_J1_xi j1 self source_position source_normal receiver_position =
     (let sin' = float_circular_ring_sin source_position source_normal receiver_position;
          ka = float64 (get_k self * effective_radius self);
          ka_sin = float_mul (Fin ka) sin'
      in np_where (np_is_zero sin') (Fin 0.5) (float_div (np_map j1 ka_sin) ka_sin))"

section \<open>Numerals and powers of the lifted types\<close>

lemma numeral_np [simp]: "(numeral w :: 'a::comm_semiring_1 np) = Fin (numeral w)"
proof (induction w)
  case One
  show ?case by (simp only: numeral_One one_np_def)
next
  case (Bit0 w)
  have "(numeral (num.Bit0 w) :: 'a np) = numeral w + numeral w"
    by (simp only: numeral_Bit0)
  also have "\<dots> = Fin (numeral w + numeral w)"
    by (simp only: Bit0.IH plus_np.simps)
  finally show ?case by (simp only: numeral_Bit0)
next
  case (Bit1 w)
  have "(numeral (num.Bit1 w) :: 'a np) = numeral w + numeral w + 1"
    by (simp only: numeral_Bit1)
  also have "\<dots> = Fin (numeral w + numeral w + 1)"
    by (simp only: Bit1.IH plus_np.simps one_np_def)
  finally show ?case by (simp only: numeral_Bit1)
qed

lemma power_np [simp]: "(Fin a :: 'a::comm_semiring_1 np) ^ n = Fin (a ^ n)"
  by (induction n) (simp_all add: one_np_def)

lemma numeral_py [simp]: "(numeral w :: 'a::numeral py) = Ret (numeral w)"
proof (induction w)
  case One
  show ?case by (simp only: numeral_One one_py_def)
next
  case (Bit0 w)
  have "(numeral (num.Bit0 w) :: 'a py) = numeral w + numeral w"
    by (simp only: numeral_Bit0)
  also have "\<dots> = Ret (numeral w + numeral w)"
    by (simp only: Bit0.IH plus_py.simps)
  finally show ?case by (simp only: numeral_Bit0)
next
  case (Bit1 w)
  have "(numeral (num.Bit1 w) :: 'a py) = numeral w + numeral w + 1"
    by (simp only: numeral_Bit1)
  also have "\<dots> = Ret (numeral w + numeral w + 1)"
    by (simp only: Bit1.IH plus_py.simps one_py_def)
  finally show ?case by (simp only: numeral_Bit1)
qed

section \<open>Degenerate geometry\<close>

lemma vsub_self_cases:
  "vsub s s = (a, b, c) \<Longrightarrow> (a = Fin 0 \<or> a = NonFinite) \<and> (b = Fin 0 \<or> b = NonFinite) \<and> (c = Fin 0 \<or> c = NonFinite)"
  by (cases s; cases "fst s"; cases "fst (snd s)"; cases "snd (snd s)") auto

lemma distance_self:
  "np_sqrt (vdot (vsub s s) (vsub s s)) = Fin 0 \<or> np_sqrt (vdot (vsub s s) (vsub s s)) = NonFinite"
proof -
  obtain a b c where abc: "vsub s s = (a, b, c)"
    by (cases "vsub s s") auto
  from vsub_self_cases [OF abc] show ?thesis
    unfolding abc by (auto simp: vdot_def)
qed

lemma spherical_spreading_self: "spherical_spreading self s s = NonFinite"
  using distance_self [of s]
  by (auto simp: spherical_spreading_def Let_def np_complex_def np_exp_def)

text \<open>
  C9.  When the receiver position is the source position, \<open>spherical_spreading\<close> and
  \<open>greens_function\<close> of the base model return a non-finite value: the division by
  the distance is not guarded, and as a numpy division it returns an infinity or a NaN
  rather than raising.
\<close>

theorem coincident_receiver_non_finite:
  "spherical_spreading self s s = NonFinite \<and>
   greens_function directivity self s n s = NonFinite \<and>
   \<not> is_fin (spherical_spreading self s s) \<and>
   \<not> is_fin (greens_function directivity self s n s)"
  by (simp add: greens_function_def spherical_spreading_self)

section \<open>The four views of the wavenumber\<close>

text \<open>
  C7.  For a positive value \<open>v\<close> (and a positive speed of sound), after setting any one
  of \<open>k\<close>, \<open>omega\<close>, \<open>freq\<close> or \<open>wavelength\<close> to \<open>v\<close>, the property just set reads
  back as \<open>v\<close> and the four views agree: \<open>omega = k * c\<close>, \<open>freq = omega / (2 pi)\<close> and
  \<open>wavelength = 2 pi / k\<close>.  In particular the wavelength after setting \<open>freq = v\<close> is
  \<open>c / v\<close>, and \<open>k\<close> after setting \<open>wavelength = v\<close> is \<open>2 pi / v\<close>.  No setter raises.
\<close>

theorem property_views_consistent:
  assumes "0 < v" and "0 < c_air"
  shows "(let m = set_k c_air v self in
            get_k m = v \<and> get_omega m = get_k m * c_air \<and>
            get_freq m = get_omega m / (2 * pi) \<and>
            get_wavelength m = Ret (2 * pi / get_k m))
       \<and> (\<exists>m. set_omega c_air v self = Ret m \<and>
            get_omega m = v \<and> get_omega m = get_k m * c_air \<and>
            get_freq m = get_omega m / (2 * pi) \<and>
            get_wavelength m = Ret (2 * pi / get_k m))
       \<and> (\<exists>m. set_freq c_air v self = Ret m \<and>
            get_freq m = v \<and> get_omega m = get_k m * c_air \<and>
            get_freq m = get_omega m / (2 * pi) \<and>
            get_wavelength m = Ret (2 * pi / get_k m) \<and>
            get_wavelength m = Ret (c_air / v))
       \<and> (\<exists>m. set_wavelength c_air v self = Ret m \<and>
            get_wavelength m = Ret v \<and> get_omega m = get_k m * c_air \<and>
            get_freq m = get_omega m / (2 * pi) \<and>
            get_wavelength m = Ret (2 * pi / get_k m) \<and>
            get_k m = 2 * pi / v)"
  using assms
  by (simp add: Let_def set_k_def set_omega_def set_freq_def set_wavelength_def
      get_k_def get_omega_def get_freq_def get_wavelength_def)

theorem property_views_consistent_witness:
  "(0::real) < 40000 \<and> (0::real) < 343 \<and>
   (\<exists>m. set_freq 343 40000 \<lparr>priv_k = 1, priv_omega = 343, effective_radius = 1 / 200, p0 = 6\<rparr> = Ret m \<and>
        get_wavelength m = Ret (343 / 40000)) \<and>
   (\<exists>m. set_wavelength 343 (1 / 100) \<lparr>priv_k = 1, priv_omega = 343, effective_radius = 1 / 200, p0 = 6\<rparr> = Ret m \<and>
        get_k m = 2 * pi / (1 / 100))"
  using property_views_consistent [of 40000 343 "\<lparr>priv_k = 1, priv_omega = 343, effective_radius = 1 / 200, p0 = 6\<rparr>"]
    property_views_consistent [of "1 / 100" 343 "\<lparr>priv_k = 1, priv_omega = 343, effective_radius = 1 / 200, p0 = 6\<rparr>"]
  by auto

section \<open>Derivatives of the radial coefficients\<close>

lemma phase_deriv:
  "((\<lambda>r. exp (\<i> * of_real (k * r))) has_vector_derivative (\<i> * of_real k * exp (\<i> * of_real (k * r)))) (at r)"
proof -
  have "((\<lambda>z. exp (\<i> * (of_real k * z))) has_field_derivative (exp (\<i> * (of_real k * of_real r)) * (\<i> * of_real k))) (at (of_real r))"
    by (auto intro!: derivative_eq_intros)
  from has_vector_derivative_real_field [OF this]
  show ?thesis by (simp add: mult_ac)
qed

lemma of_real_deriv:
  "(f has_real_derivative D) (at r) \<Longrightarrow> ((\<lambda>r. complex_of_real (f r)) has_vector_derivative of_real D) (at r)"
  by (rule has_vector_derivative_of_real)

lemma inv_pow1_deriv:
  "r \<noteq> 0 \<Longrightarrow> ((\<lambda>r. complex_of_real (1 / r)) has_vector_derivative of_real (- 1 / r ^ 2)) (at r)"
  by (rule of_real_deriv) (auto intro!: derivative_eq_intros simp: field_simps power2_eq_square)

lemma inv_pow3_deriv:
  "r \<noteq> 0 \<Longrightarrow> ((\<lambda>r. complex_of_real (1 / r ^ 3)) has_vector_derivative of_real (- 3 / r ^ 4)) (at r)"
  by (rule of_real_deriv) (auto intro!: derivative_eq_intros simp: field_simps power_eq_if)

lemma inv_pow5_deriv:
  "r \<noteq> 0 \<Longrightarrow> ((\<lambda>r. complex_of_real (1 / r ^ 5)) has_vector_derivative of_real (- 5 / r ^ 6)) (at r)"
  by (rule of_real_deriv) (auto intro!: derivative_eq_intros simp: field_simps power_eq_if)

lemma jkr_deriv:
  "((\<lambda>r. \<i> * complex_of_real (k * r)) has_vector_derivative \<i> * of_real k) (at r)"
  by (rule has_vector_derivative_mult_right, rule of_real_deriv) (auto intro!: derivative_eq_intros)

lemma poly1_deriv:
  "((\<lambda>r. \<i> * complex_of_real (k * r) - 1) has_vector_derivative \<i> * of_real k) (at r)"
  using has_vector_derivative_diff [OF jkr_deriv [of k r] has_vector_derivative_const [of 1]]
  by simp

lemma poly2_deriv:
  "((\<lambda>r. complex_of_real (3 - (k * r) ^ 2) - 3 * (\<i> * complex_of_real (k * r))) has_vector_derivative
      of_real (- 2 * k ^ 2 * r) - 3 * (\<i> * of_real k)) (at r)"
proof -
  have "((\<lambda>r. 3 - (k * r) ^ 2) has_real_derivative (- 2 * k ^ 2 * r)) (at r)"
    by (auto intro!: derivative_eq_intros simp: power2_eq_square)
  from has_vector_derivative_diff [OF of_real_deriv [OF this]
      has_vector_derivative_mult_right [OF jkr_deriv [of k r], of 3]]
  show ?thesis .
qed

lemma radial0_deriv:
  assumes "r \<noteq> 0"
  shows "(radial0 k has_vector_derivative (of_real r * radial1 k r)) (at r)"
proof -
  have eq: "radial0 k = (\<lambda>r. exp (\<i> * of_real (k * r)) * complex_of_real (1 / r))"
    by (simp add: radial0_def fun_eq_iff divide_inverse)
  have alg: "\<And>e :: complex. e * of_real (- 1 / r ^ 2) + (\<i> * of_real k * e) * of_real (1 / r)
     = of_real r * ((\<i> * of_real (k * r) - 1) * e / of_real (r ^ 3))"
    using assms by (simp add: field_simps power3_eq_cube power2_eq_square)
  show ?thesis
    unfolding eq radial1_def
    by (rule has_vector_derivative_eq_rhs [OF
          has_vector_derivative_mult [OF phase_deriv inv_pow1_deriv [OF assms]] alg])
qed

lemma radial1_deriv:
  assumes "r \<noteq> 0"
  shows "(radial1 k has_vector_derivative (of_real r * radial2 k r)) (at r)"
proof -
  have eq: "radial1 k = (\<lambda>r. (\<i> * of_real (k * r) - 1) * exp (\<i> * of_real (k * r)) * complex_of_real (1 / r ^ 3))"
    by (simp add: radial1_def fun_eq_iff divide_inverse)
  have alg: "\<And>e :: complex.
      (\<i> * of_real (k * r) - 1) * e * of_real (- 3 / r ^ 4)
      + ((\<i> * of_real (k * r) - 1) * (\<i> * of_real k * e) + \<i> * of_real k * e) * of_real (1 / r ^ 3)
     = of_real r * ((of_real (3 - (k * r) ^ 2) - 3 * (\<i> * of_real (k * r))) * e / of_real (r ^ 5))"
    using assms by (simp add: field_simps power_eq_if)
  show ?thesis
    unfolding eq radial2_def
    by (rule has_vector_derivative_eq_rhs [OF
          has_vector_derivative_mult [OF
            has_vector_derivative_mult [OF poly1_deriv phase_deriv] inv_pow3_deriv [OF assms]] alg])
qed

lemma radial2_deriv:
  assumes "r \<noteq> 0"
  shows "(radial2 k has_vector_derivative (of_real r * radial3 k r)) (at r)"
proof -
  have eq: "radial2 k = (\<lambda>r. (of_real (3 - (k * r) ^ 2) - 3 * (\<i> * of_real (k * r)))
        * exp (\<i> * of_real (k * r)) * complex_of_real (1 / r ^ 5))"
    by (simp add: radial2_def fun_eq_iff divide_inverse)
  have alg: "\<And>e :: complex.
      (of_real (3 - (k * r) ^ 2) - 3 * (\<i> * of_real (k * r))) * e * of_real (- 5 / r ^ 6)
      + ((of_real (3 - (k * r) ^ 2) - 3 * (\<i> * of_real (k * r))) * (\<i> * of_real k * e)
          + (of_real (- 2 * k ^ 2 * r) - 3 * (\<i> * of_real k)) * e) * of_real (1 / r ^ 5)
     = of_real r * (((\<i> * of_real (k * r) - 1) * of_real (15 - (k * r) ^ 2) + of_real (5 * (k * r) ^ 2))
          * e / of_real (r ^ 7))"
    using assms by (simp add: field_simps power_eq_if)
  show ?thesis
    unfolding eq radial3_def
    by (rule has_vector_derivative_eq_rhs [OF
          has_vector_derivative_mult [OF
            has_vector_derivative_mult [OF poly2_deriv phase_deriv] inv_pow5_deriv [OF assms]] alg])
qed

section \<open>Derivatives along an axis\<close>

lemma vector_chain:
  assumes "(f has_vector_derivative f') (at (g x))" and "(g has_real_derivative g') (at x)"
  shows "((\<lambda>t. f (g t)) has_vector_derivative (g' *\<^sub>R f')) (at x)"
proof -
  have g: "(g has_derivative (*) g') (at x)"
    using assms(2) by (simp add: has_field_derivative_def)
  have f: "(f has_derivative (\<lambda>h. h *\<^sub>R f')) (at (g x))"
    using assms(1) by (simp add: has_vector_derivative_def)
  have "((\<lambda>t. f (g t)) has_derivative (\<lambda>h. (g' * h) *\<^sub>R f')) (at x)"
    using has_derivative_compose [OF g f] by simp
  then show ?thesis
    by (simp add: has_vector_derivative_def mult.commute)
qed

lemma coord_shift:
  "coord (pdiff (shift c t p) s) a = coord (pdiff p s) a + (if a = c \<and> axis c then t else 0)"
  by (cases p; cases s) (auto simp: axis_def)

lemma pnorm_pos: "pnorm d \<noteq> 0 \<Longrightarrow> 0 < pnorm d"
  by (cases d) (simp add: less_le)

lemma pnorm_shift_deriv:
  assumes "pnorm (pdiff p s) \<noteq> 0" and "axis c"
  shows "((\<lambda>t. pnorm (pdiff (shift c t p) s)) has_real_derivative
            (coord (pdiff p s) c / pnorm (pdiff p s))) (at 0)"
proof -
  obtain p1 p2 p3 s1 s2 s3 where ps: "p = (p1, p2, p3)" "s = (s1, s2, s3)"
    by (cases p; cases s) auto
  have pos: "0 < (p1 - s1) ^ 2 + (p2 - s2) ^ 2 + (p3 - s3) ^ 2"
    using pnorm_pos [OF assms(1)] by (simp add: ps)
  consider "c = CHR ''x''" | "c = CHR ''y''" | "c = CHR ''z''"
    using assms(2) by (auto simp: axis_def)
  then show ?thesis
  proof cases
    case 1
    have "((\<lambda>t. sqrt ((p1 + t - s1) ^ 2 + (p2 - s2) ^ 2 + (p3 - s3) ^ 2)) has_real_derivative
          ((p1 - s1) / sqrt ((p1 - s1) ^ 2 + (p2 - s2) ^ 2 + (p3 - s3) ^ 2))) (at 0)"
      using pos by (auto intro!: derivative_eq_intros simp: field_simps)
    then show ?thesis by (simp add: ps 1)
  next
    case 2
    have "((\<lambda>t. sqrt ((p1 - s1) ^ 2 + (p2 + t - s2) ^ 2 + (p3 - s3) ^ 2)) has_real_derivative
          ((p2 - s2) / sqrt ((p1 - s1) ^ 2 + (p2 - s2) ^ 2 + (p3 - s3) ^ 2))) (at 0)"
      using pos by (auto intro!: derivative_eq_intros simp: field_simps)
    then show ?thesis by (simp add: ps 2)
  next
    case 3
    have "((\<lambda>t. sqrt ((p1 - s1) ^ 2 + (p2 - s2) ^ 2 + (p3 + t - s3) ^ 2)) has_real_derivative
          ((p3 - s3) / sqrt ((p1 - s1) ^ 2 + (p2 - s2) ^ 2 + (p3 - s3) ^ 2))) (at 0)"
      using pos by (auto intro!: derivative_eq_intros simp: field_simps)
    then show ?thesis by (simp add: ps 3)
  qed
qed

lemma shift_zero: "shift c 0 p = p"
  by (cases p) simp

lemma radial0_shift_deriv:
  assumes "pnorm (pdiff p s) \<noteq> 0" and "axis c"
  shows "((\<lambda>t. radial0 k (pnorm (pdiff (shift c t p) s))) has_vector_derivative
           of_real (coord (pdiff p s) c) * radial1 k (pnorm (pdiff p s))) (at 0)"
proof -
  have "(radial0 k has_vector_derivative of_real (pnorm (pdiff p s)) * radial1 k (pnorm (pdiff p s)))
          (at (pnorm (pdiff (shift c 0 p) s)))"
    using radial0_deriv [OF assms(1)] by (simp add: shift_zero)
  from vector_chain [OF this pnorm_shift_deriv [OF assms]] show ?thesis
    using assms(1) by (simp add: scaleR_conv_of_real)
qed

lemma radial1_shift_deriv:
  assumes "pnorm (pdiff p s) \<noteq> 0" and "axis c"
  shows "((\<lambda>t. radial1 k (pnorm (pdiff (shift c t p) s))) has_vector_derivative
           of_real (coord (pdiff p s) c) * radial2 k (pnorm (pdiff p s))) (at 0)"
proof -
  have "(radial1 k has_vector_derivative of_real (pnorm (pdiff p s)) * radial2 k (pnorm (pdiff p s)))
          (at (pnorm (pdiff (shift c 0 p) s)))"
    using radial1_deriv [OF assms(1)] by (simp add: shift_zero)
  from vector_chain [OF this pnorm_shift_deriv [OF assms]] show ?thesis
    using assms(1) by (simp add: scaleR_conv_of_real)
qed

lemma radial2_shift_deriv:
  assumes "pnorm (pdiff p s) \<noteq> 0" and "axis c"
  shows "((\<lambda>t. radial2 k (pnorm (pdiff (shift c t p) s))) has_vector_derivative
           of_real (coord (pdiff p s) c) * radial3 k (pnorm (pdiff p s))) (at 0)"
proof -
  have "(radial2 k has_vector_derivative of_real (pnorm (pdiff p s)) * radial3 k (pnorm (pdiff p s)))
          (at (pnorm (pdiff (shift c 0 p) s)))"
    using radial2_deriv [OF assms(1)] by (simp add: shift_zero)
  from vector_chain [OF this pnorm_shift_deriv [OF assms]] show ?thesis
    using assms(1) by (simp add: scaleR_conv_of_real)
qed

lemma coord_shift_axis:
  assumes "axis c"
  shows "coord (pdiff (shift c t p) s) a = coord (pdiff p s) a + (if a = c then t else 0)"
  using assms by (simp add: coord_shift)

lemma coord_shift_deriv:
  assumes "axis c"
  shows "((\<lambda>t. complex_of_real (coord (pdiff (shift c t p) s) a)) has_vector_derivative
           (if a = c then 1 else 0)) (at 0)"
proof -
  have "((\<lambda>t. coord (pdiff p s) a + (if a = c then t else 0)) has_real_derivative
          (if a = c then 1 else 0)) (at 0)"
    by (auto intro!: derivative_eq_intros)
  then have "((\<lambda>t. coord (pdiff (shift c t p) s) a) has_real_derivative
          (if a = c then 1 else 0)) (at 0)"
    by (simp only: coord_shift_axis [OF assms])
  from has_vector_derivative_of_real [OF this] show ?thesis
    by (simp split: if_splits)
qed

lemma sph_closed_deriv0:
  assumes "pnorm (pdiff p s) \<noteq> 0" and "axis c"
  shows "((\<lambda>t. sph_closed k (pdiff (shift c t p) s) []) has_vector_derivative
           sph_closed k (pdiff p s) [c]) (at 0)"
  using radial0_shift_deriv [OF assms] by simp

lemma sph_closed_deriv1:
  assumes "pnorm (pdiff p s) \<noteq> 0" and "axis c"
  shows "((\<lambda>t. sph_closed k (pdiff (shift c t p) s) [a]) has_vector_derivative
           sph_closed k (pdiff p s) [a, c]) (at 0)"
proof -
  note d = has_vector_derivative_mult [OF coord_shift_deriv [OF assms(2), of p s a]
      radial1_shift_deriv [OF assms, of k]]
  show ?thesis
    unfolding sph_closed.simps
    by (rule has_vector_derivative_eq_rhs [OF d]) (simp add: shift_zero algebra_simps)
qed

lemma sph_closed_deriv2:
  assumes "pnorm (pdiff p s) \<noteq> 0" and "axis c"
  shows "((\<lambda>t. sph_closed k (pdiff (shift c t p) s) [a, b]) has_vector_derivative
           sph_closed k (pdiff p s) [a, b, c]) (at 0)"
proof -
  note ab = has_vector_derivative_mult [OF coord_shift_deriv [OF assms(2), of p s a]
      coord_shift_deriv [OF assms(2), of p s b]]
  note d2 = has_vector_derivative_mult [OF ab radial2_shift_deriv [OF assms, of k]]
  note d1 = has_vector_derivative_mult_right [OF radial1_shift_deriv [OF assms, of k],
      of "of_real (if a = b then 1 else 0)"]
  note d = has_vector_derivative_add [OF d2 d1]
  have eq: "(\<lambda>t. sph_closed k (pdiff (shift c t p) s) [a, b]) =
      (\<lambda>t. complex_of_real (coord (pdiff (shift c t p) s) a) *
           complex_of_real (coord (pdiff (shift c t p) s) b) *
           radial2 k (pnorm (pdiff (shift c t p) s)) +
           of_real (if a = b then 1 else 0) * radial1 k (pnorm (pdiff (shift c t p) s)))"
    by (simp add: fun_eq_iff)
  show ?thesis
    unfolding eq
    by (rule has_vector_derivative_eq_rhs [OF d]) (simp add: shift_zero algebra_simps)
qed

section \<open>The dictionary of spherical derivatives in closed form\<close>

lemma derivative_keys_simps:
  "orders \<le> 0 \<Longrightarrow> derivative_keys orders = ['''']"
  "derivative_keys 1 = ['''', ''x'', ''y'', ''z'']"
  "derivative_keys 2 = ['''', ''x'', ''y'', ''z'', ''xx'', ''yy'', ''zz'', ''xy'', ''xz'', ''yz'']"
  "3 \<le> orders \<Longrightarrow> derivative_keys orders = ['''', ''x'', ''y'', ''z'', ''xx'', ''yy'', ''zz'', ''xy'', ''xz'', ''yz'',
      ''xxx'', ''yyy'', ''zzz'', ''xxy'', ''xxz'', ''yyx'', ''yyz'', ''zzx'', ''zzy'']"
  by (simp_all add: derivative_keys_def finite_difference_coefficients_def)

lemma orders_cases:
  fixes orders :: int
  obtains "orders \<le> 0" | "orders = 1" | "orders = 2" | "3 \<le> orders"
  by linarith

lemma pnorm_zero_iff: "pnorm d = 0 \<longleftrightarrow> d = (0, 0, 0)"
proof (cases d)
  case (fields a b c)
  have "a ^ 2 + b ^ 2 + c ^ 2 = 0 \<longleftrightarrow> a = 0 \<and> b = 0 \<and> c = 0"
    by (metis add_nonneg_eq_0_iff zero_le_power2 add_nonneg_nonneg power2_eq_iff_nonneg zero_eq_power2 order_refl)
  then show ?thesis by (simp add: fields)
qed

lemma spherical_derivatives_core:
  assumes v: "vsub recv src = (Fin d1, Fin d2, Fin d3)"
    and sq: "np_sqrt (vsumsq (Fin d1, Fin d2, Fin d3)) = Fin r"
    and pn: "pnorm (d1, d2, d3) = r"
    and r: "r \<noteq> 0"
  shows "spherical_derivatives self src recv orders =
     map (\<lambda>key. (key, Fin (sph_closed (get_k self) (d1, d2, d3) key))) (derivative_keys orders)"
proof (cases orders rule: orders_cases)
  case 1
  then show ?thesis
    using r
    by (simp add: derivative_keys_simps spherical_derivatives_def v sq pn Let_def
        np_complex_def np_exp_def radial0_def one_np_def
        del: vsumsq.simps np_sqrt.simps pnorm.simps)
next
  case 2
  then show ?thesis
    using r
    by (simp add: derivative_keys_simps spherical_derivatives_def v sq pn Let_def
        np_complex_def np_exp_def radial0_def radial1_def one_np_def
        del: vsumsq.simps np_sqrt.simps pnorm.simps)
next
  case 3
  then show ?thesis
    using r
    by (simp add: derivative_keys_simps spherical_derivatives_def v sq pn Let_def
        np_complex_def np_exp_def radial0_def radial1_def radial2_def one_np_def
        power2_eq_square
        del: vsumsq.simps np_sqrt.simps pnorm.simps)
next
  case 4
  then show ?thesis
    using r
    by (simp add: derivative_keys_simps spherical_derivatives_def v sq pn Let_def
        np_complex_def np_exp_def radial0_def radial1_def radial2_def radial3_def one_np_def
        power2_eq_square algebra_simps
        del: vsumsq.simps np_sqrt.simps pnorm.simps)
qed

lemma spherical_derivatives_closed:
  assumes "p \<noteq> s"
  shows "spherical_derivatives self (vfin s) (vfin p) orders =
     map (\<lambda>key. (key, Fin (sph_closed (get_k self) (pdiff p s) key))) (derivative_keys orders)"
proof -
  obtain p1 p2 p3 s1 s2 s3 where ps: "p = (p1, p2, p3)" "s = (s1, s2, s3)"
    by (cases p; cases s) auto
  have "pdiff p s \<noteq> (0, 0, 0)"
    using assms by (auto simp: ps)
  then have nz: "pnorm (pdiff p s) \<noteq> 0"
    by (simp only: pnorm_zero_iff not_False_eq_True)
  have "spherical_derivatives self (vfin s) (vfin p) orders =
     map (\<lambda>key. (key, Fin (sph_closed (get_k self) (p1 - s1, p2 - s2, p3 - s3) key))) (derivative_keys orders)"
    by (rule spherical_derivatives_core [where r = "pnorm (pdiff p s)"])
       (use nz in \<open>simp_all add: ps vfin_def not_less\<close>)
  then show ?thesis by (simp add: ps)
qed

section \<open>The entries of spherical_derivatives are the partial derivatives\<close>

lemma pnorm_nonzero: "p \<noteq> s \<Longrightarrow> pnorm (pdiff p s) \<noteq> 0"
proof -
  assume "p \<noteq> s"
  then have "pdiff p s \<noteq> (0, 0, 0)"
    by (cases p; cases s) auto
  then show ?thesis
    by (simp only: pnorm_zero_iff not_False_eq_True)
qed

lemma pnorm_pos_iff: "0 < pnorm (pdiff p s) \<longleftrightarrow> p \<noteq> s"
proof
  assume "0 < pnorm (pdiff p s)"
  then show "p \<noteq> s" by (cases s) auto
next
  assume "p \<noteq> s"
  then show "0 < pnorm (pdiff p s)"
    using pnorm_nonzero pnorm_pos by blast
qed

lemma is_partial_cong:
  assumes "is_partial U F key G" and "\<And>p. U p \<Longrightarrow> G' p = G p"
  shows "is_partial U F key G'"
  using assms(1)
proof cases
  case is_partial_Nil
  then show ?thesis
    using assms(2) by (auto intro: is_partial.is_partial_Nil)
next
  case (is_partial_snoc key0 G0 ch)
  have "\<And>p. U p \<Longrightarrow> partial_along ch G0 p (G' p)"
    using is_partial_snoc(4) assms(2) by simp
  from is_partial.is_partial_snoc [OF is_partial_snoc(2,3) this] show ?thesis
    by (simp add: is_partial_snoc(1))
qed

lemma is_partial_closed0:
  "is_partial (\<lambda>q. q \<noteq> s) (spherical_wave k s) [] (\<lambda>q. sph_closed k (pdiff q s) [])"
  by (rule is_partial_Nil) (simp add: spherical_wave_def radial0_def)

lemma is_partial_closed1:
  assumes "axis a"
  shows "is_partial (\<lambda>q. q \<noteq> s) (spherical_wave k s) [a] (\<lambda>q. sph_closed k (pdiff q s) [a])"
proof -
  have "is_partial (\<lambda>q. q \<noteq> s) (spherical_wave k s) ([] @ [a]) (\<lambda>q. sph_closed k (pdiff q s) [a])"
  proof (rule is_partial_snoc [OF is_partial_closed0 assms])
    fix p :: point
    assume "p \<noteq> s"
    then show "partial_along a (\<lambda>q. sph_closed k (pdiff q s) []) p (sph_closed k (pdiff p s) [a])"
      unfolding partial_along_def by (intro sph_closed_deriv0 pnorm_nonzero assms)
  qed
  then show ?thesis by simp
qed

lemma is_partial_closed2:
  assumes "axis a" "axis b"
  shows "is_partial (\<lambda>q. q \<noteq> s) (spherical_wave k s) [a, b] (\<lambda>q. sph_closed k (pdiff q s) [a, b])"
proof -
  have "is_partial (\<lambda>q. q \<noteq> s) (spherical_wave k s) ([a] @ [b]) (\<lambda>q. sph_closed k (pdiff q s) [a, b])"
  proof (rule is_partial_snoc [OF is_partial_closed1 [OF assms(1)] assms(2)])
    fix p :: point
    assume "p \<noteq> s"
    then show "partial_along b (\<lambda>q. sph_closed k (pdiff q s) [a]) p (sph_closed k (pdiff p s) [a, b])"
      unfolding partial_along_def by (intro sph_closed_deriv1 pnorm_nonzero assms)
  qed
  then show ?thesis by simp
qed

lemma is_partial_closed3:
  assumes "axis a" "axis b" "axis c"
  shows "is_partial (\<lambda>q. q \<noteq> s) (spherical_wave k s) [a, b, c] (\<lambda>q. sph_closed k (pdiff q s) [a, b, c])"
proof -
  have "is_partial (\<lambda>q. q \<noteq> s) (spherical_wave k s) ([a, b] @ [c]) (\<lambda>q. sph_closed k (pdiff q s) [a, b, c])"
  proof (rule is_partial_snoc [OF is_partial_closed2 [OF assms(1,2)] assms(3)])
    fix p :: point
    assume "p \<noteq> s"
    then show "partial_along c (\<lambda>q. sph_closed k (pdiff q s) [a, b]) p (sph_closed k (pdiff p s) [a, b, c])"
      unfolding partial_along_def by (intro sph_closed_deriv2 pnorm_nonzero assms)
  qed
  then show ?thesis by simp
qed

lemma derivative_keys_subset: "set (derivative_keys orders) \<subseteq> set (derivative_keys 3)"
  by (cases orders rule: orders_cases) (simp_all add: derivative_keys_simps)

lemma is_partial_closed:
  assumes "key \<in> set (derivative_keys orders)"
  shows "is_partial (\<lambda>q. q \<noteq> s) (spherical_wave k s) key (\<lambda>q. sph_closed k (pdiff q s) key)"
proof -
  have "key \<in> set (derivative_keys 3)"
    using assms derivative_keys_subset by blast
  then show ?thesis
    by (auto simp: derivative_keys_simps axis_def
        intro!: is_partial_closed0 is_partial_closed1 is_partial_closed2 is_partial_closed3)
qed

lemma map_of_tabulate:
  "key \<in> set keys \<Longrightarrow> map_of (map (\<lambda>key. (key, f key)) keys) key = Some (f key)"
  by (induction keys) auto

lemma entry_value_spherical:
  assumes "p \<noteq> s" and "key \<in> set (derivative_keys orders)"
  shows "entry_value (spherical_derivatives self (vfin s) (vfin p) orders) key =
           sph_closed (get_k self) (pdiff p s) key"
  by (simp add: entry_value_def spherical_derivatives_closed [OF assms(1)] map_of_tabulate [OF assms(2)])

lemma map_of_spherical:
  assumes "p \<noteq> s" and "key \<in> set (derivative_keys orders)"
  shows "map_of (spherical_derivatives self (vfin s) (vfin p) orders) key =
           Some (Fin (sph_closed (get_k self) (pdiff p s) key))"
  by (simp add: spherical_derivatives_closed [OF assms(1)] map_of_tabulate [OF assms(2)])

lemma is_partial_spherical:
  assumes "key \<in> set (derivative_keys orders)"
  shows "is_partial (\<lambda>q. q \<noteq> s) (spherical_wave (get_k self) s) key
           (\<lambda>q. entry_value (spherical_derivatives self (vfin s) (vfin q) orders) key)"
  by (rule is_partial_cong [OF is_partial_closed [OF assms]])
     (simp add: entry_value_spherical [OF _ assms])

lemma spherical_low_order_entries:
  assumes "p \<noteq> s"
  shows "(let k = get_k self; r = pnorm (pdiff p s);
            x = coord (pdiff p s) CHR ''x''; y = coord (pdiff p s) CHR ''y'';
            z = coord (pdiff p s) CHR ''z'';
            e = exp (\<i> * of_real (k * r));
            c1 = (\<i> * of_real (k * r) - 1) * e / of_real (r ^ 3);
            c2 = (of_real (3 - k ^ 2 * r ^ 2) - 3 * \<i> * of_real (k * r)) * e / of_real (r ^ 5);
            sd = spherical_derivatives self (vfin s) (vfin p) 3
        in map_of sd '''' = Some (Fin (e / of_real r)) \<and>
           map_of sd ''x'' = Some (Fin (c1 * of_real x)) \<and>
           map_of sd ''y'' = Some (Fin (c1 * of_real y)) \<and>
           map_of sd ''z'' = Some (Fin (c1 * of_real z)) \<and>
           map_of sd ''xx'' = Some (Fin (c2 * of_real (x ^ 2) + c1)) \<and>
           map_of sd ''yy'' = Some (Fin (c2 * of_real (y ^ 2) + c1)) \<and>
           map_of sd ''zz'' = Some (Fin (c2 * of_real (z ^ 2) + c1)) \<and>
           map_of sd ''xy'' = Some (Fin (c2 * of_real (x * y))) \<and>
           map_of sd ''xz'' = Some (Fin (c2 * of_real (x * z))) \<and>
           map_of sd ''yz'' = Some (Fin (c2 * of_real (y * z))))"
  by (simp add: Let_def map_of_spherical [OF assms] derivative_keys_simps
      radial0_def radial1_def radial2_def power2_eq_square power_mult_distrib mult_ac)

lemma spherical_keys:
  assumes "p \<noteq> s"
  shows "map fst (spherical_derivatives self (vfin s) (vfin p) orders) = derivative_keys orders"
  by (simp add: spherical_derivatives_closed [OF assms] comp_def)

text \<open>
  C1.  For a receiver at a positive distance \<open>r\<close> from the source,
  \<open>spherical_derivatives\<close> returns the closed forms of the partial derivatives of
  \<open>exp (i k r) / r\<close>: the entry of order 0 is \<open>exp (i k r) / r\<close>; a first-order entry is
  \<open>(i k r - 1) exp (i k r) / r^3\<close> times the component of \<open>recv - src\<close>; a diagonal
  second-order entry is \<open>(3 - k^2 r^2 - 3 i k r) exp (i k r) / r^5\<close> times the squared
  component plus the first-order coefficient, a mixed one is the same coefficient times
  the product of the two components; the keys returned are those of the requested
  order; and for every \<open>orders\<close> and every key of it, the entry returned is the finite
  number \<open>sph_closed k (recv - src) key\<close>, at this receiver and at every receiver
  other than the source, and this function of the receiver is the partial
  derivative of \<open>exp (i k r) / r\<close> along the axes that the key names.
\<close>

theorem spherical_derivatives_closed_forms:
  assumes "0 < pnorm (pdiff p s)"
  shows "(let k = get_k self; r = pnorm (pdiff p s);
            x = coord (pdiff p s) CHR ''x''; y = coord (pdiff p s) CHR ''y'';
            z = coord (pdiff p s) CHR ''z'';
            e = exp (\<i> * of_real (k * r));
            c1 = (\<i> * of_real (k * r) - 1) * e / of_real (r ^ 3);
            c2 = (of_real (3 - k ^ 2 * r ^ 2) - 3 * \<i> * of_real (k * r)) * e / of_real (r ^ 5);
            sd = spherical_derivatives self (vfin s) (vfin p) 3
        in map_of sd '''' = Some (Fin (e / of_real r)) \<and>
           map_of sd ''x'' = Some (Fin (c1 * of_real x)) \<and>
           map_of sd ''y'' = Some (Fin (c1 * of_real y)) \<and>
           map_of sd ''z'' = Some (Fin (c1 * of_real z)) \<and>
           map_of sd ''xx'' = Some (Fin (c2 * of_real (x ^ 2) + c1)) \<and>
           map_of sd ''yy'' = Some (Fin (c2 * of_real (y ^ 2) + c1)) \<and>
           map_of sd ''zz'' = Some (Fin (c2 * of_real (z ^ 2) + c1)) \<and>
           map_of sd ''xy'' = Some (Fin (c2 * of_real (x * y))) \<and>
           map_of sd ''xz'' = Some (Fin (c2 * of_real (x * z))) \<and>
           map_of sd ''yz'' = Some (Fin (c2 * of_real (y * z))))
     \<and> (\<forall>orders. map fst (spherical_derivatives self (vfin s) (vfin p) orders)
            = derivative_keys orders)
     \<and> (\<forall>orders. \<forall>key \<in> set (derivative_keys orders).
            map_of (spherical_derivatives self (vfin s) (vfin p) orders) key
              = Some (Fin (sph_closed (get_k self) (pdiff p s) key)) \<and>
            (\<forall>q. q \<noteq> s \<longrightarrow>
               map_of (spherical_derivatives self (vfin s) (vfin q) orders) key
                 = Some (Fin (sph_closed (get_k self) (pdiff q s) key))) \<and>
            is_partial (\<lambda>q. q \<noteq> s) (spherical_wave (get_k self) s) key
              (\<lambda>q. sph_closed (get_k self) (pdiff q s) key))
     \<and> (\<forall>orders. \<forall>key \<in> set (derivative_keys orders).
            is_partial (\<lambda>q. q \<noteq> s) (spherical_wave (get_k self) s) key
              (\<lambda>q. entry_value (spherical_derivatives self (vfin s) (vfin q) orders) key))"
proof -
  have ps: "p \<noteq> s"
    using assms by (simp add: pnorm_pos_iff)
  have strong: "\<forall>orders. \<forall>key \<in> set (derivative_keys orders).
            map_of (spherical_derivatives self (vfin s) (vfin p) orders) key
              = Some (Fin (sph_closed (get_k self) (pdiff p s) key)) \<and>
            (\<forall>q. q \<noteq> s \<longrightarrow>
               map_of (spherical_derivatives self (vfin s) (vfin q) orders) key
                 = Some (Fin (sph_closed (get_k self) (pdiff q s) key))) \<and>
            is_partial (\<lambda>q. q \<noteq> s) (spherical_wave (get_k self) s) key
              (\<lambda>q. sph_closed (get_k self) (pdiff q s) key)"
    using map_of_spherical [of _ s _ _ self] is_partial_closed [of _ _ s "get_k self"] ps
    by blast
  show ?thesis
    using spherical_low_order_entries [OF ps, of self] spherical_keys [OF ps, of self]
      is_partial_spherical [of _ _ s self] strong
    by blast
qed

theorem spherical_derivatives_closed_forms_witness:
  "0 < pnorm (pdiff (1, 0, 0) (0, 0, 0)) \<and>
   map_of (spherical_derivatives \<lparr>priv_k = 1, priv_omega = 343, effective_radius = 1 / 200, p0 = 6\<rparr>
      (vfin (0, 0, 0)) (vfin (1, 0, 0)) 3) ''x'' = Some (Fin ((\<i> - 1) * exp \<i>)) \<and>
   map_of (spherical_derivatives \<lparr>priv_k = 1, priv_omega = 343, effective_radius = 1 / 200, p0 = 6\<rparr>
      (vfin (0, 0, 0)) (vfin (1, 0, 0)) 3) ''xxy'' = Some (Fin 0) \<and>
   map_of (spherical_derivatives \<lparr>priv_k = 1, priv_omega = 343, effective_radius = 1 / 200, p0 = 6\<rparr>
      (vfin (0, 0, 0)) (vfin (1, 0, 0)) 1) ''y'' = Some (Fin 0) \<and>
   is_partial (\<lambda>q. q \<noteq> (0, 0, 0)) (spherical_wave 1 (0, 0, 0)) ''xxy''
     (\<lambda>q. sph_closed 1 (pdiff q (0, 0, 0)) ''xxy'') \<and>
   is_partial (\<lambda>q. q \<noteq> (0, 0, 0)) (spherical_wave 1 (0, 0, 0)) ''xxy''
     (\<lambda>q. entry_value (spherical_derivatives \<lparr>priv_k = 1, priv_omega = 343, effective_radius = 1 / 200, p0 = 6\<rparr>
        (vfin (0, 0, 0)) (vfin q) 3) ''xxy'')"
proof -
  have pos: "0 < pnorm (pdiff (1, 0, 0) (0, 0, 0))"
    by simp
  have key: "''xxy'' \<in> set (derivative_keys 3)" "''y'' \<in> set (derivative_keys 1)"
    by (simp_all add: derivative_keys_simps)
  define self where
    "self = \<lparr>priv_k = 1, priv_omega = 343, effective_radius = 1 / 200, p0 = 6\<rparr>"
  note closed = spherical_derivatives_closed_forms [OF pos, of self, unfolded Let_def]
  have x: "map_of (spherical_derivatives self (vfin (0, 0, 0)) (vfin (1, 0, 0)) 3) ''x''
             = Some (Fin ((\<i> - 1) * exp \<i>))"
    using closed by (simp add: self_def get_k_def)
  have xxy: "map_of (spherical_derivatives self (vfin (0, 0, 0)) (vfin (1, 0, 0)) 3) ''xxy''
             = Some (Fin (sph_closed (get_k self) (pdiff (1, 0, 0) (0, 0, 0)) ''xxy''))"
    using closed key(1) by blast
  have y: "map_of (spherical_derivatives self (vfin (0, 0, 0)) (vfin (1, 0, 0)) 1) ''y''
             = Some (Fin (sph_closed (get_k self) (pdiff (1, 0, 0) (0, 0, 0)) ''y''))"
    using closed key(2) by blast
  have partial: "is_partial (\<lambda>q. q \<noteq> (0, 0, 0)) (spherical_wave (get_k self) (0, 0, 0)) ''xxy''
     (\<lambda>q. sph_closed (get_k self) (pdiff q (0, 0, 0)) ''xxy'')"
    using closed key(1) by blast
  have entry: "is_partial (\<lambda>q. q \<noteq> (0, 0, 0)) (spherical_wave (get_k self) (0, 0, 0)) ''xxy''
     (\<lambda>q. entry_value (spherical_derivatives self (vfin (0, 0, 0)) (vfin q) 3) ''xxy'')"
    using closed key(1) by blast
  have k: "get_k self = 1"
    by (simp add: self_def get_k_def)
  show ?thesis
    using pos x xxy y partial entry unfolding k unfolding self_def
    by simp
qed

section \<open>Arithmetic on non-finite values\<close>

lemma np_absorb [simp]:
  "x + NonFinite = NonFinite" "x - NonFinite = NonFinite" "x * NonFinite = NonFinite"
  "NonFinite + x = NonFinite" "NonFinite - x = NonFinite" "NonFinite * x = NonFinite"
  by (cases x; simp)+

lemma np_divide_absorb [simp]:
  fixes x :: "'a::field np"
  shows "x / NonFinite = NonFinite" "NonFinite / x = NonFinite" "x / Fin 0 = NonFinite"
  by (cases x; simp)+

lemma base_directivity_derivatives:
  assumes "get_k self \<noteq> 0"
  shows "directivity_derivatives directivity self src n recv orders =
           Ret (map (\<lambda>key. (key, if key = [] then Fin 1 else Fin 0)) (derivative_keys orders))"
  using assms
  by (cases orders rule: orders_cases)
     (simp_all add: directivity_derivatives_def directivity_def derivative_keys_simps
        finite_difference_coefficients_def Let_def one_np_def zero_np_def)

section \<open>The product rule in spatial_derivatives\<close>

lemma canonical_key_simps:
  "canonical_key '''' = ''''"
  "canonical_key ''x'' = ''x''" "canonical_key ''y'' = ''y''" "canonical_key ''z'' = ''z''"
  "canonical_key ''xx'' = ''xx''" "canonical_key ''yy'' = ''yy''" "canonical_key ''zz'' = ''zz''"
  "canonical_key ''xy'' = ''xy''" "canonical_key ''xz'' = ''xz''" "canonical_key ''yz'' = ''yz''"
  "canonical_key ''yx'' = ''xy''" "canonical_key ''zx'' = ''xz''" "canonical_key ''zy'' = ''yz''"
  "canonical_key ''xxx'' = ''xxx''" "canonical_key ''yyy'' = ''yyy''" "canonical_key ''zzz'' = ''zzz''"
  "canonical_key ''xxy'' = ''xxy''" "canonical_key ''xxz'' = ''xxz''" "canonical_key ''yyx'' = ''yyx''"
  "canonical_key ''yyz'' = ''yyz''" "canonical_key ''zzx'' = ''zzx''" "canonical_key ''zzy'' = ''zzy''"
  by (simp_all add: canonical_key_def same_axes_def derivative_keys_simps)

lemma np_two_times: "Fin 2 * (x :: complex np) = x + x"
  by (cases x) simp_all

lemma np_three_times: "Fin 3 * (x :: complex np) = x + x + x"
  by (cases x) simp_all

lemma leibniz_order_0_1:
  fixes S D :: "string \<Rightarrow> complex np"
  shows "leibniz S D '''' = S '''' * D ''''"
    and "leibniz S D ''x'' = S '''' * D ''x'' + D '''' * S ''x''"
    and "leibniz S D ''y'' = S '''' * D ''y'' + D '''' * S ''y''"
    and "leibniz S D ''z'' = S '''' * D ''z'' + D '''' * S ''z''"
  by (simp_all add: leibniz_def canonical_key_simps ac_simps)

lemma leibniz_order_2:
  fixes S D :: "string \<Rightarrow> complex np"
  shows "leibniz S D ''xx'' = S '''' * D ''xx'' + D '''' * S ''xx'' + 2 * D ''x'' * S ''x''"
    and "leibniz S D ''yy'' = S '''' * D ''yy'' + D '''' * S ''yy'' + 2 * D ''y'' * S ''y''"
    and "leibniz S D ''zz'' = S '''' * D ''zz'' + D '''' * S ''zz'' + 2 * D ''z'' * S ''z''"
    and "leibniz S D ''xy'' = S '''' * D ''xy'' + D '''' * S ''xy'' + S ''x'' * D ''y'' + D ''x'' * S ''y''"
    and "leibniz S D ''xz'' = S '''' * D ''xz'' + D '''' * S ''xz'' + S ''x'' * D ''z'' + D ''x'' * S ''z''"
    and "leibniz S D ''yz'' = S '''' * D ''yz'' + D '''' * S ''yz'' + S ''y'' * D ''z'' + D ''y'' * S ''z''"
  by (simp_all add: leibniz_def canonical_key_simps np_two_times algebra_simps)

lemma leibniz_order_3_pure:
  fixes S D :: "string \<Rightarrow> complex np"
  shows "leibniz S D ''xxx'' = S '''' * D ''xxx'' + D '''' * S ''xxx''
            + 3 * (D ''xx'' * S ''x'' + S ''xx'' * D ''x'')"
    and "leibniz S D ''yyy'' = S '''' * D ''yyy'' + D '''' * S ''yyy''
            + 3 * (D ''yy'' * S ''y'' + S ''yy'' * D ''y'')"
    and "leibniz S D ''zzz'' = S '''' * D ''zzz'' + D '''' * S ''zzz''
            + 3 * (D ''zz'' * S ''z'' + S ''zz'' * D ''z'')"
  by (simp_all add: leibniz_def canonical_key_simps np_three_times algebra_simps)

lemma leibniz_order_3_mixed:
  fixes S D :: "string \<Rightarrow> complex np"
  shows "leibniz S D ''xxy'' = S '''' * D ''xxy'' + D '''' * S ''xxy''
            + S ''y'' * D ''xx'' + D ''y'' * S ''xx''
            + 2 * (S ''x'' * D ''xy'' + D ''x'' * S ''xy'')"
    and "leibniz S D ''xxz'' = S '''' * D ''xxz'' + D '''' * S ''xxz''
            + S ''z'' * D ''xx'' + D ''z'' * S ''xx''
            + 2 * (S ''x'' * D ''xz'' + D ''x'' * S ''xz'')"
    and "leibniz S D ''yyx'' = S '''' * D ''yyx'' + D '''' * S ''yyx''
            + S ''x'' * D ''yy'' + D ''x'' * S ''yy''
            + 2 * (S ''y'' * D ''xy'' + D ''y'' * S ''xy'')"
    and "leibniz S D ''yyz'' = S '''' * D ''yyz'' + D '''' * S ''yyz''
            + S ''z'' * D ''yy'' + D ''z'' * S ''yy''
            + 2 * (S ''y'' * D ''yz'' + D ''y'' * S ''yz'')"
    and "leibniz S D ''zzx'' = S '''' * D ''zzx'' + D '''' * S ''zzx''
            + S ''x'' * D ''zz'' + D ''x'' * S ''zz''
            + 2 * (S ''z'' * D ''xz'' + D ''z'' * S ''xz'')"
    and "leibniz S D ''zzy'' = S '''' * D ''zzy'' + D '''' * S ''zzy''
            + S ''y'' * D ''zz'' + D ''y'' * S ''zz''
            + 2 * (S ''z'' * D ''yz'' + D ''z'' * S ''yz'')"
  by (simp_all add: leibniz_def canonical_key_simps np_two_times algebra_simps)

lemmas leibniz_expansions =
  leibniz_order_0_1 leibniz_order_2 leibniz_order_3_pure leibniz_order_3_mixed

lemma spatial_derivatives_tabulated:
  assumes dm: "dm self src n recv orders = Ret dd"
    and dd: "\<forall>key \<in> set (derivative_keys orders). map_of dd key = Some (dv key)"
    and sd: "\<forall>key \<in> set (derivative_keys orders).
               map_of (spherical_derivatives self src recv orders) key = Some (sv key)"
  shows "spatial_derivatives dm self src n recv orders =
           Ret (map (\<lambda>key. (key, leibniz sv (\<lambda>k. np_complex (dv k)) key
                                   * Fin (complex_of_real (p0 self))))
                  (derivative_keys orders))"
proof (cases orders rule: orders_cases)
  case 1
  then show ?thesis
    using dm dd sd
    by (simp add: spatial_derivatives_def Let_def getitem_def derivative_keys_simps
        leibniz_expansions)
next
  case 2
  then show ?thesis
    using dm dd sd
    by (simp add: spatial_derivatives_def Let_def getitem_def derivative_keys_simps
        leibniz_expansions)
next
  case 3
  then show ?thesis
    using dm dd sd
    by (simp add: spatial_derivatives_def Let_def getitem_def derivative_keys_simps
        leibniz_expansions)
next
  case 4
  then show ?thesis
    using dm dd sd
    by (simp add: spatial_derivatives_def Let_def getitem_def derivative_keys_simps
        leibniz_expansions)
qed

section \<open>Finite values\<close>

lemma is_fin_arith [simp]:
  "is_fin (a + b) \<longleftrightarrow> is_fin a \<and> is_fin b"
  "is_fin (a - b) \<longleftrightarrow> is_fin a \<and> is_fin b"
  "is_fin (a * b) \<longleftrightarrow> is_fin a \<and> is_fin b"
  "is_fin (- a) \<longleftrightarrow> is_fin a"
  by (cases a; cases b; simp)+

lemma is_fin_divide [simp]:
  fixes a b :: "'a::field np"
  shows "is_fin (a / b) \<longleftrightarrow> is_fin a \<and> np_nonzero b"
  by (cases a; cases b; simp)

lemma is_fin_power [simp]:
  fixes a :: "'a::comm_semiring_1 np"
  shows "is_fin (a ^ n) \<longleftrightarrow> n = 0 \<or> is_fin a"
proof (cases a)
  case (Fin x)
  then show ?thesis by simp
next
  case NonFinite
  then show ?thesis by (cases n) (simp_all add: one_np_def)
qed

lemma is_fin_one [simp]: "is_fin (1 :: 'a::one np)"
  by (simp add: one_np_def)

lemma is_fin_map [simp]: "is_fin (np_map f a) \<longleftrightarrow> is_fin a"
  by (cases a) simp_all

lemma np_nonzero_mult [simp]:
  fixes a b :: "'a::field np"
  shows "np_nonzero (a * b) \<longleftrightarrow> np_nonzero a \<and> np_nonzero b"
  by (cases a; cases b; simp)

lemma np_nonzero_power [simp]:
  fixes a :: "'a::field np"
  shows "np_nonzero (a ^ n) \<longleftrightarrow> n = 0 \<or> np_nonzero a"
proof (cases a)
  case (Fin x)
  then show ?thesis by (cases n) (auto simp: one_np_def)
next
  case NonFinite
  then show ?thesis by (cases n) (simp_all add: one_np_def)
qed

lemma np_nonzero_is_fin: "np_nonzero a \<Longrightarrow> is_fin a"
  by (cases a) simp_all

lemma np_sqrt_zero_fin: "np_sqrt a = Fin 0 \<Longrightarrow> is_fin a"
  by (cases a) simp_all

lemma is_fin_vdot:
  "is_fin (vdot (d0, d1, d2) (n0, n1, n2)) \<longleftrightarrow>
     is_fin d0 \<and> is_fin d1 \<and> is_fin d2 \<and> is_fin n0 \<and> is_fin n1 \<and> is_fin n2"
  by (auto simp: vdot_def)

lemma sin_zero_finite:
  assumes "np_sqrt (1 - (dot / r / nrm) ^ 2) = Fin 0"
  shows "is_fin dot \<and> np_nonzero r \<and> np_nonzero nrm"
  using np_sqrt_zero_fin [OF assms] by simp

section \<open>Directivity on the axis\<close>

text \<open>
  With exact numbers.  Where the sine that the program computes is exactly 0 the
  branches of \<open>np.where\<close> give the limits: 1 for the piston, and 0.5, 0.125 and 1/48
  for the Bessel ratios of the ring, whose entries are then all finite; and in exact
  arithmetic a receiver on the axis has sine 0.
\<close>

lemma is_fin_vsumsq:
  "is_fin (vsumsq (d0, d1, d2)) \<longleftrightarrow> is_fin d0 \<and> is_fin d1 \<and> is_fin d2"
  by simp

lemma ring_derivatives_finite:
  assumes "circular_ring_sin src n recv = Fin 0"
  shows "\<exists>dd. circular_ring_directivity_derivatives j0 j1 self src n recv orders = Ret dd \<and>
           map fst dd = derivative_keys orders \<and> list_all (\<lambda>(key, v). is_fin v) dd"
proof -
  obtain d0 d1 d2 where d: "vsub recv src = (d0, d1, d2)"
    by (cases "vsub recv src") auto
  obtain n0 n1 n2 where n: "n = (n0, n1, n2)"
    by (cases n) auto
  define dot where "dot = vdot (d0, d1, d2) (n0, n1, n2)"
  define r where "r = np_sqrt (vsumsq (d0, d1, d2))"
  define nrm where "nrm = np_sqrt (vsumsq (n0, n1, n2))"
  have H: "np_sqrt (1 - (dot / r / nrm) ^ 2) = Fin 0"
    using assms by (simp only: circular_ring_sin_def Let_def d n dot_def r_def nrm_def)
  from sin_zero_finite [OF H] have fin: "is_fin dot" "np_nonzero r" "np_nonzero nrm"
    by simp_all
  have comps: "is_fin d0" "is_fin d1" "is_fin d2" "is_fin n0" "is_fin n1" "is_fin n2"
    using fin(1) by (simp_all only: dot_def is_fin_vdot)
  show ?thesis
    unfolding circular_ring_directivity_derivatives_def d n prod.case
      dot_def [symmetric] r_def [symmetric] nrm_def [symmetric]
    unfolding Let_def H
    using fin comps
    by (cases orders rule: orders_cases)
       (simp_all add: derivative_keys_simps circular_ring_J1_xi_def circular_ring_J2_xi2_def
          circular_ring_J3_xi3_def np_where_def np_nonzero_is_fin)
qed

lemma piston_on_axis_value:
  assumes "directivity_sin_angle src n recv = Fin 0"
  shows "circular_piston_directivity j1 self src n recv = Fin 1"
  using assms by (simp add: circular_piston_directivity_def Let_def np_where_def one_np_def)

lemma ring_on_axis_value:
  assumes "directivity_sin_angle src n recv = Fin 0"
  shows "circular_ring_directivity j0 self src n recv = Fin (j0 0)"
  using assms by (simp add: circular_ring_directivity_def Let_def)

lemma ring_limit_constants:
  "circular_ring_J1_xi j1 (Fin 0) ka_sin = Fin 0.5"
  "circular_ring_J2_xi2 j0 j1 (Fin 0) ka_sin = Fin 0.125"
  "circular_ring_J3_xi3 j0 j1 (Fin 0) ka_sin = Fin (1 / 48)"
  by (simp_all add: circular_ring_J1_xi_def circular_ring_J2_xi2_def circular_ring_J3_xi3_def
      np_where_def)

lemma on_axis_cos_sq:
  fixes t N :: real
  assumes "0 < N" and "t \<noteq> 0"
  shows "(t * N / sqrt (t ^ 2 * N) / sqrt N) ^ 2 = 1"
proof -
  have a: "(sqrt (t ^ 2 * N)) ^ 2 = t ^ 2 * N"
    using assms by simp
  have b: "(sqrt N) ^ 2 = N"
    using assms by simp
  have "(t * N / sqrt (t ^ 2 * N) / sqrt N) ^ 2 = (t * N) ^ 2 / (sqrt (t ^ 2 * N)) ^ 2 / (sqrt N) ^ 2"
    by (simp only: power_divide)
  also have "\<dots> = (t * N) ^ 2 / (t ^ 2 * N) / N"
    by (simp only: a b)
  also have "\<dots> = 1"
    using assms by (simp add: field_simps power2_eq_square)
  finally show ?thesis .
qed

lemma on_axis_sin:
  fixes s nv :: point and t :: real
  assumes "nv \<noteq> (0, 0, 0)" and "t \<noteq> 0"
    and "p = (fst s + t * fst nv, fst (snd s) + t * fst (snd nv), snd (snd s) + t * snd (snd nv))"
  shows "directivity_sin_angle (vfin s) (vfin nv) (vfin p) = Fin 0"
    and "circular_ring_sin (vfin s) (vfin nv) (vfin p) = Fin 0"
proof -
  obtain s0 s1 s2 n0 n1 n2 where sn: "s = (s0, s1, s2)" "nv = (n0, n1, n2)"
    by (cases s; cases nv) auto
  define N where "N = n0 ^ 2 + n1 ^ 2 + n2 ^ 2"
  have "pnorm nv \<noteq> 0"
    using assms(1) by (simp only: pnorm_zero_iff not_False_eq_True)
  then have N: "0 < N"
    using pnorm_pos [of nv] by (simp add: sn N_def)
  have dot: "(s0 + t * n0 - s0) * n0 + (s1 + t * n1 - s1) * n1 + (s2 + t * n2 - s2) * n2 = t * N"
    by (simp add: N_def algebra_simps power2_eq_square)
  have sq: "(s0 + t * n0 - s0) * (s0 + t * n0 - s0) + (s1 + t * n1 - s1) * (s1 + t * n1 - s1)
      + (s2 + t * n2 - s2) * (s2 + t * n2 - s2) = t ^ 2 * N"
    by (simp add: N_def algebra_simps power2_eq_square)
  have sq2: "(s0 + t * n0 - s0) ^ 2 + (s1 + t * n1 - s1) ^ 2 + (s2 + t * n2 - s2) ^ 2 = t ^ 2 * N"
    by (simp add: N_def algebra_simps power2_eq_square)
  have pos: "\<not> t ^ 2 * N < 0" "\<not> N < 0" "sqrt (t ^ 2 * N) \<noteq> 0" "sqrt N \<noteq> 0"
    using N assms(2) by (simp_all add: not_less)
  have v1: "vdot (vsub (vfin p) (vfin s)) (vfin nv) = Fin (t * N)"
    by (simp only: assms(3) sn vfin_def prod.case fst_conv snd_conv vsub.simps minus_np.simps
        vdot_def vmul.simps vsum.simps times_np.simps plus_np.simps dot)
  have v2: "vdot (vsub (vfin p) (vfin s)) (vsub (vfin p) (vfin s)) = Fin (t ^ 2 * N)"
    by (simp only: assms(3) sn vfin_def prod.case fst_conv snd_conv vsub.simps minus_np.simps
        vdot_def vmul.simps vsum.simps times_np.simps plus_np.simps sq)
  have v3: "vsumsq (vsub (vfin p) (vfin s)) = Fin (t ^ 2 * N)"
    by (simp only: assms(3) sn vfin_def prod.case fst_conv snd_conv vsub.simps minus_np.simps
        vsumsq.simps power_np plus_np.simps sq2)
  have v4: "vsumsq (vfin nv) = Fin N"
    by (simp only: sn vfin_def prod.case vsumsq.simps power_np plus_np.simps N_def)
  show "directivity_sin_angle (vfin s) (vfin nv) (vfin p) = Fin 0"
    unfolding directivity_sin_angle_def Let_def v1 v2 v4
    using pos on_axis_cos_sq [OF N assms(2)] by (simp add: one_np_def)
  show "circular_ring_sin (vfin s) (vfin nv) (vfin p) = Fin 0"
    unfolding circular_ring_sin_def Let_def v1 v3 v4
    using pos on_axis_cos_sq [OF N assms(2)] by (simp add: one_np_def)
qed

section \<open>Rounding on the axis\<close>

text \<open>
  The lemmas of the last section are about exact arithmetic, where a receiver on
  the axis has sine 0.  In double precision the cosine of a receiver on the axis
  of a tilted transducer can come out above 1: for the normal \<open>(1, 1, 1)\<close> and the
  receiver at the source plus the normal, the square root of 3 is rounded down,
  the two quotients give \<open>1 + 2^-52\<close>, and \<open>1 - cos^2\<close> is negative.
\<close>

lemma floor_log2:
  assumes "2 powr of_int n \<le> y" "y < 2 powr (of_int n + 1)"
  shows "\<lfloor>log 2 y\<rfloor> = n"
proof -
  have "(0 :: real) < 2 powr of_int n"
    by simp
  then have pos: "0 < y"
    using assms(1) by (rule less_le_trans)
  have "of_int n \<le> log 2 y"
    using assms(1) pos by (simp add: le_log_iff)
  moreover have "log 2 y < of_int n + 1"
    using assms(2) pos by (simp add: log_less_iff)
  ultimately show ?thesis
    by (simp add: floor_eq_iff)
qed

lemma round_half_even_eq:
  assumes "of_int m - 1 / 2 < x" "x < of_int m + 1 / 2"
  shows "round_half_even x = m"
proof (cases "of_int m \<le> x")
  case True
  then have f: "\<lfloor>x\<rfloor> = m"
    using assms(2) by (simp add: floor_eq_iff)
  show ?thesis
    using assms(2) by (simp add: round_half_even_def f Let_def)
next
  case False
  then have f: "\<lfloor>x\<rfloor> = m - 1"
    using assms(1) by (simp add: floor_eq_iff)
  show ?thesis
    using assms(1) False by (simp add: round_half_even_def f Let_def)
qed

lemma float64_eqI:
  assumes "2 powr of_int n \<le> \<bar>x\<bar>" "\<bar>x\<bar> < 2 powr (of_int n + 1)"
    and "of_int m - 1 / 2 < x * 2 powr of_int (52 - n)"
    and "x * 2 powr of_int (52 - n) < of_int m + 1 / 2"
  shows "float64 x = of_int m / 2 powr of_int (52 - n)"
proof -
  have "(0 :: real) < 2 powr of_int n"
    by simp
  then have "0 < \<bar>x\<bar>"
    using assms(1) by (rule less_le_trans)
  then have "x \<noteq> 0"
    by simp
  then show ?thesis
    using round_half_even_eq [OF assms(3,4)]
    by (simp add: float64_def floor_log2 [OF assms(1,2)] Let_def)
qed

lemma float64_1: "float64 1 = 1"
  using float64_eqI [where x = 1 and n = 0 and m = "2 ^ 52"] by simp

lemma float64_2: "float64 2 = 2"
  using float64_eqI [where x = 2 and n = 1 and m = "2 ^ 52"] by simp

lemma float64_3: "float64 3 = 3"
  using float64_eqI [where x = 3 and n = 1 and m = "3 * 2 ^ 51"] by simp

lemma float64_sqrt_3: "float64 (sqrt 3) = 7800463371553962 / 2 ^ 52"
proof -
  have 1: "2 powr of_int 0 \<le> \<bar>sqrt 3\<bar>"
    by simp
  have 2: "\<bar>sqrt 3\<bar> < 2 powr (of_int 0 + 1)"
    by (simp add: real_less_lsqrt)
  have "(7800463371553962 - 1 / 2) / 2 ^ 52 < sqrt 3"
    by (rule real_less_rsqrt) (simp add: power2_eq_square)
  then have 3: "of_int 7800463371553962 - 1 / 2 < sqrt 3 * 2 powr of_int (52 - 0)"
    by (simp add: field_simps)
  have "sqrt 3 < (7800463371553962 + 1 / 2) / 2 ^ 52"
    by (rule real_less_lsqrt) (simp_all add: power2_eq_square)
  then have 4: "sqrt 3 * 2 powr of_int (52 - 0) < of_int 7800463371553962 + 1 / 2"
    by (simp add: field_simps)
  show ?thesis
    using float64_eqI [OF 1 2 3 4] by simp
qed

lemma float64_quotient_1:
  "float64 (3 / (7800463371553962 / 2 ^ 52)) = 7800463371553963 / 2 ^ 52"
  using float64_eqI [where x = "3 / (7800463371553962 / 2 ^ 52)" and n = 0
      and m = 7800463371553963]
  by simp

lemma float64_quotient_2:
  "float64 (7800463371553963 / 2 ^ 52 / (7800463371553962 / 2 ^ 52)) = 4503599627370497 / 2 ^ 52"
  using float64_eqI [where x = "7800463371553963 / 2 ^ 52 / (7800463371553962 / 2 ^ 52)" and n = 0
      and m = 4503599627370497]
  by simp

lemma float64_square:
  "float64 (4503599627370497 / 2 ^ 52 * (4503599627370497 / 2 ^ 52)) = 4503599627370498 / 2 ^ 52"
  using float64_eqI [where x = "4503599627370497 / 2 ^ 52 * (4503599627370497 / 2 ^ 52)" and n = 0
      and m = 4503599627370498]
  by simp

lemma float64_difference:
  "float64 (1 - 4503599627370498 / 2 ^ 52) = - (1 / 2 ^ 51)"
  using float64_eqI [where x = "1 - 4503599627370498 / 2 ^ 52" and n = "- 51"
      and m = "- (2 ^ 52)"]
  by (simp add: powr_minus)


lemma float_nonfinite [simp]:
  "float_add x NonFinite = NonFinite" "float_add NonFinite x = NonFinite"
  "float_sub x NonFinite = NonFinite" "float_sub NonFinite x = NonFinite"
  "float_mul x NonFinite = NonFinite" "float_mul NonFinite x = NonFinite"
  "float_div x NonFinite = NonFinite" "float_div NonFinite x = NonFinite"
  "float_sqrt NonFinite = NonFinite"
  by (simp_all add: float_add_def float_sub_def float_mul_def float_div_def float_sqrt_def
      np_float64_def)

lemma float_ones:
  "float_vsub (vfin (1, 1, 1)) (vfin (0, 0, 0)) = vfin (1, 1, 1)"
  "float_vdot (vfin (1, 1, 1)) (vfin (1, 1, 1)) = Fin 3"
  "float_vsumsq (vfin (1, 1, 1)) = Fin 3"
  by (simp_all add: vfin_def float_sub_def float_add_def float_mul_def np_float64_def
      float64_1 float64_2 float64_3)

lemma float_norm: "float_sqrt (Fin 3) = Fin (7800463371553962 / 2 ^ 52)"
  by (simp add: float_sqrt_def np_float64_def float64_sqrt_3)

lemma float_cos_on_axis:
  "float_cos_angle (vfin (0, 0, 0)) (vfin (1, 1, 1)) (vfin (1, 1, 1)) = Fin (1 + 1 / 2 ^ 52)"
proof -
  have q1: "float_div (Fin 3) (Fin (7800463371553962 / 2 ^ 52)) = Fin (7800463371553963 / 2 ^ 52)"
    using float64_quotient_1 by (simp add: float_div_def np_float64_def)
  have q2: "float_div (Fin (7800463371553963 / 2 ^ 52)) (Fin (7800463371553962 / 2 ^ 52))
              = Fin (4503599627370497 / 2 ^ 52)"
    using float64_quotient_2 by (simp add: float_div_def np_float64_def)
  have "float_cos_angle (vfin (0, 0, 0)) (vfin (1, 1, 1)) (vfin (1, 1, 1))
          = Fin (4503599627370497 / 2 ^ 52)"
    by (simp only: float_cos_angle_def Let_def float_ones float_norm q1 q2)
  then show ?thesis
    by simp
qed

lemma float_sin_on_axis:
  "float_sin_angle (vfin (0, 0, 0)) (vfin (1, 1, 1)) (vfin (1, 1, 1)) = NonFinite"
proof -
  have c: "float_cos_angle (vfin (0, 0, 0)) (vfin (1, 1, 1)) (vfin (1, 1, 1))
          = Fin (4503599627370497 / 2 ^ 52)"
    using float_cos_on_axis by simp
  have sq: "float_mul (Fin (4503599627370497 / 2 ^ 52)) (Fin (4503599627370497 / 2 ^ 52))
              = Fin (4503599627370498 / 2 ^ 52)"
    using float64_square by (simp add: float_mul_def np_float64_def)
  have d: "float_sub 1 (Fin (4503599627370498 / 2 ^ 52)) = Fin (- (1 / 2 ^ 51))"
    using float64_difference by (simp add: float_sub_def np_float64_def one_np_def)
  have s: "float_sqrt (Fin (- (1 / 2 ^ 51))) = NonFinite"
    by (simp add: float_sqrt_def np_float64_def)
  show ?thesis
    by (simp only: float_sin_angle_def Let_def c sq d s)
qed

lemma float_ring_sin_on_axis:
  "float_circular_ring_sin (vfin (0, 0, 0)) (vfin (1, 1, 1)) (vfin (1, 1, 1)) = NonFinite"
proof -
  have "float_circular_ring_sin s n p = float_sin_angle s n p" for s n p
    by (cases s; cases n; cases p)
      (simp add: float_circular_ring_sin_def float_sin_angle_def float_cos_angle_def Let_def)
  then show ?thesis
    by (simp only: float_sin_on_axis)
qed

text \<open>
  C5.  The source at the origin, the normal \<open>(1, 1, 1)\<close> and the receiver \<open>(1, 1, 1)\<close>, a
  receiver on the axis of the transducer (in exact arithmetic the sine of the angle
  is 0).  In double precision the cosine is \<open>1 + 2^-52\<close> and the sine is not a number,
  so that no comparison with 0 holds: \<open>CircularPiston.directivity\<close> returns a value
  that is not a number instead of 1, for every \<open>j1\<close>, wavenumber and radius, and so
  does \<open>CircularRing.directivity\<close>; in \<open>CircularRing.directivity_derivatives\<close> the sine,
  the entry of order 0 and the first Bessel ratio, which would be 0.5 on the axis,
  are not numbers either.
\<close>

theorem on_axis_double_precision:
  "directivity_sin_angle (vfin (0, 0, 0)) (vfin (1, 1, 1)) (vfin (1, 1, 1)) = Fin 0 \<and>
   float_cos_angle (vfin (0, 0, 0)) (vfin (1, 1, 1)) (vfin (1, 1, 1)) = Fin (1 + 1 / 2 ^ 52) \<and>
   float_sin_angle (vfin (0, 0, 0)) (vfin (1, 1, 1)) (vfin (1, 1, 1)) = NonFinite \<and>
   float_circular_piston_directivity j1 self (vfin (0, 0, 0)) (vfin (1, 1, 1)) (vfin (1, 1, 1))
     = NonFinite \<and>
   float_circular_ring_directivity j0 self (vfin (0, 0, 0)) (vfin (1, 1, 1)) (vfin (1, 1, 1))
     = NonFinite \<and>
   float_circular_ring_sin (vfin (0, 0, 0)) (vfin (1, 1, 1)) (vfin (1, 1, 1)) = NonFinite \<and>
   float_circular_ring_J0 j0 self (vfin (0, 0, 0)) (vfin (1, 1, 1)) (vfin (1, 1, 1))
     = NonFinite \<and>
   float_circular_ring_J1_xi j1 self (vfin (0, 0, 0)) (vfin (1, 1, 1)) (vfin (1, 1, 1))
     = NonFinite"
proof (intro conjI)
  have "(1, 1, 1) \<noteq> ((0, 0, 0) :: point)" "(1 :: real) \<noteq> 0"
    by simp_all
  from on_axis_sin(1) [OF this, of "(1, 1, 1)" "(0, 0, 0)"]
  show "directivity_sin_angle (vfin (0, 0, 0)) (vfin (1, 1, 1)) (vfin (1, 1, 1)) = Fin 0"
    by simp
  show "float_cos_angle (vfin (0, 0, 0)) (vfin (1, 1, 1)) (vfin (1, 1, 1)) = Fin (1 + 1 / 2 ^ 52)"
    by (rule float_cos_on_axis)
  show "float_sin_angle (vfin (0, 0, 0)) (vfin (1, 1, 1)) (vfin (1, 1, 1)) = NonFinite"
    by (rule float_sin_on_axis)
  show "float_circular_piston_directivity j1 self (vfin (0, 0, 0)) (vfin (1, 1, 1)) (vfin (1, 1, 1))
     = NonFinite"
    by (simp add: float_circular_piston_directivity_def Let_def float_sin_on_axis np_where_def)
  show "float_circular_ring_directivity j0 self (vfin (0, 0, 0)) (vfin (1, 1, 1)) (vfin (1, 1, 1))
     = NonFinite"
    by (simp add: float_circular_ring_directivity_def Let_def float_sin_on_axis)
  show "float_circular_ring_sin (vfin (0, 0, 0)) (vfin (1, 1, 1)) (vfin (1, 1, 1)) = NonFinite"
    by (rule float_ring_sin_on_axis)
  show "float_circular_ring_J0 j0 self (vfin (0, 0, 0)) (vfin (1, 1, 1)) (vfin (1, 1, 1))
     = NonFinite"
    by (simp add: float_circular_ring_J0_def Let_def float_ring_sin_on_axis)
  show "float_circular_ring_J1_xi j1 self (vfin (0, 0, 0)) (vfin (1, 1, 1)) (vfin (1, 1, 1))
     = NonFinite"
    by (simp add: float_circular_ring_J1_xi_def Let_def float_ring_sin_on_axis np_where_def)
qed

section \<open>The base model is a point source\<close>

lemma spherical_derivatives_nonfinite:
  assumes v: "vsub recv src = (d0, d1, d2)"
    and r: "\<not> np_nonzero (np_sqrt (vsumsq (d0, d1, d2)))"
  shows "spherical_derivatives self src recv orders =
           map (\<lambda>key. (key, NonFinite)) (derivative_keys orders)"
proof -
  have sq: "np_sqrt (vsumsq (d0, d1, d2)) = Fin 0 \<or> np_sqrt (vsumsq (d0, d1, d2)) = NonFinite"
    using r by (cases "np_sqrt (vsumsq (d0, d1, d2))") simp_all
  then show ?thesis
  proof
    assume sq: "np_sqrt (vsumsq (d0, d1, d2)) = Fin 0"
    show ?thesis
      by (cases orders rule: orders_cases)
         (simp_all add: derivative_keys_simps spherical_derivatives_def v sq Let_def
            np_complex_def np_exp_def one_np_def
            del: vsumsq.simps np_sqrt.simps)
  next
    assume sq: "np_sqrt (vsumsq (d0, d1, d2)) = NonFinite"
    show ?thesis
      by (cases orders rule: orders_cases)
         (simp_all add: derivative_keys_simps spherical_derivatives_def v sq Let_def
            np_complex_def np_exp_def one_np_def
            del: vsumsq.simps np_sqrt.simps)
  qed
qed

lemma spherical_derivatives_uniform:
  "(\<exists>f. spherical_derivatives self src recv orders =
          map (\<lambda>key. (key, Fin (f key))) (derivative_keys orders))
   \<or> spherical_derivatives self src recv orders =
          map (\<lambda>key. (key, NonFinite)) (derivative_keys orders)"
proof -
  obtain d0 d1 d2 where v: "vsub recv src = (d0, d1, d2)"
    by (cases "vsub recv src") auto
  show ?thesis
  proof (cases "np_nonzero (np_sqrt (vsumsq (d0, d1, d2)))")
    case False
    from spherical_derivatives_nonfinite [OF v False] show ?thesis
      by blast
  next
    case True
    then obtain r where r: "np_sqrt (vsumsq (d0, d1, d2)) = Fin r" "r \<noteq> 0"
      by (cases "np_sqrt (vsumsq (d0, d1, d2))") simp_all
    then have "is_fin (vsumsq (d0, d1, d2))"
      by (cases "vsumsq (d0, d1, d2)") simp_all
    then obtain e0 e1 e2 where e: "d0 = Fin e0" "d1 = Fin e1" "d2 = Fin e2"
      by (cases d0; cases d1; cases d2) simp_all
    have pn: "pnorm (e0, e1, e2) = r"
      using r(1) by (simp add: e split: if_splits)
    from spherical_derivatives_core [OF v [unfolded e] r(1) [unfolded e] pn r(2)]
    show ?thesis by blast
  qed
qed

lemma leibniz_point_source:
  fixes f :: "string \<Rightarrow> complex"
  assumes "key \<in> set (derivative_keys orders)"
  shows "leibniz (\<lambda>key. Fin (f key)) (\<lambda>k. np_complex (if k = [] then Fin 1 else Fin 0)) key
           = Fin (f key)"
    and "leibniz (\<lambda>key. NonFinite :: complex np) (\<lambda>k. np_complex (if k = [] then Fin 1 else Fin 0)) key
           = NonFinite"
proof -
  have k: "key \<in> set (derivative_keys 3)"
    using assms derivative_keys_subset by blast
  show "leibniz (\<lambda>key. Fin (f key)) (\<lambda>k. np_complex (if k = [] then Fin 1 else Fin 0)) key
           = Fin (f key)"
    using k by (auto simp: derivative_keys_simps leibniz_expansions np_complex_def)
  show "leibniz (\<lambda>key. NonFinite :: complex np) (\<lambda>k. np_complex (if k = [] then Fin 1 else Fin 0)) key
           = NonFinite"
    using k by (auto simp: derivative_keys_simps leibniz_expansions np_complex_def)
qed

lemma map_of_tabulate_ball:
  "\<forall>key \<in> set keys. map_of (map (\<lambda>key. (key, f key)) keys) key = Some (f key)"
  by (simp add: map_of_tabulate)

lemma base_spatial_derivatives:
  assumes "get_k self \<noteq> 0"
  shows "spatial_derivatives (directivity_derivatives directivity) self src n recv orders =
           Ret (map (\<lambda>(key, v). (key, v * Fin (complex_of_real (p0 self))))
                  (spherical_derivatives self src recv orders))"
proof -
  note dd = base_directivity_derivatives [OF assms, of src n recv orders]
  have ddk: "\<forall>key \<in> set (derivative_keys orders).
      map_of (map (\<lambda>key. (key, if key = [] then Fin 1 else Fin (0::real))) (derivative_keys orders)) key
        = Some (if key = [] then Fin 1 else Fin 0)"
    by (rule map_of_tabulate_ball)
  from spherical_derivatives_uniform [of self src recv orders] show ?thesis
  proof (elim disjE exE)
    fix f
    assume sd: "spherical_derivatives self src recv orders =
          map (\<lambda>key. (key, Fin (f key))) (derivative_keys orders)"
    have "\<forall>key \<in> set (derivative_keys orders).
               map_of (spherical_derivatives self src recv orders) key = Some (Fin (f key))"
      unfolding sd by (rule map_of_tabulate_ball)
    from spatial_derivatives_tabulated [where dm = "directivity_derivatives directivity"
        and self = self and src = src and n = n and recv = recv and orders = orders
        and dv = "\<lambda>key. if key = [] then Fin 1 else Fin 0"
        and sv = "\<lambda>key. Fin (f key)", OF dd ddk this]
    show ?thesis
      by (simp add: sd comp_def leibniz_point_source(1) cong: map_cong)
  next
    assume sd: "spherical_derivatives self src recv orders =
          map (\<lambda>key. (key, NonFinite)) (derivative_keys orders)"
    have "\<forall>key \<in> set (derivative_keys orders).
               map_of (spherical_derivatives self src recv orders) key = Some NonFinite"
      unfolding sd by (rule map_of_tabulate_ball)
    from spatial_derivatives_tabulated [where dm = "directivity_derivatives directivity"
        and self = self and src = src and n = n and recv = recv and orders = orders
        and dv = "\<lambda>key. if key = [] then Fin 1 else Fin 0"
        and sv = "\<lambda>key. NonFinite", OF dd ddk this]
    show ?thesis
      by (simp add: sd comp_def leibniz_point_source(2) cong: map_cong)
  qed
qed

text \<open>
  C10.  The directivity of the base model is 1 everywhere.  With a wavenumber other
  than zero (the step of the stencils is \<open>1 / k\<close>), \<open>directivity_derivatives\<close> of the
  base model returns 1 under the empty key and 0 under every other key of the
  requested order, and the spatial derivatives of the base model are the spherical
  derivatives, each multiplied by \<open>p0\<close>.
\<close>

theorem base_model_is_point_source:
  assumes "get_k self \<noteq> 0"
  shows "directivity self src n recv = Fin 1 \<and>
         directivity_derivatives directivity self src n recv orders =
           Ret (map (\<lambda>key. (key, if key = [] then Fin 1 else Fin 0)) (derivative_keys orders)) \<and>
         spatial_derivatives (directivity_derivatives directivity) self src n recv orders =
           Ret (map (\<lambda>(key, v). (key, v * Fin (complex_of_real (p0 self))))
                  (spherical_derivatives self src recv orders))"
  using base_directivity_derivatives [OF assms] base_spatial_derivatives [OF assms]
  by (simp add: directivity_def one_np_def)

theorem base_model_is_point_source_witness:
  "get_k \<lparr>priv_k = 1, priv_omega = 343, effective_radius = 1 / 200, p0 = 6\<rparr> \<noteq> 0 \<and>
   directivity_derivatives directivity
     \<lparr>priv_k = 1, priv_omega = 343, effective_radius = 1 / 200, p0 = 6\<rparr>
     (vfin (0, 0, 0)) (vfin (0, 0, 1)) (vfin (1, 2, 3)) 1 =
     Ret [('''', Fin 1), (''x'', Fin 0), (''y'', Fin 0), (''z'', Fin 0)]"
proof -
  have k: "get_k \<lparr>priv_k = 1, priv_omega = 343, effective_radius = 1 / 200, p0 = 6\<rparr> \<noteq> 0"
    by (simp add: get_k_def)
  show ?thesis
    using base_model_is_point_source [OF k, of "vfin (0, 0, 0)" "vfin (0, 0, 1)" "vfin (1, 2, 3)" 1] k
    by (simp add: derivative_keys_simps)
qed

section \<open>The order-0 entry and the Green's function\<close>

lemma np_div_one [simp]: "(x :: 'a::field np) / Fin 1 = x"
  by (cases x) simp_all

lemma np_mult_one [simp]: "(x :: 'a::comm_semiring_1 np) * Fin 1 = x" "Fin 1 * x = x"
  by (cases x; simp)+

lemma np_add_zero [simp]: "(x :: 'a::comm_monoid_add np) + Fin 0 = x" "Fin 0 + x = x"
  by (cases x; simp)+

lemma vdot_self: "vdot d d = vsumsq d"
  by (cases d) (simp add: vdot_def power2_eq_square)

lemma np_complex_scale: "np_complex (Fin k * r) = Fin (complex_of_real k) * np_complex r"
  by (cases r) (simp_all add: np_complex_def)

lemma np_mult_fin_fin: "Fin a * (Fin b * x) = Fin (a * b) * (x :: 'a::comm_semiring_1 np)"
  by (cases x) (simp_all add: mult.assoc)

lemma spherical_order0:
  "map_of (spherical_derivatives self src recv orders) [] = Some (spherical_spreading self src recv)"
proof -
  obtain d0 d1 d2 where v: "vsub recv src = (d0, d1, d2)"
    by (cases "vsub recv src") auto
  show ?thesis
    by (simp add: spherical_derivatives_def spherical_spreading_def v Let_def vdot_self
        np_complex_scale np_mult_fin_fin del: vsumsq.simps)
qed

lemma dict_values:
  assumes "\<forall>key \<in> set keys. map_of d key \<noteq> None"
  shows "\<forall>key \<in> set keys. map_of d key = Some (the (map_of d key))"
  using assms by auto

lemma fd_keys:
  assumes "get_k self \<noteq> 0"
  shows "\<exists>dd. directivity_derivatives dirm self src n recv orders = Ret dd \<and>
           map fst dd = derivative_keys orders \<and>
           map_of dd [] = Some (dirm self src n recv)"
proof -
  have z: "shifted_position h (0, 0, 0) recv = recv" for h
    by (cases recv) (simp add: shifted_position_def)
  show ?thesis
    using assms
    by (simp add: directivity_derivatives_def Let_def derivative_keys_def comp_def split_def
        finite_difference_coefficients_def z)
qed

lemma ring_keys:
  "\<exists>dd. circular_ring_directivity_derivatives j0 j1 self src n recv orders = Ret dd \<and>
        map fst dd = derivative_keys orders \<and>
        map_of dd [] = Some (circular_ring_directivity j0 self src n recv)"
proof -
  obtain d0 d1 d2 where d: "vsub recv src = (d0, d1, d2)"
    by (cases "vsub recv src") auto
  obtain n0 n1 n2 where n: "n = (n0, n1, n2)"
    by (cases n) auto
  show ?thesis
    unfolding circular_ring_directivity_derivatives_def d n prod.case Let_def
    by (cases orders rule: orders_cases)
       (simp_all add: derivative_keys_simps circular_ring_directivity_def
          directivity_sin_angle_def Let_def d vdot_self del: vsumsq.simps)
qed

lemma keys_present:
  assumes "map fst dd = derivative_keys orders"
  shows "\<forall>key \<in> set (derivative_keys orders). map_of dd key \<noteq> None"
  using assms by (metis map_of_eq_None_iff set_map)

lemma empty_key_present: "[] \<in> set (derivative_keys orders)"
  by (simp add: derivative_keys_def finite_difference_coefficients_def)

lemma spatial_derivatives_leibniz:
  assumes dm: "dm self src n recv orders = Ret dd"
    and keys: "map fst dd = derivative_keys orders"
  shows "\<exists>S D.
     (\<forall>key \<in> set (derivative_keys orders).
        getitem (spherical_derivatives self src recv orders) key = Ret (S key) \<and>
        getitem dd key = Ret (D key)) \<and>
     spatial_derivatives dm self src n recv orders =
       Ret (map (\<lambda>key. (key, leibniz S (\<lambda>k. np_complex (D k)) key
                               * Fin (complex_of_real (p0 self))))
              (derivative_keys orders))"
proof -
  define S where "S = (\<lambda>key. the (map_of (spherical_derivatives self src recv orders) key))"
  define D where "D = (\<lambda>key. the (map_of dd key))"
  have sd_keys: "map fst (spherical_derivatives self src recv orders) = derivative_keys orders"
    using spherical_derivatives_uniform [of self src recv orders]
    by (auto simp: comp_def)
  have s: "\<forall>key \<in> set (derivative_keys orders).
      map_of (spherical_derivatives self src recv orders) key = Some (S key)"
    unfolding S_def by (rule dict_values [OF keys_present [OF sd_keys]])
  have d: "\<forall>key \<in> set (derivative_keys orders). map_of dd key = Some (D key)"
    unfolding D_def by (rule dict_values [OF keys_present [OF keys]])
  have "spatial_derivatives dm self src n recv orders =
       Ret (map (\<lambda>key. (key, leibniz S (\<lambda>k. np_complex (D k)) key
                               * Fin (complex_of_real (p0 self))))
              (derivative_keys orders))"
    by (rule spatial_derivatives_tabulated [where dm = dm and self = self and src = src
          and n = n and recv = recv and orders = orders and dv = D and sv = S, OF dm d s])
  then show ?thesis
    using s d by (auto simp: getitem_def)
qed

lemma spatial_order0:
  assumes dm: "dm self src n recv orders = Ret dd"
    and keys: "map fst dd = derivative_keys orders"
    and d0: "map_of dd [] = Some v"
  shows "py_bind (spatial_derivatives dm self src n recv orders) (\<lambda>res. getitem res [])
           = Ret (Fin (complex_of_real (p0 self)) * spherical_spreading self src recv * np_complex v)"
proof -
  from spatial_derivatives_leibniz [where dm = dm and self = self and src = src
      and n = n and recv = recv and orders = orders, OF dm keys] obtain S D where
    sd: "\<forall>key \<in> set (derivative_keys orders).
        getitem (spherical_derivatives self src recv orders) key = Ret (S key) \<and>
        getitem dd key = Ret (D key)"
    and res: "spatial_derivatives dm self src n recv orders =
       Ret (map (\<lambda>key. (key, leibniz S (\<lambda>k. np_complex (D k)) key
                               * Fin (complex_of_real (p0 self))))
              (derivative_keys orders))"
    by blast
  from sd empty_key_present [of orders] have
    "getitem (spherical_derivatives self src recv orders) [] = Ret (S [])" "getitem dd [] = Ret (D [])"
    by blast+
  then have v: "S [] = spherical_spreading self src recv" "D [] = v"
    by (simp_all add: getitem_def spherical_order0 d0)
  show ?thesis
    by (simp add: res getitem_def map_of_tabulate [OF empty_key_present] leibniz_expansions v
        mult_ac)
qed

lemma xy_key_present: "2 \<le> orders \<Longrightarrow> ''xy'' \<in> set (derivative_keys orders)"
  by (cases orders rule: orders_cases) (simp_all add: derivative_keys_simps)

lemma fd_order0:
  assumes "get_k self \<noteq> 0"
  shows "py_bind (spatial_derivatives (directivity_derivatives dirm) self src n recv orders)
            (\<lambda>res. getitem res []) = Ret (greens_function dirm self src n recv)"
proof -
  from fd_keys [OF assms, of dirm src n recv orders] obtain dd where
    dd: "directivity_derivatives dirm self src n recv orders = Ret dd"
      "map fst dd = derivative_keys orders" "map_of dd [] = Some (dirm self src n recv)"
    by blast
  show ?thesis
    using spatial_order0 [where dm = "directivity_derivatives dirm" and self = self and src = src
        and n = n and recv = recv and orders = orders, OF dd]
    by (simp add: greens_function_def)
qed

lemma ring_order0:
  "py_bind (spatial_derivatives (circular_ring_directivity_derivatives j0 j1) self src n recv orders)
      (\<lambda>res. getitem res []) = Ret (greens_function (circular_ring_directivity j0) self src n recv)"
proof -
  from ring_keys [of j0 j1 self src n recv orders] obtain dd where
    dd: "circular_ring_directivity_derivatives j0 j1 self src n recv orders = Ret dd"
      "map fst dd = derivative_keys orders"
      "map_of dd [] = Some (circular_ring_directivity j0 self src n recv)"
    by blast
  show ?thesis
    using spatial_order0 [where dm = "circular_ring_directivity_derivatives j0 j1" and self = self
        and src = src and n = n and recv = recv and orders = orders, OF dd]
    by (simp add: greens_function_def)
qed

text \<open>
  C2.  Let \<open>self.directivity_derivatives\<close> return a dictionary with the keys of the
  requested order.  Then \<open>spatial_derivatives\<close> returns, under each key of that order,
  \<open>p0\<close> times the Leibniz expansion of the product of the entries \<open>S\<close> of
  \<open>spherical_derivatives\<close> and \<open>D\<close> of \<open>directivity_derivatives\<close>; under \<open>xy\<close> that is
  \<open>p0 (S[''] D[xy] + D[''] S[xy] + S[x] D[y] + D[x] S[y])\<close>.  The entry of order 0 is
  \<open>p0\<close> times the spherical spreading times the order-0 directivity entry, which is
  \<open>greens_function\<close> for a model with the finite-difference \<open>directivity_derivatives\<close>
  (the base model and CircularPiston, with a wavenumber other than zero) and for
  CircularRing.
\<close>

theorem spatial_derivatives_product_rule:
  assumes "dm self src n recv orders = Ret dd" and "map fst dd = derivative_keys orders"
  shows "(\<exists>S D.
       (\<forall>key \<in> set (derivative_keys orders).
          getitem (spherical_derivatives self src recv orders) key = Ret (S key) \<and>
          getitem dd key = Ret (D key)) \<and>
       spatial_derivatives dm self src n recv orders =
         Ret (map (\<lambda>key. (key, leibniz S (\<lambda>k. np_complex (D k)) key
                                 * Fin (complex_of_real (p0 self))))
                (derivative_keys orders)) \<and>
       (2 \<le> orders \<longrightarrow>
          py_bind (spatial_derivatives dm self src n recv orders) (\<lambda>res. getitem res ''xy'') =
            Ret ((S '''' * np_complex (D ''xy'') + np_complex (D '''') * S ''xy''
                   + S ''x'' * np_complex (D ''y'') + np_complex (D ''x'') * S ''y'')
                 * Fin (complex_of_real (p0 self)))))
     \<and> (\<forall>v. map_of dd [] = Some v \<longrightarrow>
          py_bind (spatial_derivatives dm self src n recv orders) (\<lambda>res. getitem res []) =
            Ret (Fin (complex_of_real (p0 self)) * spherical_spreading self src recv * np_complex v))
     \<and> (get_k self \<noteq> 0 \<longrightarrow>
          py_bind (spatial_derivatives (directivity_derivatives dirm) self src n recv orders)
            (\<lambda>res. getitem res []) = Ret (greens_function dirm self src n recv))
     \<and> py_bind (spatial_derivatives (circular_ring_directivity_derivatives j0 j1) self src n recv orders)
          (\<lambda>res. getitem res []) = Ret (greens_function (circular_ring_directivity j0) self src n recv)"
proof -
  from spatial_derivatives_leibniz [where dm = dm and self = self and src = src
      and n = n and recv = recv and orders = orders, OF assms] obtain S D where
    sd: "\<forall>key \<in> set (derivative_keys orders).
        getitem (spherical_derivatives self src recv orders) key = Ret (S key) \<and>
        getitem dd key = Ret (D key)"
    and res: "spatial_derivatives dm self src n recv orders =
       Ret (map (\<lambda>key. (key, leibniz S (\<lambda>k. np_complex (D k)) key
                               * Fin (complex_of_real (p0 self))))
              (derivative_keys orders))"
    by blast
  have xy: "2 \<le> orders \<longrightarrow>
          py_bind (spatial_derivatives dm self src n recv orders) (\<lambda>res. getitem res ''xy'') =
            Ret ((S '''' * np_complex (D ''xy'') + np_complex (D '''') * S ''xy''
                   + S ''x'' * np_complex (D ''y'') + np_complex (D ''x'') * S ''y'')
                 * Fin (complex_of_real (p0 self)))"
    by (simp add: res getitem_def map_of_tabulate [OF xy_key_present] leibniz_expansions)
  have o0: "\<forall>v. map_of dd [] = Some v \<longrightarrow>
          py_bind (spatial_derivatives dm self src n recv orders) (\<lambda>res. getitem res []) =
            Ret (Fin (complex_of_real (p0 self)) * spherical_spreading self src recv * np_complex v)"
    using spatial_order0 [where dm = dm and self = self and src = src
      and n = n and recv = recv and orders = orders, OF assms] by blast
  show ?thesis
    using sd res xy o0 fd_order0 [of self dirm src n recv orders]
      ring_order0 [of j0 j1 self src n recv orders]
    by blast
qed

theorem spatial_derivatives_product_rule_witness:
  "(\<exists>dd. directivity_derivatives directivity
            \<lparr>priv_k = 1, priv_omega = 343, effective_radius = 1 / 200, p0 = 6\<rparr>
            (vfin (0, 0, 0)) (vfin (0, 0, 1)) (vfin (1, 2, 3)) 2 = Ret dd \<and>
         map fst dd = derivative_keys 2 \<and>
         (\<exists>S D. spatial_derivatives (directivity_derivatives directivity)
                  \<lparr>priv_k = 1, priv_omega = 343, effective_radius = 1 / 200, p0 = 6\<rparr>
                  (vfin (0, 0, 0)) (vfin (0, 0, 1)) (vfin (1, 2, 3)) 2 =
                Ret (map (\<lambda>key. (key, leibniz S (\<lambda>k. np_complex (D k)) key * Fin 6))
                       (derivative_keys 2))))"
proof -
  let ?m = "\<lparr>priv_k = 1, priv_omega = 343, effective_radius = 1 / 200, p0 = 6\<rparr>"
  have k: "get_k ?m \<noteq> 0"
    by (simp add: get_k_def)
  from fd_keys [OF k, of directivity "vfin (0, 0, 0)" "vfin (0, 0, 1)" "vfin (1, 2, 3)" 2]
  obtain dd where dd: "directivity_derivatives directivity ?m
      (vfin (0, 0, 0)) (vfin (0, 0, 1)) (vfin (1, 2, 3)) 2 = Ret dd"
    "map fst dd = derivative_keys 2"
    by blast
  from spatial_derivatives_product_rule [where dm = "directivity_derivatives directivity"
      and self = ?m and src = "vfin (0, 0, 0)" and n = "vfin (0, 0, 1)" and recv = "vfin (1, 2, 3)"
      and orders = 2 and dirm = directivity and ?j0.0 = "\<lambda>x. 1" and ?j1.0 = "\<lambda>x. x / 2", OF dd]
  have "\<exists>S D. spatial_derivatives (directivity_derivatives directivity) ?m
                  (vfin (0, 0, 0)) (vfin (0, 0, 1)) (vfin (1, 2, 3)) 2 =
                Ret (map (\<lambda>key. (key, leibniz S (\<lambda>k. np_complex (D k)) key * Fin 6))
                       (derivative_keys 2))"
    by auto
  then show ?thesis
    using dd by blast
qed

section \<open>Reflection in a plane\<close>

lemma unit_normal:
  fixes a b c :: real
  assumes "(a, b, c) \<noteq> (0, 0, 0)"
  shows "(a / pnorm (a, b, c)) ^ 2 + (b / pnorm (a, b, c)) ^ 2 + (c / pnorm (a, b, c)) ^ 2 = 1"
proof -
  have nz: "pnorm (a, b, c) \<noteq> 0"
    using assms by (simp only: pnorm_zero_iff not_False_eq_True)
  have sq: "(pnorm (a, b, c)) ^ 2 = a ^ 2 + b ^ 2 + c ^ 2"
    by simp
  have "(a / pnorm (a, b, c)) ^ 2 + (b / pnorm (a, b, c)) ^ 2 + (c / pnorm (a, b, c)) ^ 2
      = (a ^ 2 + b ^ 2 + c ^ 2) / (pnorm (a, b, c)) ^ 2"
    by (simp only: power_divide add_divide_distrib)
  also have "\<dots> = 1"
    using nz by (simp only: sq [symmetric]) simp
  finally show ?thesis .
qed

lemma init_plane_normal:
  assumes "(a, b, c) \<noteq> (0, 0, 0)"
  shows "plane_normal (reflecting_transducer_init d (vfin (a, b, c)) R) =
           vfin (a / pnorm (a, b, c), b / pnorm (a, b, c), c / pnorm (a, b, c))"
proof -
  have nz: "pnorm (a, b, c) \<noteq> 0"
    using assms by (simp only: pnorm_zero_iff not_False_eq_True)
  then show ?thesis
    by (simp add: reflecting_transducer_init_def vfin_def power2_eq_square not_less)
qed

lemma mirror_formulas:
  assumes "plane_normal self = vfin (n1, n2, n3)"
  shows "mirror_position self (vfin (s1, s2, s3)) =
           vfin (s1 - 2 * n1 * (s1 * n1 + s2 * n2 + s3 * n3 - plane_distance self),
                 s2 - 2 * n2 * (s1 * n1 + s2 * n2 + s3 * n3 - plane_distance self),
                 s3 - 2 * n3 * (s1 * n1 + s2 * n2 + s3 * n3 - plane_distance self))"
    and "mirror_normal self (vfin (m1, m2, m3)) =
           vfin (m1 - 2 * n1 * (m1 * n1 + m2 * n2 + m3 * n3),
                 m2 - 2 * n2 * (m1 * n1 + m2 * n2 + m3 * n3),
                 m3 - 2 * n3 * (m1 * n1 + m2 * n2 + m3 * n3))"
  by (simp_all add: mirror_position_def mirror_normal_def assms vfin_def)

lemma reflection_properties:
  fixes n1 n2 n3 :: real
  assumes "n1 ^ 2 + n2 ^ 2 + n3 ^ 2 = 1"
  defines "h \<equiv> \<lambda>x1 x2 x3. x1 * n1 + x2 * n2 + x3 * n3"
  shows "h (s1 - 2 * n1 * (h s1 s2 s3 - d)) (s2 - 2 * n2 * (h s1 s2 s3 - d))
           (s3 - 2 * n3 * (h s1 s2 s3 - d)) - d = - (h s1 s2 s3 - d)"
    and "h (m1 - 2 * n1 * h m1 m2 m3) (m2 - 2 * n2 * h m1 m2 m3) (m3 - 2 * n3 * h m1 m2 m3)
           = - h m1 m2 m3"
proof -
  have u: "n1 * n1 + n2 * n2 + n3 * n3 = 1"
    using assms(1) by (simp add: power2_eq_square)
  have "h (s1 - 2 * n1 * (h s1 s2 s3 - d)) (s2 - 2 * n2 * (h s1 s2 s3 - d))
           (s3 - 2 * n3 * (h s1 s2 s3 - d))
        = h s1 s2 s3 - 2 * (n1 * n1 + n2 * n2 + n3 * n3) * (h s1 s2 s3 - d)"
    by (simp add: h_def algebra_simps)
  then show "h (s1 - 2 * n1 * (h s1 s2 s3 - d)) (s2 - 2 * n2 * (h s1 s2 s3 - d))
           (s3 - 2 * n3 * (h s1 s2 s3 - d)) - d = - (h s1 s2 s3 - d)"
    by (simp add: u)
  have "h (m1 - 2 * n1 * h m1 m2 m3) (m2 - 2 * n2 * h m1 m2 m3) (m3 - 2 * n3 * h m1 m2 m3)
        = h m1 m2 m3 - 2 * (n1 * n1 + n2 * n2 + n3 * n3) * h m1 m2 m3"
    by (simp add: h_def algebra_simps)
  then show "h (m1 - 2 * n1 * h m1 m2 m3) (m2 - 2 * n2 * h m1 m2 m3) (m3 - 2 * n3 * h m1 m2 m3)
           = - h m1 m2 m3"
    by (simp add: u)
qed

lemma py_items_map_ret:
  "py_items (map (\<lambda>(key, v). (key, Ret (f key v))) d) = Ret (map (\<lambda>(key, v). (key, f key v)) d)"
  by (induction d) auto

lemma reflecting_entries:
  assumes direct: "super_sd src m recv orders = Ret direct"
    and reflected: "super_sd (mirror_position self src) (mirror_normal self m) recv orders = Ret reflected"
    and keys: "\<forall>key \<in> set (map fst direct). map_of reflected key \<noteq> None"
  shows "reflecting_spatial_derivatives super_sd self src m recv orders =
           Ret (map (\<lambda>(key, v). (key, v + Fin (reflection_coefficient self) * the (map_of reflected key)))
                  direct)"
proof -
  have eq: "map (\<lambda>(key, v). (key, Ret v + Ret (Fin (reflection_coefficient self)) * getitem reflected key)) direct
      = map (\<lambda>(key, v). (key, Ret (v + Fin (reflection_coefficient self) * the (map_of reflected key)))) direct"
    using keys by (auto simp: getitem_def)
  show ?thesis
    unfolding reflecting_spatial_derivatives_def direct reflected py_bind.simps eq
    by (rule py_items_map_ret)
qed

lemma map_of_map_keyed:
  "map_of (map (\<lambda>(key, v). (key, g key v)) d) key = map_option (g key) (map_of d key)"
  by (induction d) auto

lemma reflecting_entries_lookup:
  assumes direct: "super_sd src m recv orders = Ret direct"
    and reflected: "super_sd (mirror_position self src) (mirror_normal self m) recv orders = Ret reflected"
    and keys: "map fst reflected = map fst direct"
  shows "\<exists>res. reflecting_spatial_derivatives super_sd self src m recv orders = Ret res \<and>
           map fst res = map fst direct \<and>
           (\<forall>key x. map_of direct key = Some x \<longrightarrow>
              (\<exists>y. map_of reflected key = Some y \<and>
                   map_of res key = Some (x + Fin (reflection_coefficient self) * y)))"
proof -
  have present: "\<forall>key \<in> set (map fst direct). map_of reflected key \<noteq> None"
    by (metis keys map_of_eq_None_iff set_map)
  let ?res = "map (\<lambda>(key, v). (key, v + Fin (reflection_coefficient self) * the (map_of reflected key)))
                  direct"
  have res: "reflecting_spatial_derivatives super_sd self src m recv orders = Ret ?res"
    by (rule reflecting_entries [where super_sd = super_sd and src = src and m = m and recv = recv
          and orders = orders, OF direct reflected present])
  have k: "map fst ?res = map fst direct"
    by (simp add: comp_def split_def)
  have l: "\<exists>y. map_of reflected key = Some y \<and>
                   map_of ?res key = Some (x + Fin (reflection_coefficient self) * y)"
    if "map_of direct key = Some x" for key x
  proof -
    have "key \<in> set (map fst direct)"
      using that by (metis map_of_eq_None_iff option.distinct(1) set_map)
    then obtain y where y: "map_of reflected key = Some y"
      using present by auto
    show ?thesis
      by (simp add: y map_of_map_keyed that)
  qed
  show ?thesis
    using res k l by blast
qed

text \<open>
  C3.  For a reflecting transducer built with a plane normal other than zero (stored
  divided by its length, hence a unit normal \<open>n\<close>), the plane distance \<open>d\<close> and the
  reflection coefficient \<open>R\<close>: the mirror source is \<open>s' = s - 2 n ((s . n) - d)\<close> with
  the normal \<open>m' = m - 2 n (m . n)\<close>, which are the reflections in the plane (the
  signed distance of \<open>s'\<close> to the plane and the normal component of \<open>m'\<close> are those of
  \<open>s\<close> and \<open>m\<close> negated); \<open>greens_function\<close> is the wrapped model's value for the source
  plus \<open>R\<close> times its value for the mirror source; and when the wrapped
  \<open>spatial_derivatives\<close> returns dictionaries with the same keys for both sources,
  every entry of the result is the direct entry plus \<open>R\<close> times the mirror entry.
\<close>

theorem reflecting_transducer_superposition:
  assumes "(a, b, c) \<noteq> (0, 0, 0)"
  shows "(let self = reflecting_transducer_init d (vfin (a, b, c)) R;
              l = pnorm (a, b, c); n1 = a / l; n2 = b / l; n3 = c / l;
              hs = s1 * n1 + s2 * n2 + s3 * n3 - d;
              hm = m1 * n1 + m2 * n2 + m3 * n3;
              s' = (s1 - 2 * n1 * hs, s2 - 2 * n2 * hs, s3 - 2 * n3 * hs);
              m' = (m1 - 2 * n1 * hm, m2 - 2 * n2 * hm, m3 - 2 * n3 * hm)
          in n1 ^ 2 + n2 ^ 2 + n3 ^ 2 = 1 \<and>
             plane_normal self = vfin (n1, n2, n3) \<and>
             mirror_position self (vfin (s1, s2, s3)) = vfin s' \<and>
             mirror_normal self (vfin (m1, m2, m3)) = vfin m' \<and>
             coord s' CHR ''x'' * n1 + coord s' CHR ''y'' * n2 + coord s' CHR ''z'' * n3 - d = - hs \<and>
             coord m' CHR ''x'' * n1 + coord m' CHR ''y'' * n2 + coord m' CHR ''z'' * n3 = - hm \<and>
             reflecting_greens_function gf self (vfin (s1, s2, s3)) (vfin (m1, m2, m3)) p =
               gf (vfin (s1, s2, s3)) (vfin (m1, m2, m3)) p + Fin R * gf (vfin s') (vfin m') p \<and>
             (\<forall>direct reflected.
                sd (vfin (s1, s2, s3)) (vfin (m1, m2, m3)) p orders = Ret direct \<and>
                sd (vfin s') (vfin m') p orders = Ret reflected \<and>
                map fst reflected = map fst direct \<longrightarrow>
                (\<exists>res. reflecting_spatial_derivatives sd self (vfin (s1, s2, s3)) (vfin (m1, m2, m3))
                          p orders = Ret res \<and>
                       map fst res = map fst direct \<and>
                       (\<forall>key x. map_of direct key = Some x \<longrightarrow>
                          (\<exists>y. map_of reflected key = Some y \<and>
                               map_of res key = Some (x + Fin R * y))))))"
proof -
  define self where "self = reflecting_transducer_init d (vfin (a, b, c)) R"
  define n1 n2 n3 where "n1 = a / pnorm (a, b, c)" and "n2 = b / pnorm (a, b, c)"
    and "n3 = c / pnorm (a, b, c)"
  define hs hm where "hs = s1 * n1 + s2 * n2 + s3 * n3 - d" and "hm = m1 * n1 + m2 * n2 + m3 * n3"
  define s' m' where "s' = (s1 - 2 * n1 * hs, s2 - 2 * n2 * hs, s3 - 2 * n3 * hs)"
    and "m' = (m1 - 2 * n1 * hm, m2 - 2 * n2 * hm, m3 - 2 * n3 * hm)"
  have unit: "n1 ^ 2 + n2 ^ 2 + n3 ^ 2 = 1"
    unfolding n1_def n2_def n3_def by (rule unit_normal [OF assms])
  have pn: "plane_normal self = vfin (n1, n2, n3)"
    unfolding self_def n1_def n2_def n3_def by (rule init_plane_normal [OF assms])
  have dR: "plane_distance self = d" "reflection_coefficient self = R"
    by (simp_all add: self_def reflecting_transducer_init_def)
  have mp: "mirror_position self (vfin (s1, s2, s3)) = vfin s'"
    and mn: "mirror_normal self (vfin (m1, m2, m3)) = vfin m'"
    by (simp_all add: mirror_formulas [OF pn] s'_def m'_def hs_def hm_def dR)
  have rs: "coord s' CHR ''x'' * n1 + coord s' CHR ''y'' * n2 + coord s' CHR ''z'' * n3 - d = - hs"
    using reflection_properties(1) [OF unit, of s1 s2 s3 d]
    by (simp add: s'_def hs_def)
  have rm: "coord m' CHR ''x'' * n1 + coord m' CHR ''y'' * n2 + coord m' CHR ''z'' * n3 = - hm"
    using reflection_properties(2) [OF unit, of m1 m2 m3]
    by (simp add: m'_def hm_def)
  have gf: "reflecting_greens_function gf self (vfin (s1, s2, s3)) (vfin (m1, m2, m3)) p =
               gf (vfin (s1, s2, s3)) (vfin (m1, m2, m3)) p + Fin R * gf (vfin s') (vfin m') p"
    by (simp add: reflecting_greens_function_def Let_def mp mn dR)
  have sd: "\<exists>res. reflecting_spatial_derivatives sd self (vfin (s1, s2, s3)) (vfin (m1, m2, m3))
                          p orders = Ret res \<and>
                       map fst res = map fst direct \<and>
                       (\<forall>key x. map_of direct key = Some x \<longrightarrow>
                          (\<exists>y. map_of reflected key = Some y \<and>
                               map_of res key = Some (x + Fin R * y)))"
    if "sd (vfin (s1, s2, s3)) (vfin (m1, m2, m3)) p orders = Ret direct \<and>
        sd (vfin s') (vfin m') p orders = Ret reflected \<and>
        map fst reflected = map fst direct" for direct reflected
    using reflecting_entries_lookup [where super_sd = sd and self = self
        and src = "vfin (s1, s2, s3)" and m = "vfin (m1, m2, m3)" and recv = p and orders = orders
        and direct = direct and reflected = reflected] that
    by (simp add: mp mn dR)
  show ?thesis
    unfolding Let_def
    unfolding self_def [symmetric] n1_def [symmetric] n2_def [symmetric] n3_def [symmetric]
    unfolding hs_def [symmetric] hm_def [symmetric]
    unfolding s'_def [symmetric] m'_def [symmetric]
    using unit pn mp mn rs rm gf sd by blast
qed

theorem reflecting_transducer_superposition_witness:
  "((0, 0, 2) :: point) \<noteq> (0, 0, 0) \<and>
   mirror_position (reflecting_transducer_init 1 (vfin (0, 0, 2)) (1 / 2)) (vfin (0, 0, 0))
     = vfin (0, 0, 2) \<and>
   mirror_normal (reflecting_transducer_init 1 (vfin (0, 0, 2)) (1 / 2)) (vfin (0, 0, 1))
     = vfin (0, 0, - 1) \<and>
   reflecting_greens_function
       (greens_function directivity \<lparr>priv_k = 1, priv_omega = 343, effective_radius = 1 / 200, p0 = 6\<rparr>)
       (reflecting_transducer_init 1 (vfin (0, 0, 2)) (1 / 2))
       (vfin (0, 0, 0)) (vfin (0, 0, 1)) (vfin (1, 2, 3))
     = greens_function directivity \<lparr>priv_k = 1, priv_omega = 343, effective_radius = 1 / 200, p0 = 6\<rparr>
         (vfin (0, 0, 0)) (vfin (0, 0, 1)) (vfin (1, 2, 3))
       + Fin (1 / 2) *
         greens_function directivity \<lparr>priv_k = 1, priv_omega = 343, effective_radius = 1 / 200, p0 = 6\<rparr>
           (vfin (0, 0, 2)) (vfin (0, 0, - 1)) (vfin (1, 2, 3))"
proof -
  have ne: "((0, 0, 2) :: point) \<noteq> (0, 0, 0)"
    by simp
  have l: "pnorm (0, 0, 2) = 2"
    by simp
  show ?thesis
    using reflecting_transducer_superposition [OF ne, of 1 "1 / 2" 0 0 0 0 0 1
        "greens_function directivity \<lparr>priv_k = 1, priv_omega = 343, effective_radius = 1 / 200, p0 = 6\<rparr>"
        "vfin (1, 2, 3)"
        "spatial_derivatives (directivity_derivatives directivity)
           \<lparr>priv_k = 1, priv_omega = 343, effective_radius = 1 / 200, p0 = 6\<rparr>" 1]
    unfolding Let_def l
    by simp
qed

section \<open>Complex amplitudes\<close>

lemma polar_recompose:
  "np_complex (np_abs z) * np_exp (Fin \<i> * np_complex (np_angle z)) = z"
proof (cases z)
  case (Fin c)
  have "complex_of_real (cmod c) * exp (\<i> * complex_of_real (Arg c)) = c"
    using rcis_cmod_Arg [of c] by (simp add: rcis_def cis_conv_exp)
  then show ?thesis
    by (simp add: Fin np_complex_def np_abs_def np_angle_def np_exp_def)
next
  case NonFinite
  then show ?thesis
    by (simp add: np_complex_def np_abs_def np_angle_def np_exp_def)
qed

lemma map2_map_same: "map2 f (map g xs) (map h xs) = map (\<lambda>x. f (g x) (h x)) xs"
  by (induction xs) simp_all

lemma complex_amplitudes_set_get:
  "complex_amplitudes (set_complex_amplitudes v arr) = Ret v"
  by (simp add: complex_amplitudes_def set_complex_amplitudes_def np_elementwise_def
      map2_map_same polar_recompose)

lemma cmod_polar: "0 \<le> a \<Longrightarrow> cmod (complex_of_real a * exp (\<i> * complex_of_real p)) = a"
  by (simp add: norm_mult)

lemma Arg_polar:
  assumes "0 < a" "- pi < p" "p \<le> pi"
  shows "Arg (complex_of_real a * exp (\<i> * complex_of_real p)) = p"
proof (rule cis_Arg_unique [OF _ assms(2,3)])
  show "sgn (complex_of_real a * exp (\<i> * complex_of_real p)) = cis p"
    using assms(1) by (simp add: sgn_eq norm_mult cis_conv_exp)
qed

lemma stored_amplitudes:
  assumes "length as = length ps" "\<forall>a\<in>set as. 0 \<le> a"
  shows "map np_abs (map2 polar as ps) = map Fin as"
  using assms
proof (induction as arbitrary: ps)
  case Nil
  then show ?case by simp
next
  case (Cons a as)
  then obtain p ps' where ps: "ps = p # ps'"
    by (cases ps) auto
  with Cons show ?case
    by (simp add: polar_def np_abs_def cmod_polar)
qed

lemma stored_phases:
  assumes "length as = length ps" "\<forall>a\<in>set as. 0 < a" "\<forall>p\<in>set ps. - pi < p \<and> p \<le> pi"
  shows "map np_angle (map2 polar as ps) = map Fin ps"
  using assms
proof (induction as arbitrary: ps)
  case Nil
  then show ?case by simp
next
  case (Cons a as)
  then obtain p ps' where ps: "ps = p # ps'"
    by (cases ps) auto
  with Cons show ?case
    by (simp add: polar_def np_angle_def Arg_polar)
qed

lemma complex_amplitudes_of_polar:
  assumes "length as = length ps"
  shows "complex_amplitudes (arr\<lparr>amplitudes := map Fin as, phases := map Fin ps\<rparr>)
           = Ret (map2 polar as ps)"
  using assms
  by (auto simp: complex_amplitudes_def np_elementwise_def polar_def np_complex_def np_exp_def
      zip_map_map)

text \<open>
  C8.  For amplitudes \<open>as\<close> that are not negative and as many phases \<open>ps\<close> in
  \<open>(-pi, pi]\<close>: after setting \<open>complex_amplitudes\<close> to the values \<open>a e^(i phi)\<close>, reading
  it returns these values; the setter has stored \<open>as\<close> as the amplitudes and, when
  no amplitude is 0, \<open>ps\<close> as the phases.  The getter is computed from the
  amplitudes and phases that are stored when it is read: from stored \<open>as\<close> and \<open>ps\<close> it
  gives the values \<open>a e^(i phi)\<close>, and after the phases alone are replaced it gives
  the product of the stored amplitudes with the exponentials of the new phases.
  Reading back what was set returns it for every vector \<open>v\<close> of values.
\<close>

theorem complex_amplitudes_round_trip:
  assumes "length as = length ps"
    and "\<forall>a\<in>set as. 0 \<le> a"
    and "\<forall>p\<in>set ps. - pi < p \<and> p \<le> pi"
  shows "complex_amplitudes (set_complex_amplitudes (map2 polar as ps) arr)
           = Ret (map2 polar as ps) \<and>
         amplitudes (set_complex_amplitudes (map2 polar as ps) arr) = map Fin as \<and>
         ((\<forall>a\<in>set as. 0 < a) \<longrightarrow>
            phases (set_complex_amplitudes (map2 polar as ps) arr) = map Fin ps) \<and>
         complex_amplitudes (arr\<lparr>amplitudes := map Fin as, phases := map Fin ps\<rparr>)
           = Ret (map2 polar as ps) \<and>
         complex_amplitudes ((set_complex_amplitudes v arr)\<lparr>phases := new_phases\<rparr>)
           = np_elementwise
               (\<lambda>amplitude phase. np_complex amplitude * np_exp (Fin \<i> * np_complex phase))
               (map np_abs v) new_phases \<and>
         complex_amplitudes (set_complex_amplitudes v arr) = Ret v"
proof -
  have 1: "complex_amplitudes (set_complex_amplitudes (map2 polar as ps) arr)
             = Ret (map2 polar as ps)"
    by (rule complex_amplitudes_set_get)
  have 2: "amplitudes (set_complex_amplitudes (map2 polar as ps) arr) = map Fin as"
    using stored_amplitudes [OF assms(1,2)] by (simp add: set_complex_amplitudes_def)
  have 3: "(\<forall>a\<in>set as. 0 < a) \<longrightarrow>
             phases (set_complex_amplitudes (map2 polar as ps) arr) = map Fin ps"
    using stored_phases [OF assms(1) _ assms(3)] by (simp add: set_complex_amplitudes_def)
  have 4: "complex_amplitudes (arr\<lparr>amplitudes := map Fin as, phases := map Fin ps\<rparr>)
             = Ret (map2 polar as ps)"
    by (rule complex_amplitudes_of_polar [OF assms(1)])
  have 5: "complex_amplitudes ((set_complex_amplitudes v arr)\<lparr>phases := new_phases\<rparr>)
             = np_elementwise
                 (\<lambda>amplitude phase. np_complex amplitude * np_exp (Fin \<i> * np_complex phase))
                 (map np_abs v) new_phases"
    by (simp add: complex_amplitudes_def set_complex_amplitudes_def)
  have 6: "complex_amplitudes (set_complex_amplitudes v arr) = Ret v"
    by (rule complex_amplitudes_set_get)
  from 1 2 3 4 5 6 show ?thesis
    by blast
qed

theorem complex_amplitudes_round_trip_witness:
  "complex_amplitudes (set_complex_amplitudes (map2 polar [1, 2] [0, pi])
       \<lparr>transducer_positions = [], transducer_normals = [], num_transducers = 2,
        amplitudes = [Fin 1, Fin 1], phases = [Fin 0, Fin 0]\<rparr>)
     = Ret [Fin 1, Fin (- 2)]
   \<and> amplitudes (set_complex_amplitudes (map2 polar [1, 2] [0, pi])
       \<lparr>transducer_positions = [], transducer_normals = [], num_transducers = 2,
        amplitudes = [Fin 1, Fin 1], phases = [Fin 0, Fin 0]\<rparr>) = [Fin 1, Fin 2]
   \<and> phases (set_complex_amplitudes (map2 polar [1, 2] [0, pi])
       \<lparr>transducer_positions = [], transducer_normals = [], num_transducers = 2,
        amplitudes = [Fin 1, Fin 1], phases = [Fin 0, Fin 0]\<rparr>) = [Fin 0, Fin pi]"
  using complex_amplitudes_round_trip [of "[1, 2]" "[0, pi]"
      "\<lparr>transducer_positions = [], transducer_normals = [], num_transducers = 2,
        amplitudes = [Fin 1, Fin 1], phases = [Fin 0, Fin 0]\<rparr>"]
  by (simp add: polar_def)

section \<open>The cached evaluator\<close>


lemma np_allclose_refl: "np_allclose a a"
proof -
  have "list_all (\<lambda>(x, y). \<bar>x - y\<bar> \<le> 1 / 10 ^ 8 + 1 / 10 ^ 5 * \<bar>y\<bar>) (zip xs xs)" for xs :: "real list"
    by (induction xs) simp_all
  then show ?thesis
    by (simp add: np_allclose_def)
qed

lemma persistent_hit:
  assumes "cache_hit self positions orders" "stored_spatial_derivatives self = Some stored"
  shows "persistent_spatial_derivatives compute self positions orders = Ret (stored, self)"
  using assms
  by (auto simp: cache_hit_def persistent_spatial_derivatives_def split: option.splits)

lemma persistent_miss:
  assumes "\<not> cache_hit self positions orders" "consistent_evaluator self"
  shows "persistent_spatial_derivatives compute self positions orders =
           py_bind (compute positions orders) (\<lambda>t. Ret (t, cache_slot positions orders t))"
  using assms
  by (auto simp: cache_hit_def consistent_evaluator_def persistent_spatial_derivatives_def
      cache_slot_def split: option.splits)

lemma cache_slot_hit:
  assumes "orders' \<le> orders"
  shows "cache_hit (cache_slot positions orders t) positions orders'"
  using assms by (simp add: cache_hit_def cache_slot_def np_allclose_refl)

lemma init_miss: "\<not> cache_hit persistent_field_evaluator_init positions orders"
  by (simp add: cache_hit_def persistent_field_evaluator_init_def)

lemma init_consistent: "consistent_evaluator persistent_field_evaluator_init"
  by (simp add: consistent_evaluator_def persistent_field_evaluator_init_def)

lemma persistent_consistent:
  assumes "consistent_evaluator self"
    "persistent_spatial_derivatives compute self positions orders = Ret (t, self')"
  shows "consistent_evaluator self'"
proof (cases "cache_hit self positions orders")
  case True
  then obtain stored where "stored_spatial_derivatives self = Some stored"
    by (auto simp: cache_hit_def)
  from persistent_hit [OF True this, of compute] assms show ?thesis
    by simp
next
  case False
  from persistent_miss [OF False assms(1), of compute] assms(2) show ?thesis
    by (cases "compute positions orders") (auto simp: consistent_evaluator_def cache_slot_def)
qed

text \<open>
  C4.  For a consistent evaluator (a stored result comes with stored positions, as
  after the constructor and after every call) and every call of
  \<open>PersistentFieldEvaluator.spatial_derivatives\<close>: if a result is stored, the stored
  orders are at least the requested ones and the positions have the shape of the
  stored positions and are close to them (\<open>np.allclose\<close> with its default tolerances),
  the stored tensor is returned, the evaluator is unchanged and the array's
  \<open>spatial_derivatives\<close> is not called (the result is the same for every such
  method).  Otherwise the array's \<open>spatial_derivatives\<close> is called with the
  positions and orders: what it returns is returned and stored with the positions
  and the orders, replacing what was stored, so that the same positions with
  orders not above these are then served from the store; an exception it raises
  is raised.  The first call after the constructor always computes.
\<close>

theorem persistent_field_evaluator_cache:
  assumes "consistent_evaluator self"
  shows "(\<forall>stored. cache_hit self positions orders \<and> stored_spatial_derivatives self = Some stored \<longrightarrow>
            persistent_spatial_derivatives compute self positions orders = Ret (stored, self)) \<and>
         (\<not> cache_hit self positions orders \<longrightarrow>
            persistent_spatial_derivatives compute self positions orders =
              py_bind (compute positions orders) (\<lambda>t. Ret (t, cache_slot positions orders t))) \<and>
         (\<forall>t. \<not> cache_hit self positions orders \<and> compute positions orders = Ret t \<longrightarrow>
            persistent_spatial_derivatives compute self positions orders =
              Ret (t, cache_slot positions orders t) \<and>
            (\<forall>orders' compute'. orders' \<le> orders \<longrightarrow>
               persistent_spatial_derivatives compute' (cache_slot positions orders t) positions orders'
                 = Ret (t, cache_slot positions orders t))) \<and>
         (\<forall>e. \<not> cache_hit self positions orders \<and> compute positions orders = Raise e \<longrightarrow>
            persistent_spatial_derivatives compute self positions orders = Raise e) \<and>
         (\<forall>t self'. persistent_spatial_derivatives compute self positions orders = Ret (t, self') \<longrightarrow>
            consistent_evaluator self') \<and>
         persistent_spatial_derivatives compute persistent_field_evaluator_init positions orders =
           py_bind (compute positions orders) (\<lambda>t. Ret (t, cache_slot positions orders t))"
proof -
  have 1: "\<forall>stored. cache_hit self positions orders \<and> stored_spatial_derivatives self = Some stored \<longrightarrow>
            persistent_spatial_derivatives compute self positions orders = Ret (stored, self)"
    using persistent_hit [where compute = compute and self = self and positions = positions
        and orders = orders] by simp
  have 2: "\<not> cache_hit self positions orders \<longrightarrow>
            persistent_spatial_derivatives compute self positions orders =
              py_bind (compute positions orders) (\<lambda>t. Ret (t, cache_slot positions orders t))"
    using persistent_miss [OF _ assms, where compute = compute and positions = positions
        and orders = orders] by simp
  have 3: "\<forall>t. \<not> cache_hit self positions orders \<and> compute positions orders = Ret t \<longrightarrow>
            persistent_spatial_derivatives compute self positions orders =
              Ret (t, cache_slot positions orders t) \<and>
            (\<forall>orders' compute'. orders' \<le> orders \<longrightarrow>
               persistent_spatial_derivatives compute' (cache_slot positions orders t) positions orders'
                 = Ret (t, cache_slot positions orders t))"
  proof (intro allI impI conjI)
    fix t
    assume a: "\<not> cache_hit self positions orders \<and> compute positions orders = Ret t"
    then show "persistent_spatial_derivatives compute self positions orders =
              Ret (t, cache_slot positions orders t)"
      using persistent_miss [OF _ assms, where compute = compute and positions = positions
          and orders = orders] by simp
    fix orders' :: int and compute' :: "ndarray \<Rightarrow> int \<Rightarrow> 'a py"
    assume "orders' \<le> orders"
    then show "persistent_spatial_derivatives compute' (cache_slot positions orders t) positions orders'
                 = Ret (t, cache_slot positions orders t)"
      by (intro persistent_hit cache_slot_hit) (simp_all add: cache_slot_def)
  qed
  have 4: "\<forall>e. \<not> cache_hit self positions orders \<and> compute positions orders = Raise e \<longrightarrow>
            persistent_spatial_derivatives compute self positions orders = Raise e"
    using persistent_miss [OF _ assms, where compute = compute and positions = positions
        and orders = orders] by simp
  have 5: "\<forall>t self'. persistent_spatial_derivatives compute self positions orders = Ret (t, self') \<longrightarrow>
            consistent_evaluator self'"
    using persistent_consistent [OF assms, where compute = compute and positions = positions
        and orders = orders] by simp
  have 6: "persistent_spatial_derivatives compute persistent_field_evaluator_init positions orders =
           py_bind (compute positions orders) (\<lambda>t. Ret (t, cache_slot positions orders t))"
    by (rule persistent_miss [OF init_miss init_consistent])
  from 1 2 3 4 5 6 show ?thesis
    by blast
qed

theorem persistent_field_evaluator_cache_witness:
  "consistent_evaluator
     (cache_slot \<lparr>shape = [1, 3], entries = [0, 0, 1]\<rparr> 2 [[Fin (1 :: complex)]]) \<and>
   persistent_spatial_derivatives (\<lambda>positions orders. Ret [[Fin 2]])
       (cache_slot \<lparr>shape = [1, 3], entries = [0, 0, 1]\<rparr> 2 [[Fin (1 :: complex)]])
       \<lparr>shape = [1, 3], entries = [0, 0, 1 + 1 / 10 ^ 9]\<rparr> 1
     = Ret ([[Fin 1]], cache_slot \<lparr>shape = [1, 3], entries = [0, 0, 1]\<rparr> 2 [[Fin 1]]) \<and>
   persistent_spatial_derivatives (\<lambda>positions orders. Ret [[Fin 2]])
       (cache_slot \<lparr>shape = [1, 3], entries = [0, 0, 1]\<rparr> 2 [[Fin (1 :: complex)]])
       \<lparr>shape = [1, 3], entries = [0, 0, 1 + 1 / 10 ^ 9]\<rparr> 3
     = Ret ([[Fin 2]], cache_slot \<lparr>shape = [1, 3], entries = [0, 0, 1 + 1 / 10 ^ 9]\<rparr> 3 [[Fin 2]]) \<and>
   persistent_spatial_derivatives (\<lambda>positions orders. Ret [[Fin 2]])
       (cache_slot \<lparr>shape = [1, 3], entries = [0, 0, 1]\<rparr> 2 [[Fin (1 :: complex)]])
       \<lparr>shape = [1, 3], entries = [0, 0, 2]\<rparr> 1
     = Ret ([[Fin 2]], cache_slot \<lparr>shape = [1, 3], entries = [0, 0, 2]\<rparr> 1 [[Fin 2]])"
proof -
  have c: "consistent_evaluator
     (cache_slot \<lparr>shape = [1, 3], entries = [0, 0, 1]\<rparr> 2 [[Fin (1 :: complex)]])"
    by (simp add: consistent_evaluator_def cache_slot_def)
  show ?thesis
    using c
      persistent_field_evaluator_cache [OF c,
        where compute = "\<lambda>positions orders. Ret [[Fin 2]]"
        and positions = "\<lparr>shape = [1, 3], entries = [0, 0, 1 + 1 / 10 ^ 9]\<rparr>" and orders = 1]
      persistent_field_evaluator_cache [OF c,
        where compute = "\<lambda>positions orders. Ret [[Fin 2]]"
        and positions = "\<lparr>shape = [1, 3], entries = [0, 0, 1 + 1 / 10 ^ 9]\<rparr>" and orders = 3]
      persistent_field_evaluator_cache [OF c,
        where compute = "\<lambda>positions orders. Ret [[Fin 2]]"
        and positions = "\<lparr>shape = [1, 3], entries = [0, 0, 2]\<rparr>" and orders = 1]
    by (simp add: cache_hit_def cache_slot_def np_allclose_def)
qed

section \<open>Stacking the transducers of an array\<close>


lemma py_all_map_ret:
  "\<forall>x\<in>set xs. f x = Ret (g x) \<Longrightarrow> py_all (map f xs) = Ret (map g xs)"
  by (induction xs) simp_all

lemma py_items_tabulate:
  "\<forall>key\<in>set keys. f key = Ret (g key) \<Longrightarrow>
     py_items (map (\<lambda>key. (key, f key)) keys) = Ret (map (\<lambda>key. (key, g key)) keys)"
  by (induction keys) simp_all

lemma array_spatial_derivatives_value:
  assumes nsd: "nsd orders = Ret m"
    and lp: "num_transducers self \<le> length (transducer_positions self)"
    and ln: "num_transducers self \<le> length (transducer_normals self)"
    and model: "\<forall>j<num_transducers self.
        msd (transducer_positions self ! j) (transducer_normals self ! j) recv orders = Ret (per j)
        \<and> length (per j) = m"
  shows "array_spatial_derivatives nsd msd self recv orders =
           Ret (map (\<lambda>i. map (\<lambda>j. per j ! i) [0..<num_transducers self]) [0..<m])"
proof -
  have col: "\<forall>idx\<in>set [0..<num_transducers self].
      py_bind (py_index (transducer_positions self) idx) (\<lambda>position.
      py_bind (py_index (transducer_normals self) idx) (\<lambda>normal.
      py_bind (msd position normal recv orders) (fit_rows m))) = Ret (per idx)"
    using lp ln model by (auto simp: py_index_def fit_rows_def)
  show ?thesis
    unfolding array_spatial_derivatives_def nsd py_bind.simps py_all_map_ret [OF col]
    by (simp add: comp_def)
qed

lemma array_spatial_derivatives_unweighted:
  "array_spatial_derivatives nsd msd (self\<lparr>amplitudes := a, phases := p\<rparr>) recv orders =
     array_spatial_derivatives nsd msd self recv orders"
  by (simp add: array_spatial_derivatives_def)

lemma legacy_spatial_derivatives_unweighted:
  "legacy_spatial_derivatives msd (self\<lparr>amplitudes := a, phases := p\<rparr>) focus orders =
     legacy_spatial_derivatives msd self focus orders"
  by (simp add: legacy_spatial_derivatives_def)

lemma legacy_spatial_derivatives_value:
  assumes focus: "focus \<noteq> Higher"
    and lp: "num_transducers self \<le> length (transducer_positions self)"
    and ln: "num_transducers self \<le> length (transducer_normals self)"
    and model: "\<forall>j<num_transducers self.
        msd (transducer_positions self ! j) (transducer_normals self ! j) focus orders = Ret (dict j)"
    and entries: "\<forall>j<num_transducers self. \<forall>key\<in>set (legacy_keys orders).
        map_of (dict j) key = Some (col j key) \<and> fit_column focus (col j key) = Ret (col j key)"
  shows "legacy_spatial_derivatives msd self focus orders =
           Ret (map (\<lambda>key. (key, stack_columns focus (map (\<lambda>j. col j key) [0..<num_transducers self])))
                  (legacy_keys orders))"
proof -
  have items: "py_items (map (\<lambda>key. (key, py_bind (getitem (dict j) key) (fit_column focus)))
                  (legacy_keys orders))
                = Ret (map (\<lambda>key. (key, col j key)) (legacy_keys orders))"
    if "j < num_transducers self" for j
    using entries that by (intro py_items_tabulate) (simp add: getitem_def)
  have col: "\<forall>idx\<in>set [0..<num_transducers self].
      py_bind (py_index (transducer_positions self) idx) (\<lambda>position.
      py_bind (py_index (transducer_normals self) idx) (\<lambda>normal.
      py_bind (msd position normal focus orders) (\<lambda>transducer_derivatives.
        py_items (map (\<lambda>key. (key, py_bind (getitem transducer_derivatives key) (fit_column focus)))
          (legacy_keys orders)))))
      = Ret (map (\<lambda>key. (key, col idx key)) (legacy_keys orders))"
    using lp ln model items by (auto simp: py_index_def)
  show ?thesis
    unfolding legacy_spatial_derivatives_def py_all_map_ret [OF col]
    using focus by (simp add: comp_def map_of_tabulate cong: map_cong)
qed

lemma nth_tabulate2:
  assumes "i < m" "j < n"
  shows "map (\<lambda>i. map (\<lambda>j. f i j) [0..<n]) [0..<m] ! i ! j = f i j"
    and "length (map (\<lambda>i. map (\<lambda>j. f i j) [0..<n]) [0..<m] ! i) = n"
  using assms by simp_all

text \<open>
  C6.  For an array whose positions and normals have a row for each of its \<open>N\<close>
  transducers.  \<open>TransducerArray.spatial_derivatives\<close> of \<open>arrays.py\<close>: when the table
  gives \<open>m\<close> derivatives for the orders and the transducer model returns \<open>m\<close> rows for
  every transducer, the result has \<open>m\<close> rows of \<open>N\<close> cells, and the cell \<open>[i][j]\<close> is row
  \<open>i\<close> of what the model returned for transducer \<open>j\<close>: the derivative axis is first, the
  transducer axis second, then the axes of the receiver positions.  The method of
  \<open>models.py\<close> returns a dictionary with the keys of the orders; for one point the
  array under a key has the \<open>N\<close> values of the transducers, and for a list of points
  it has a row for each point and in it the \<open>N\<close> values of the transducers for that
  point: the transducer axis is the last one.  Neither result depends on the
  amplitudes or the phases of the array.
\<close>

theorem array_spatial_derivatives_layout:
  assumes "num_transducers self \<le> length (transducer_positions self)"
    and "num_transducers self \<le> length (transducer_normals self)"
  shows "(\<forall>m per.
            nsd orders = Ret m \<and>
            (\<forall>j<num_transducers self.
               msd (transducer_positions self ! j) (transducer_normals self ! j) recv orders
                 = Ret (per j) \<and> length (per j) = m) \<longrightarrow>
            (\<exists>d. array_spatial_derivatives nsd msd self recv orders = Ret d \<and> length d = m \<and>
                 (\<forall>i<m. length (d ! i) = num_transducers self \<and>
                    (\<forall>j<num_transducers self. d ! i ! j = per j ! i)))) \<and>
         array_spatial_derivatives nsd msd (self\<lparr>amplitudes := a, phases := p\<rparr>) recv orders
           = array_spatial_derivatives nsd msd self recv orders \<and>
         (\<forall>dict vals.
            (\<forall>j<num_transducers self.
               lmsd (transducer_positions self ! j) (transducer_normals self ! j) (Single point) orders
                 = Ret (dict j) \<and>
               (\<forall>key\<in>set (legacy_keys orders). map_of (dict j) key = Some (Single (vals j key)))) \<longrightarrow>
            (\<exists>res. legacy_spatial_derivatives lmsd self (Single point) orders = Ret res \<and>
                 map fst res = legacy_keys orders \<and>
                 (\<forall>key\<in>set (legacy_keys orders).
                    \<exists>xs. map_of res key = Some (Single xs) \<and> length xs = num_transducers self \<and>
                      (\<forall>j<num_transducers self. xs ! j = vals j key)))) \<and>
         (\<forall>dict vals.
            (\<forall>j<num_transducers self.
               lmsd (transducer_positions self ! j) (transducer_normals self ! j) (Batch points) orders
                 = Ret (dict j) \<and>
               (\<forall>key\<in>set (legacy_keys orders).
                  map_of (dict j) key = Some (Batch (vals j key)) \<and>
                  length (vals j key) = length points)) \<longrightarrow>
            (\<exists>res. legacy_spatial_derivatives lmsd self (Batch points) orders = Ret res \<and>
                 map fst res = legacy_keys orders \<and>
                 (\<forall>key\<in>set (legacy_keys orders).
                    \<exists>rows. map_of res key = Some (Batch rows) \<and> length rows = length points \<and>
                      (\<forall>r<length points. length (rows ! r) = num_transducers self \<and>
                         (\<forall>j<num_transducers self. rows ! r ! j = vals j key ! r))))) \<and>
         legacy_spatial_derivatives lmsd (self\<lparr>amplitudes := a, phases := p\<rparr>) focus orders
           = legacy_spatial_derivatives lmsd self focus orders"
proof (intro conjI allI impI)
  fix m :: nat and per :: "nat \<Rightarrow> 'a list"
  assume h: "nsd orders = Ret m \<and>
            (\<forall>j<num_transducers self.
               msd (transducer_positions self ! j) (transducer_normals self ! j) recv orders
                 = Ret (per j) \<and> length (per j) = m)"
  have v: "array_spatial_derivatives nsd msd self recv orders =
           Ret (map (\<lambda>i. map (\<lambda>j. per j ! i) [0..<num_transducers self]) [0..<m])"
    using h by (intro array_spatial_derivatives_value assms) simp_all
  show "\<exists>d. array_spatial_derivatives nsd msd self recv orders = Ret d \<and> length d = m \<and>
                 (\<forall>i<m. length (d ! i) = num_transducers self \<and>
                    (\<forall>j<num_transducers self. d ! i ! j = per j ! i))"
    unfolding v by simp
next
  show "array_spatial_derivatives nsd msd (self\<lparr>amplitudes := a, phases := p\<rparr>) recv orders
           = array_spatial_derivatives nsd msd self recv orders"
    by (rule array_spatial_derivatives_unweighted)
next
  fix dict :: "nat \<Rightarrow> 'c field dict" and vals :: "nat \<Rightarrow> string \<Rightarrow> 'c"
  assume h: "\<forall>j<num_transducers self.
               lmsd (transducer_positions self ! j) (transducer_normals self ! j) (Single point) orders
                 = Ret (dict j) \<and>
               (\<forall>key\<in>set (legacy_keys orders). map_of (dict j) key = Some (Single (vals j key)))"
  have v: "legacy_spatial_derivatives lmsd self (Single point) orders =
           Ret (map (\<lambda>key. (key, stack_columns (Single point)
                                  (map (\<lambda>j. Single (vals j key)) [0..<num_transducers self])))
                  (legacy_keys orders))"
    using h by (intro legacy_spatial_derivatives_value [where dict = dict] assms) simp_all
  show "\<exists>res. legacy_spatial_derivatives lmsd self (Single point) orders = Ret res \<and>
                 map fst res = legacy_keys orders \<and>
                 (\<forall>key\<in>set (legacy_keys orders).
                    \<exists>xs. map_of res key = Some (Single xs) \<and> length xs = num_transducers self \<and>
                      (\<forall>j<num_transducers self. xs ! j = vals j key))"
    unfolding v by (simp add: comp_def map_of_tabulate)
next
  fix dict :: "nat \<Rightarrow> 'c field dict" and vals :: "nat \<Rightarrow> string \<Rightarrow> 'c list"
  assume h: "\<forall>j<num_transducers self.
               lmsd (transducer_positions self ! j) (transducer_normals self ! j) (Batch points) orders
                 = Ret (dict j) \<and>
               (\<forall>key\<in>set (legacy_keys orders).
                  map_of (dict j) key = Some (Batch (vals j key)) \<and>
                  length (vals j key) = length points)"
  have v: "legacy_spatial_derivatives lmsd self (Batch points) orders =
           Ret (map (\<lambda>key. (key, stack_columns (Batch points)
                                  (map (\<lambda>j. Batch (vals j key)) [0..<num_transducers self])))
                  (legacy_keys orders))"
    using h by (intro legacy_spatial_derivatives_value [where dict = dict] assms) simp_all
  show "\<exists>res. legacy_spatial_derivatives lmsd self (Batch points) orders = Ret res \<and>
                 map fst res = legacy_keys orders \<and>
                 (\<forall>key\<in>set (legacy_keys orders).
                    \<exists>rows. map_of res key = Some (Batch rows) \<and> length rows = length points \<and>
                      (\<forall>r<length points. length (rows ! r) = num_transducers self \<and>
                         (\<forall>j<num_transducers self. rows ! r ! j = vals j key ! r)))"
    unfolding v by (simp add: comp_def map_of_tabulate)
next
  show "legacy_spatial_derivatives lmsd (self\<lparr>amplitudes := a, phases := p\<rparr>) focus orders
           = legacy_spatial_derivatives lmsd self focus orders"
    by (rule legacy_spatial_derivatives_unweighted)
qed

theorem array_spatial_derivatives_layout_witness:
  "num_transducers \<lparr>transducer_positions = [vfin (0, 0, 0), vfin (1, 0, 0)],
        transducer_normals = [vfin (0, 0, 1), vfin (0, 0, 1)],
        num_transducers = 2, amplitudes = [Fin 1, Fin 1], phases = [Fin 0, Fin 0]\<rparr>
     \<le> length [vfin (0, 0, 0), vfin (1, 0, 0)] \<and>
   array_spatial_derivatives (\<lambda>orders. Ret 1)
       (\<lambda>position normal receiver_position orders. Ret [[fst position, fst receiver_position]])
       \<lparr>transducer_positions = [vfin (0, 0, 0), vfin (1, 0, 0)],
        transducer_normals = [vfin (0, 0, 1), vfin (0, 0, 1)],
        num_transducers = 2, amplitudes = [Fin 1, Fin 1], phases = [Fin 0, Fin 0]\<rparr>
       (vfin (5, 0, 0)) 0
     = Ret [[[Fin 0, Fin 5], [Fin 1, Fin 5]]] \<and>
   array_spatial_derivatives (\<lambda>orders. Ret 1)
       (\<lambda>position normal receiver_position orders. Ret [[fst position, fst receiver_position]])
       \<lparr>transducer_positions = [vfin (0, 0, 0), vfin (1, 0, 0)],
        transducer_normals = [vfin (0, 0, 1), vfin (0, 0, 1)],
        num_transducers = 2, amplitudes = [Fin 3, Fin 4], phases = [Fin 1, Fin 2]\<rparr>
       (vfin (5, 0, 0)) 0
     = Ret [[[Fin 0, Fin 5], [Fin 1, Fin 5]]] \<and>
   legacy_spatial_derivatives
       (\<lambda>position normal focus orders. Ret [('''', Batch [fst position, fst normal])])
       \<lparr>transducer_positions = [vfin (0, 0, 0), vfin (1, 0, 0)],
        transducer_normals = [vfin (0, 0, 1), vfin (0, 0, 1)],
        num_transducers = 2, amplitudes = [Fin 1, Fin 1], phases = [Fin 0, Fin 0]\<rparr>
       (Batch [vfin (0, 0, 1), vfin (0, 0, 2)]) 0
     = Ret [('''', Batch [[Fin 0, Fin 1], [Fin 0, Fin 0]])]"
proof -
  define arr where "arr = \<lparr>transducer_positions = [vfin (0, 0, 0), vfin (1, 0, 0)],
        transducer_normals = [vfin (0, 0, 1), vfin (0, 0, 1)],
        num_transducers = 2, amplitudes = [Fin 1, Fin 1], phases = [Fin (0 :: real), Fin 0]\<rparr>"
  have l: "num_transducers arr \<le> length (transducer_positions arr)"
    "num_transducers arr \<le> length (transducer_normals arr)"
    by (simp_all add: arr_def)
  have two: "[0..<2] = [0, 1]"
    by (simp add: upt_rec)
  have e1: "array_spatial_derivatives (\<lambda>orders. Ret 1)
       (\<lambda>position normal receiver_position orders. Ret [[fst position, fst receiver_position]])
       arr (vfin (5, 0, 0)) 0
     = Ret [[[Fin 0, Fin 5], [Fin 1, Fin 5]]]"
    by (simp add: arr_def array_spatial_derivatives_def py_index_def fit_rows_def two vfin_def)
  have e2: "legacy_spatial_derivatives
       (\<lambda>position normal focus orders. Ret [('''', Batch [fst position, fst normal])])
       arr (Batch [vfin (0, 0, 1), vfin (0, 0, 2)]) 0
     = Ret [('''', Batch [[Fin 0, Fin 1], [Fin 0, Fin 0]])]"
    by (simp add: arr_def legacy_spatial_derivatives_def legacy_keys_def py_index_def
        getitem_def two vfin_def)
  have u: "array_spatial_derivatives (\<lambda>orders. Ret 1)
       (\<lambda>position normal receiver_position orders. Ret [[fst position, fst receiver_position]])
       (arr\<lparr>amplitudes := [Fin 3, Fin 4], phases := [Fin 1, Fin 2]\<rparr>) (vfin (5, 0, 0)) 0
     = array_spatial_derivatives (\<lambda>orders. Ret 1)
       (\<lambda>position normal receiver_position orders. Ret [[fst position, fst receiver_position]])
       arr (vfin (5, 0, 0)) 0"
    using array_spatial_derivatives_layout [OF l,
        where nsd = "\<lambda>orders. Ret 1" and orders = 0
        and msd = "\<lambda>position normal receiver_position orders. Ret [[fst position, fst receiver_position]]"
        and recv = "vfin (5, 0, 0)" and a = "[Fin 3, Fin 4]" and p = "[Fin 1, Fin 2]"
        and lmsd = "\<lambda>position normal focus orders. Ret [('''', Batch [fst position, fst normal])]"
        and points = "[vfin (0, 0, 1), vfin (0, 0, 2)]" and point = "vfin (0, 0, 1)"
        and focus = "Batch [vfin (0, 0, 1), vfin (0, 0, 2)]"]
    by (rule conjunct1 [OF conjunct2])
  have u': "array_spatial_derivatives (\<lambda>orders. Ret 1)
       (\<lambda>position normal receiver_position orders. Ret [[fst position, fst receiver_position]])
       (arr\<lparr>amplitudes := [Fin 3, Fin 4], phases := [Fin 1, Fin 2]\<rparr>) (vfin (5, 0, 0)) 0
     = Ret [[[Fin 0, Fin 5], [Fin 1, Fin 5]]]"
    using u e1 by simp
  show ?thesis
    using l(1) e1 e2 u' by (simp add: arr_def)
qed

text \<open>
  With one transducer and two points, for a model that returns the values \<open>v1\<close> and
  \<open>v2\<close> under the key of order 0, the method of \<open>models.py\<close> returns under that key
  the array \<open>[[v1], [v2]]\<close> of shape \<open>(2, 1)\<close>, points first; the array with the
  transducer axis before the points is \<open>[[v1, v2]]\<close>, of shape \<open>(1, 2)\<close>.
\<close>

theorem legacy_spatial_derivatives_batch_layout:
  "\<forall>v1 v2 :: complex np.
     legacy_spatial_derivatives (\<lambda>position normal focus orders. Ret [('''', Batch [v1, v2])])
       \<lparr>transducer_positions = [vfin (0, 0, 0)], transducer_normals = [vfin (0, 0, 1)],
        num_transducers = 1, amplitudes = [Fin 1], phases = [Fin 0]\<rparr>
       (Batch [vfin (0, 0, 1), vfin (0, 0, 2)]) 0
     = Ret [('''', Batch [[v1], [v2]])] \<and>
     legacy_spatial_derivatives (\<lambda>position normal focus orders. Ret [('''', Batch [v1, v2])])
       \<lparr>transducer_positions = [vfin (0, 0, 0)], transducer_normals = [vfin (0, 0, 1)],
        num_transducers = 1, amplitudes = [Fin 1], phases = [Fin 0]\<rparr>
       (Batch [vfin (0, 0, 1), vfin (0, 0, 2)]) 0
     \<noteq> Ret [('''', transducer_rows [Batch [v1, v2]])] \<and>
     transducer_rows [Batch [v1, v2]] = Batch [[v1, v2]]"
  by (simp add: legacy_spatial_derivatives_def legacy_keys_def py_index_def getitem_def
      transducer_rows_def)

end
